theory Spec2Isabelle
  imports Main
begin

section \<open>JSON\<close>

text \<open>
  \<^verbatim>\<open>JSON.stringify\<close> and \<^verbatim>\<open>JSON.parse\<close> of the platform, on the documents the
  stores hold: objects, arrays, strings, and the literals \<^verbatim>\<open>null\<close>, \<^verbatim>\<open>true\<close>,
  \<^verbatim>\<open>false\<close> (no numbers: the stores hold none). A text is a byte string.
\<close>

abbreviation dquote :: char where "dquote \<equiv> CHR 0x22"
abbreviation bslash :: char where "bslash \<equiv> CHR 0x5C"

text \<open>A document, as \<^verbatim>\<open>JSON.parse\<close> returns it; an object keeps its members in order.\<close>

datatype json = JNull | JBool bool | JString string | JArray "json list" | JObject "(string \<times> json) list"

text \<open>
  A string in a text (\<^verbatim>\<open>QuoteJSONString\<close>): the quote and the backslash are escaped, the
  control characters below \<open>0x20\<close> are written by their short escape or as \<^verbatim>\<open>\u00XX\<close> in
  lower-case hexadecimal, every other byte stands for itself.
\<close>

definition hex_digit :: "nat \<Rightarrow> char" where
  "hex_digit n = (if n < 10 then char_of (48 + n) else char_of (87 + n))"

definition hex_value :: "char \<Rightarrow> nat option" where
  "hex_value c = (let n = (of_char c :: nat) in
     if 48 \<le> n \<and> n \<le> 57 then Some (n - 48)
     else if 97 \<le> n \<and> n \<le> 102 then Some (n - 87)
     else if 65 \<le> n \<and> n \<le> 70 then Some (n - 55)
     else None)"

definition quote_char :: "char \<Rightarrow> string" where
  "quote_char c =
     (if c = dquote then [bslash, dquote]
      else if c = bslash then [bslash, bslash]
      else if c = CHR 0x08 then [bslash, CHR ''b'']
      else if c = CHR 0x0C then [bslash, CHR ''f'']
      else if c = CHR 0x0A then [bslash, CHR ''n'']
      else if c = CHR 0x0D then [bslash, CHR ''r'']
      else if c = CHR 0x09 then [bslash, CHR ''t'']
      else if (of_char c :: nat) < 32 then
        [bslash, CHR ''u'', CHR ''0'', CHR ''0'',
         hex_digit ((of_char c :: nat) div 16), hex_digit ((of_char c :: nat) mod 16)]
      else [c])"

definition quote_string :: "string \<Rightarrow> string" where
  "quote_string s = dquote # concat (map quote_char s) @ [dquote]"

text \<open>
  Reading a string after its opening quote: the string and the rest of the text behind
  the closing quote. A raw control character, an unknown escape and an unfinished string
  are syntax errors. Of the \<^verbatim>\<open>\uXXXX\<close> escapes those of one byte are read (the others, which
  \<^verbatim>\<open>JSON.stringify\<close> never writes for these stores, are taken as syntax errors).
\<close>

fun unquote :: "string \<Rightarrow> (string \<times> string) option" where
  "unquote [] = None"
| "unquote (c # cs) =
     (if c = dquote then Some ([], cs)
      else if c = bslash then
        (case cs of
           [] \<Rightarrow> None
         | e # es \<Rightarrow>
             if e = CHR ''u'' then
               (case es of
                  h1 # h2 # h3 # h4 # rest \<Rightarrow>
                    (case (hex_value h1, hex_value h2, hex_value h3, hex_value h4) of
                       (Some a, Some b, Some c', Some d) \<Rightarrow>
                         if a = 0 \<and> b = 0 then
                           map_option (\<lambda>(s, r). (char_of (c' * 16 + d) # s, r)) (unquote rest)
                         else None
                     | _ \<Rightarrow> None)
                | _ \<Rightarrow> None)
             else
               (case (if e = dquote then Some dquote
                      else if e = bslash then Some bslash
                      else if e = CHR ''/'' then Some (CHR ''/'')
                      else if e = CHR ''b'' then Some (CHR 0x08)
                      else if e = CHR ''f'' then Some (CHR 0x0C)
                      else if e = CHR ''n'' then Some (CHR 0x0A)
                      else if e = CHR ''r'' then Some (CHR 0x0D)
                      else if e = CHR ''t'' then Some (CHR 0x09)
                      else None) of
                  None \<Rightarrow> None
                | Some ch \<Rightarrow> map_option (\<lambda>(s, r). (ch # s, r)) (unquote es)))
      else if (of_char c :: nat) < 32 then None
      else map_option (\<lambda>(s, r). (c # s, r)) (unquote cs))"

text \<open>\<^verbatim>\<open>JSON.stringify\<close> with no indentation: members and elements are joined by commas.\<close>

fun commas :: "string list \<Rightarrow> string" where
  "commas [] = []"
| "commas [x] = x"
| "commas (x # y # ys) = x @ CHR '','' # commas (y # ys)"

definition member_text :: "string \<times> string \<Rightarrow> string" where
  "member_text kv = quote_string (fst kv) @ CHR '':'' # snd kv"

primrec JSON_stringify :: "json \<Rightarrow> string" where
  "JSON_stringify JNull = ''null''"
| "JSON_stringify (JBool b) = (if b then ''true'' else ''false'')"
| "JSON_stringify (JString s) = quote_string s"
| "JSON_stringify (JArray xs) = CHR ''['' # commas (map JSON_stringify xs) @ '']''"
| "JSON_stringify (JObject kvs) =
     CHR ''{'' # commas (map member_text (map (map_prod id JSON_stringify) kvs)) @ ''}''"

text \<open>
  \<^verbatim>\<open>JSON.parse\<close>: a value, with white space allowed around every token; \<open>None\<close> is the
  \<^verbatim>\<open>SyntaxError\<close>. The first argument of \<open>parse_value\<close> bounds the number of nested
  calls; the length of the text is always enough.
\<close>

definition is_ws :: "char \<Rightarrow> bool" where
  "is_ws c \<longleftrightarrow> c = CHR '' '' \<or> c = CHR 0x09 \<or> c = CHR 0x0A \<or> c = CHR 0x0D"

abbreviation skip_ws :: "string \<Rightarrow> string" where
  "skip_ws \<equiv> dropWhile is_ws"

fun parse_value :: "nat \<Rightarrow> string \<Rightarrow> (json \<times> string) option"
and parse_elements :: "nat \<Rightarrow> string \<Rightarrow> (json list \<times> string) option"
and parse_members :: "nat \<Rightarrow> string \<Rightarrow> ((string \<times> json) list \<times> string) option"
where
  "parse_value 0 s = None"
| "parse_value (Suc n) s =
     (case skip_ws s of
        [] \<Rightarrow> None
      | c # cs \<Rightarrow>
          if c = dquote then map_option (\<lambda>(t, r). (JString t, r)) (unquote cs)
          else if c = CHR ''['' then
            (case skip_ws cs of
               [] \<Rightarrow> None
             | d # ds \<Rightarrow>
                 if d = CHR '']'' then Some (JArray [], ds)
                 else map_option (\<lambda>(vs, r). (JArray vs, r)) (parse_elements n cs))
          else if c = CHR ''{'' then
            (case skip_ws cs of
               [] \<Rightarrow> None
             | d # ds \<Rightarrow>
                 if d = CHR ''}'' then Some (JObject [], ds)
                 else map_option (\<lambda>(ms, r). (JObject ms, r)) (parse_members n cs))
          else if take 4 (c # cs) = ''null'' then Some (JNull, drop 4 (c # cs))
          else if take 4 (c # cs) = ''true'' then Some (JBool True, drop 4 (c # cs))
          else if take 5 (c # cs) = ''false'' then Some (JBool False, drop 5 (c # cs))
          else None)"
| "parse_elements 0 s = None"
| "parse_elements (Suc n) s =
     (case parse_value n s of
        None \<Rightarrow> None
      | Some (v, r) \<Rightarrow>
          (case skip_ws r of
             [] \<Rightarrow> None
           | c # cs \<Rightarrow>
               if c = CHR '','' then map_option (\<lambda>(vs, r'). (v # vs, r')) (parse_elements n cs)
               else if c = CHR '']'' then Some ([v], cs)
               else None))"
| "parse_members 0 s = None"
| "parse_members (Suc n) s =
     (case skip_ws s of
        [] \<Rightarrow> None
      | c # cs \<Rightarrow>
          if c \<noteq> dquote then None
          else
            (case unquote cs of
               None \<Rightarrow> None
             | Some (k, r) \<Rightarrow>
                 (case skip_ws r of
                    [] \<Rightarrow> None
                  | c1 # r1 \<Rightarrow>
                      if c1 \<noteq> CHR '':'' then None
                      else
                        (case parse_value n r1 of
                           None \<Rightarrow> None
                         | Some (v, r2) \<Rightarrow>
                             (case skip_ws r2 of
                                [] \<Rightarrow> None
                              | c2 # r3 \<Rightarrow>
                                  if c2 = CHR '','' then
                                    map_option (\<lambda>(ms, r'). ((k, v) # ms, r')) (parse_members n r3)
                                  else if c2 = CHR ''}'' then Some ([(k, v)], r3)
                                  else None)))))"

definition JSON_parse :: "string \<Rightarrow> json option" where
  "JSON_parse s =
     (case parse_value (length s) s of
        None \<Rightarrow> None
      | Some (v, r) \<Rightarrow> if skip_ws r = [] then Some v else None)"

text \<open>The nesting of a document: enough steps for \<open>parse_value\<close> to read its text.\<close>

fun fuel :: "json \<Rightarrow> nat" where
  "fuel JNull = 1"
| "fuel (JBool b) = 1"
| "fuel (JString s) = 1"
| "fuel (JArray xs) = Suc (sum_list (map (\<lambda>x. Suc (fuel x)) xs))"
| "fuel (JObject kvs) = Suc (sum_list (map (\<lambda>kv. Suc (fuel (snd kv))) kvs))"

section \<open>Data model\<close>

text \<open>
  Modelled from the spec: the declarations of \<^verbatim>\<open>Message\<close> and \<^verbatim>\<open>ChatSession\<close>, which the
  sources import from \<^verbatim>\<open>types\<close> (a file that is not among them). A message has a sender,
  \<^verbatim>\<open>'user'\<close> or \<^verbatim>\<open>'model'\<close>, a text, and optionally an image URL and a video URL; a
  session has an id, a title and its messages in order. The fields are named as the
  sources use them (\<open>session_id\<close> is \<^verbatim>\<open>id\<close>, \<open>msg_text\<close> is \<^verbatim>\<open>text\<close>).
\<close>

datatype sender = User | Model

record message =
  sender :: sender
  msg_text :: string
  imageUrl :: "string option"
  videoUrl :: "string option"

record chat_session =
  session_id :: string
  title :: string
  messages :: "message list"

text \<open>
  What \<^verbatim>\<open>JSON.stringify\<close> makes of a collection: the members in the order the sources
  create them, a member that is \<^verbatim>\<open>undefined\<close> left out.
\<close>

definition sender_name :: "sender \<Rightarrow> string" where
  "sender_name s = (case s of User \<Rightarrow> ''user'' | Model \<Rightarrow> ''model'')"

definition message_json :: "message \<Rightarrow> json" where
  "message_json m =
     JObject ([(''sender'', JString (sender_name (sender m))), (''text'', JString (msg_text m))]
       @ (case imageUrl m of None \<Rightarrow> [] | Some u \<Rightarrow> [(''imageUrl'', JString u)])
       @ (case videoUrl m of None \<Rightarrow> [] | Some u \<Rightarrow> [(''videoUrl'', JString u)]))"

definition session_json :: "chat_session \<Rightarrow> json" where
  "session_json s =
     JObject [(''id'', JString (session_id s)), (''title'', JString (title s)),
              (''messages'', JArray (map message_json (messages s)))]"

definition sessions_json :: "chat_session list \<Rightarrow> json" where
  "sessions_json history = JArray (map session_json history)"

definition strings_json :: "string list \<Rightarrow> json" where
  "strings_json history = JArray (map JString history)"

text \<open>
  What the sources read in a parsed document: the member of a name (the last one, where a
  name occurs twice), a string, an array. \<open>None\<close> is a document of another shape than the
  declared type.
\<close>

definition property :: "(string \<times> json) list \<Rightarrow> string \<Rightarrow> json option" where
  "property kvs k = map_of (rev kvs) k"

fun as_string :: "json \<Rightarrow> string option" where
  "as_string (JString s) = Some s"
| "as_string _ = None"

fun as_sender :: "json \<Rightarrow> sender option" where
  "as_sender (JString s) =
     (if s = ''user'' then Some User else if s = ''model'' then Some Model else None)"
| "as_sender _ = None"

definition optional_string :: "(string \<times> json) list \<Rightarrow> string \<Rightarrow> string option option" where
  "optional_string kvs k =
     (case property kvs k of
        None \<Rightarrow> Some None
      | Some v \<Rightarrow> map_option Some (as_string v))"

fun as_message :: "json \<Rightarrow> message option" where
  "as_message (JObject kvs) =
     (case (Option.bind (property kvs ''sender'') as_sender,
            Option.bind (property kvs ''text'') as_string,
            optional_string kvs ''imageUrl'', optional_string kvs ''videoUrl'') of
        (Some s, Some t, Some i, Some v) \<Rightarrow>
          Some \<lparr>sender = s, msg_text = t, imageUrl = i, videoUrl = v\<rparr>
      | _ \<Rightarrow> None)"
| "as_message _ = None"

fun as_array :: "(json \<Rightarrow> 'a option) \<Rightarrow> json \<Rightarrow> 'a list option" where
  "as_array f (JArray xs) = those (map f xs)"
| "as_array f _ = None"

fun as_session :: "json \<Rightarrow> chat_session option" where
  "as_session (JObject kvs) =
     (case (Option.bind (property kvs ''id'') as_string,
            Option.bind (property kvs ''title'') as_string,
            Option.bind (property kvs ''messages'') (as_array as_message)) of
        (Some i, Some t, Some ms) \<Rightarrow> Some \<lparr>session_id = i, title = t, messages = ms\<rparr>
      | _ \<Rightarrow> None)"
| "as_session _ = None"

section \<open>Platform strings\<close>

text \<open>
  JavaScript strings are modelled as byte strings in UTF-8. The letters outside ASCII that
  the source's literals use are named here.
\<close>

abbreviation a_acute :: string where "a_acute \<equiv> [CHR 0xC3, CHR 0xA1]"
abbreviation a_tilde :: string where "a_tilde \<equiv> [CHR 0xC3, CHR 0xA3]"
abbreviation c_cedilla :: string where "c_cedilla \<equiv> [CHR 0xC3, CHR 0xA7]"
abbreviation e_acute :: string where "e_acute \<equiv> [CHR 0xC3, CHR 0xA9]"
abbreviation e_circumflex :: string where "e_circumflex \<equiv> [CHR 0xC3, CHR 0xAA]"
abbreviation i_acute :: string where "i_acute \<equiv> [CHR 0xC3, CHR 0xAD]"
abbreviation I_acute :: string where "I_acute \<equiv> [CHR 0xC3, CHR 0x8D]"
abbreviation o_acute :: string where "o_acute \<equiv> [CHR 0xC3, CHR 0xB3]"
abbreviation o_tilde :: string where "o_tilde \<equiv> [CHR 0xC3, CHR 0xB5]"
abbreviation u_acute :: string where "u_acute \<equiv> [CHR 0xC3, CHR 0xBA]"
abbreviation nbsp :: string where "nbsp \<equiv> [CHR 0xC2, CHR 0xA0]"
abbreviation ideographic_space :: string where "ideographic_space \<equiv> [CHR 0xE3, CHR 0x80, CHR 0x80]"
abbreviation warning_sign :: string where "warning_sign \<equiv> [CHR 0xE2, CHR 0x9A, CHR 0xA0, CHR 0xEF, CHR 0xB8, CHR 0x8F]"
abbreviation clapper_board :: string where "clapper_board \<equiv> [CHR 0xF0, CHR 0x9F, CHR 0x8E, CHR 0xAC]"

definition startsWith :: "string \<Rightarrow> string \<Rightarrow> bool" where
  "startsWith s sub \<longleftrightarrow> take (length sub) s = sub"

text \<open>\<^verbatim>\<open>String.prototype.includes\<close>: \<open>sub\<close> occurs in \<open>s\<close> as a contiguous run.\<close>

fun str_includes :: "string \<Rightarrow> string \<Rightarrow> bool" where
  "str_includes [] sub \<longleftrightarrow> sub = []"
| "str_includes (c # cs) sub \<longleftrightarrow> startsWith (c # cs) sub \<or> str_includes cs sub"

text \<open>
  A text is read as its characters: the UTF-8 sequences of its code points, each as long
  as its first byte announces.
\<close>

definition width :: "char \<Rightarrow> nat" where
  "width c =
     (let n = (of_char c :: nat) in
      if n < 0xC0 then 1 else if n < 0xE0 then 2 else if n < 0xF0 then 3 else 4)"

fun characters :: "string \<Rightarrow> string list" where
  "characters [] = []"
| "characters (c # cs) = (c # take (width c - 1) cs) # characters (drop (width c - 1) cs)"

text \<open>
  White space, for \<^verbatim>\<open>trim\<close> and for the class \<^verbatim>\<open>\s\<close> of a regular expression alike
  (\<^verbatim>\<open>WhiteSpace\<close> and \<^verbatim>\<open>LineTerminator\<close> of ECMAScript): the characters U+0009 to
  U+000D, U+0020, U+00A0, U+1680, U+2000 to U+200A, U+2028, U+2029, U+202F, U+205F, U+3000
  and U+FEFF.
\<close>

definition is_space :: "string \<Rightarrow> bool" where
  "is_space ch \<longleftrightarrow>
     ch \<in> set [[CHR 0x09], [CHR 0x0A], [CHR 0x0B], [CHR 0x0C], [CHR 0x0D], [CHR 0x20],
               [CHR 0xC2, CHR 0xA0], [CHR 0xE1, CHR 0x9A, CHR 0x80],
               [CHR 0xE2, CHR 0x80, CHR 0x80], [CHR 0xE2, CHR 0x80, CHR 0x81],
               [CHR 0xE2, CHR 0x80, CHR 0x82], [CHR 0xE2, CHR 0x80, CHR 0x83],
               [CHR 0xE2, CHR 0x80, CHR 0x84], [CHR 0xE2, CHR 0x80, CHR 0x85],
               [CHR 0xE2, CHR 0x80, CHR 0x86], [CHR 0xE2, CHR 0x80, CHR 0x87],
               [CHR 0xE2, CHR 0x80, CHR 0x88], [CHR 0xE2, CHR 0x80, CHR 0x89],
               [CHR 0xE2, CHR 0x80, CHR 0x8A], [CHR 0xE2, CHR 0x80, CHR 0xA8],
               [CHR 0xE2, CHR 0x80, CHR 0xA9], [CHR 0xE2, CHR 0x80, CHR 0xAF],
               [CHR 0xE2, CHR 0x81, CHR 0x9F], [CHR 0xE3, CHR 0x80, CHR 0x80],
               [CHR 0xEF, CHR 0xBB, CHR 0xBF]]"

text \<open>\<^verbatim>\<open>String.prototype.trim\<close>: the white space at both ends is removed.\<close>

definition trim :: "string \<Rightarrow> string" where
  "trim s = concat (rev (dropWhile is_space (rev (dropWhile is_space (characters s)))))"

text \<open>A string (or \<^verbatim>\<open>null\<close>, \<^verbatim>\<open>undefined\<close>) in a condition: absent and empty are falsy.\<close>

definition truthy :: "string option \<Rightarrow> bool" where
  "truthy v \<longleftrightarrow> (case v of None \<Rightarrow> False | Some s \<Rightarrow> s \<noteq> [])"

section \<open>localStorage\<close>

text \<open>
  The browser's store of texts by key. \<^verbatim>\<open>setItem\<close> raises when the host refuses the write
  (the quota is exceeded, or storage is switched off); \<open>accepts\<close> is the host's decision,
  given the items held, the key and the text.

  The record carries one more function of the host: \<^verbatim>\<open>String.prototype.toLowerCase\<close>,
  which the search history applies to the entries it reads from the store. It follows the
  case mappings of the Unicode version the host implements; it is a parameter here, and
  nothing is assumed of it.
\<close>

record local_storage =
  items :: "string \<rightharpoonup> string"
  accepts :: "(string \<rightharpoonup> string) \<Rightarrow> string \<Rightarrow> string \<Rightarrow> bool"
  toLowerCase :: "string \<Rightarrow> string"

definition getItem :: "local_storage \<Rightarrow> string \<Rightarrow> string option" where
  "getItem ls k = items ls k"

definition setItem :: "local_storage \<Rightarrow> string \<Rightarrow> string \<Rightarrow> local_storage option" where
  "setItem ls k v =
     (if accepts ls (items ls) k v then Some (ls\<lparr>items := (items ls)(k \<mapsto> v)\<rparr>) else None)"

section \<open>chatHistoryService\<close>

definition CHAT_HISTORY_KEY :: string where
  "CHAT_HISTORY_KEY = ''gemini_chat_history_v2''"

text \<open>
  \<^verbatim>\<open>getChatHistory\<close>: no item, or the empty text, is the empty collection; a text that
  \<^verbatim>\<open>JSON.parse\<close> rejects is caught and is the empty collection too. The source returns what
  was parsed unchecked, as a \<^verbatim>\<open>ChatSession[]\<close>; the model is typed, and reads a text that
  denotes no \<^verbatim>\<open>ChatSession[]\<close> as the empty collection as well.
\<close>

definition getChatHistory :: "local_storage \<Rightarrow> chat_session list" where
  "getChatHistory ls =
     (case getItem ls CHAT_HISTORY_KEY of
        None \<Rightarrow> []
      | Some historyJson \<Rightarrow>
          if historyJson = [] then []
          else
            (case JSON_parse historyJson of
               None \<Rightarrow> []
             | Some v \<Rightarrow> (case as_array as_session v of None \<Rightarrow> [] | Some history \<Rightarrow> history)))"

text \<open>\<^verbatim>\<open>saveChatHistory\<close>: a refused write is logged and swallowed; the store stays as it was.\<close>

definition saveChatHistory :: "chat_session list \<Rightarrow> local_storage \<Rightarrow> local_storage" where
  "saveChatHistory history ls =
     (case setItem ls CHAT_HISTORY_KEY (JSON_stringify (sessions_json history)) of
        None \<Rightarrow> ls
      | Some ls' \<Rightarrow> ls')"

text \<open>
  \<^verbatim>\<open>createNewSession\<close>. \<open>now\<close> is \<^verbatim>\<open>new Date().toISOString()\<close>, the reading of the clock
  at the call, to the millisecond.
\<close>

definition createNewSession :: "string \<Rightarrow> local_storage \<Rightarrow> chat_session \<times> local_storage" where
  "createNewSession now ls =
     (let newSession = \<lparr>session_id = now, title = ''Novo Chat'', messages = []\<rparr>;
          history = getChatHistory ls
      in (newSession, saveChatHistory (newSession # history) ls))"

text \<open>\<^verbatim>\<open>session.title = title\<close> on the first session \<^verbatim>\<open>find\<close> returns, in place.\<close>

fun retitle :: "string \<Rightarrow> string \<Rightarrow> chat_session list \<Rightarrow> chat_session list" where
  "retitle sessionId t [] = []"
| "retitle sessionId t (s # ss) =
     (if session_id s = sessionId then s\<lparr>title := t\<rparr> # ss else s # retitle sessionId t ss)"

definition updateSessionTitle ::
  "string \<Rightarrow> string \<Rightarrow> local_storage \<Rightarrow> chat_session list \<times> local_storage" where
  "updateSessionTitle sessionId t ls =
     (let history = getChatHistory ls in
      case find (\<lambda>s. session_id s = sessionId) history of
        None \<Rightarrow> (history, ls)
      | Some session \<Rightarrow>
          (let history' = retitle sessionId t history in (history', saveChatHistory history' ls)))"

definition deleteSession :: "string \<Rightarrow> local_storage \<Rightarrow> chat_session list \<times> local_storage" where
  "deleteSession sessionId ls =
     (let history = filter (\<lambda>s. session_id s \<noteq> sessionId) (getChatHistory ls)
      in (history, saveChatHistory history ls))"

section \<open>searchHistoryService\<close>

definition SEARCH_HISTORY_KEY :: string where
  "SEARCH_HISTORY_KEY = ''gemini_search_history''"

definition MAX_HISTORY_SIZE :: nat where
  "MAX_HISTORY_SIZE = 100"

definition getSearchHistory :: "local_storage \<Rightarrow> string list" where
  "getSearchHistory ls =
     (case getItem ls SEARCH_HISTORY_KEY of
        None \<Rightarrow> []
      | Some historyJson \<Rightarrow>
          if historyJson = [] then []
          else
            (case JSON_parse historyJson of
               None \<Rightarrow> []
             | Some v \<Rightarrow> (case as_array as_string v of None \<Rightarrow> [] | Some history \<Rightarrow> history)))"

definition saveSearchHistory :: "string list \<Rightarrow> local_storage \<Rightarrow> local_storage" where
  "saveSearchHistory history ls =
     (case setItem ls SEARCH_HISTORY_KEY (JSON_stringify (strings_json history)) of
        None \<Rightarrow> ls
      | Some ls' \<Rightarrow> ls')"

definition addSearchHistoryEntry :: "string \<Rightarrow> local_storage \<Rightarrow> local_storage" where
  "addSearchHistoryEntry query ls =
     (if query = [] then ls
      else
        (let history = getSearchHistory ls;
             history = filter (\<lambda>item. toLowerCase ls item \<noteq> toLowerCase ls query) history;
             history = query # history;
             history = (if length history > MAX_HISTORY_SIZE then take MAX_HISTORY_SIZE history
                        else history)
         in saveSearchHistory history ls))"

definition deleteSearchHistoryEntry :: "string \<Rightarrow> local_storage \<Rightarrow> string list \<times> local_storage" where
  "deleteSearchHistoryEntry query ls =
     (let history = filter (\<lambda>item. item \<noteq> query) (getSearchHistory ls)
      in (history, saveSearchHistory history ls))"

definition clearSearchHistory :: "local_storage \<Rightarrow> local_storage" where
  "clearSearchHistory ls = saveSearchHistory [] ls"

section \<open>geminiService\<close>

text \<open>
  A value a provider call raises (\<^verbatim>\<open>error: any\<close>): an object with its
  \<^verbatim>\<open>error.error?.message\<close> and its \<^verbatim>\<open>error.message\<close> (where present), a string, or
  anything else.
\<close>

datatype thrown = ErrorObject "string option" "string option" | ErrorString string | ErrorOther

text \<open>The errors the service raises: \<^verbatim>\<open>new Error(message)\<close> and \<^verbatim>\<open>new BillingError(message)\<close>.\<close>

datatype js_error = Error string | BillingError string

fun error_message :: "js_error \<Rightarrow> string" where
  "error_message (Error m) = m"
| "error_message (BillingError m) = m"

fun instanceof_BillingError :: "js_error \<Rightarrow> bool" where
  "instanceof_BillingError (BillingError m) = True"
| "instanceof_BillingError (Error m) = False"

text \<open>\<^verbatim>\<open>try { body } catch (error) { handler }\<close>.\<close>

definition try_catch :: "'e + 'a \<Rightarrow> ('e \<Rightarrow> 'f + 'a) \<Rightarrow> 'f + 'a" where
  "try_catch body handler = (case body of Inl error \<Rightarrow> handler error | Inr v \<Rightarrow> Inr v)"

text \<open>
  The requests the service sends, and what the log of the exchange with the provider
  records: a request, its settling (fulfilled or rejected), a fragment a stream yields.
\<close>

datatype part = TextPart string | InlineData string string

datatype content = Content sender "part list"

datatype request =
    GenerateContent string string
  | GenerateContentStream "content list" string
  | GenerateImages string
  | GenerateVideos string
  | GetVideosOperation

datatype event = Requested request | Settled | Yielded string

text \<open>
  \<^verbatim>\<open>handleApiError\<close>. First the message is extracted: the nested
  \<^verbatim>\<open>error.error.message\<close> if it is there and not empty, else \<^verbatim>\<open>error.message\<close> if it is,
  a string raised as it is, and a fixed text otherwise. Then the message is searched for
  the three patterns, in the order of the source; \<open>ctx\<close> is the \<^verbatim>\<open>context\<close> argument.
\<close>

definition extract_message :: "thrown \<Rightarrow> string" where
  "extract_message error =
     (case error of
        ErrorObject nested msg \<Rightarrow>
          (if truthy nested then the nested
           else if truthy msg then the msg
           else ''An unknown error occurred.'')
      | ErrorString s \<Rightarrow> s
      | ErrorOther \<Rightarrow> ''An unknown error occurred.'')"

definition handleApiError :: "thrown \<Rightarrow> string \<Rightarrow> js_error" where
  "handleApiError error ctx =
     (let errorMessage = extract_message error in
      if str_includes errorMessage ''billed users'' then
        (let featureName =
               (if str_includes ctx ''imagem'' then ''gera'' @ c_cedilla @ a_tilde
                 @ ''o de imagens''
                else if str_includes ctx (''v'' @ i_acute @ ''deo'') then ''gera'' @ c_cedilla
                  @ a_tilde @ ''o de v'' @ i_acute @ ''deo''
                else ''esta funcionalidade'')
         in BillingError (''A '' @ featureName @ '' est'' @ a_acute @ '' indispon'' @ i_acute
           @ ''vel. A API do Google requer que o faturamento esteja ativado para este recurso.''))
      else if str_includes errorMessage ''API key not valid'' then
        Error (''Sua chave de API '' @ e_acute @ '' inv'' @ a_acute
          @ ''lida. Por favor, verifique-a nas configura'' @ c_cedilla @ o_tilde
          @ ''es e tente novamente.'')
      else if str_includes errorMessage ''quota'' then
        Error (''Voc'' @ e_circumflex
          @ '' atingiu sua cota de uso da API. Por favor, verifique seu plano ou tente novamente mais tarde.'')
      else
        Error (''Desculpe, ocorreu um erro inesperado durante a '' @ ctx
                 @ ''. Por favor, tente novamente.''))"

definition messageToGemini :: "message \<Rightarrow> content" where
  "messageToGemini m = Content (sender m) [TextPart (msg_text m)]"

text \<open>
  What the provider answers to a chat request: the chunks of the stream, each with its
  \<^verbatim>\<open>text\<close> (or none), and the failure that ends the stream, if one does. A request the
  provider rejects outright has no chunk and a failure.
\<close>

record chat_reply =
  chunks :: "string option list"
  failure :: "thrown option"

text \<open>
  \<^verbatim>\<open>generateContentStream\<close>: the log of the exchange, the fragments the generator
  yields, in order, and the error it raises after them, if any.
\<close>

definition generateContentStream ::
  "chat_reply \<Rightarrow> string \<Rightarrow> message list \<Rightarrow> part option \<Rightarrow> string
     \<Rightarrow> event list \<times> string list \<times> js_error option" where
  "generateContentStream reply prompt history imagePart lang =
     (let geminiHistory = map messageToGemini (butlast history);
          currentUserMessageParts =
            (case imagePart of None \<Rightarrow> [] | Some p \<Rightarrow> [p])
              @ [TextPart prompt];
          contents = geminiHistory @ [Content User currentUserMessageParts];
          systemInstruction =
            (if lang = ''pt-BR'' then ''Responda em portugu'' @ e_circumflex @ ''s do Brasil.''
             else ''Respond in English.'');
          fragments = map the (filter truthy (chunks reply))
      in (Requested (GenerateContentStream contents systemInstruction)
            # map Yielded fragments @ [Settled],
          fragments,
          map_option (\<lambda>error. handleApiError error ''resposta do chat'') (failure reply)))"

text \<open>
  \<^verbatim>\<open>generateImage\<close>. The reply is what \<^verbatim>\<open>generateImages\<close> raises, or
  \<^verbatim>\<open>response.generatedImages?.[0]?.image?.imageBytes\<close>.
\<close>

definition generateImage ::
  "thrown + string option \<Rightarrow> string \<Rightarrow> event list \<times> (js_error + string)" where
  "generateImage reply prompt =
     ([Requested (GenerateImages prompt), Settled],
      try_catch
        (case reply of
           Inl error \<Rightarrow> Inl error
         | Inr imageBytes \<Rightarrow>
             if truthy imageBytes then Inr (the imageBytes)
             else Inl (ErrorObject None (Some (''A API n'' @ a_tilde @ ''o retornou uma imagem v''
               @ a_acute @ ''lida.''))))
        (\<lambda>error. Inl (handleApiError error (''gera'' @ c_cedilla @ a_tilde
          @ ''o de imagem''))))"

text \<open>
  A long-running operation: \<^verbatim>\<open>operation.done\<close> and
  \<^verbatim>\<open>operation.response?.generatedVideos?.[0]?.video?.uri\<close>.
\<close>

record operation =
  is_done :: bool
  uri :: "string option"

text \<open>
  What the provider answers to a video request: the answer to \<^verbatim>\<open>generateVideos\<close>, and
  the answer to the \<open>n\<close>-th call of \<^verbatim>\<open>getVideosOperation\<close> (counted from 0).
\<close>

record video_reply =
  generateVideos :: "thrown + operation"
  getVideosOperation :: "nat \<Rightarrow> thrown + operation"

text \<open>
  The poll loop, \<^verbatim>\<open>while (!operation.done)\<close>, after \<open>n\<close> polls: the number of polls made
  and the operation that is done, or what a poll raised. The loop has no bound: where
  the provider never reports completion it does not return, which is \<open>None\<close>.
\<close>

partial_function (option) poll ::
  "(nat \<Rightarrow> thrown + operation) \<Rightarrow> nat \<Rightarrow> operation \<Rightarrow> (nat \<times> (thrown + operation)) option" where
  "poll answers n oper =
     (if is_done oper then Some (n, Inr oper)
      else
        (case answers n of
           Inl error \<Rightarrow> Some (Suc n, Inl error)
         | Inr oper' \<Rightarrow> poll answers (Suc n) oper'))"

declare poll.simps [code]

text \<open>\<^verbatim>\<open>generateVideo\<close>. \<open>API_KEY\<close> is \<^verbatim>\<open>process.env.API_KEY\<close>.\<close>

definition generateVideo ::
  "string \<Rightarrow> video_reply \<Rightarrow> string \<Rightarrow> (event list \<times> (js_error + string)) option" where
  "generateVideo API_KEY reply prompt =
     (case (case generateVideos reply of
              Inl error \<Rightarrow> Some (0, Inl error)
            | Inr oper \<Rightarrow> poll (getVideosOperation reply) 0 oper) of
        None \<Rightarrow> None
      | Some (n, polled) \<Rightarrow>
          Some
            ([Requested (GenerateVideos prompt), Settled]
               @ concat (replicate n [Requested GetVideosOperation, Settled]),
             try_catch
               (case polled of
                  Inl error \<Rightarrow> Inl error
                | Inr oper \<Rightarrow>
                    (let downloadLink = uri oper in
                     if truthy downloadLink then Inr (the downloadLink @ ''&key='' @ API_KEY)
                     else Inl (ErrorObject None
                                 (Some (''A API n'' @ a_tilde @ ''o retornou um link de v''
                                   @ i_acute @ ''deo v'' @ a_acute @ ''lido.'')))))
               (\<lambda>error. Inl (handleApiError error (''gera'' @ c_cedilla @ a_tilde
                 @ ''o de v'' @ i_acute @ ''deo'')))))"

text \<open>
  \<^verbatim>\<open>generateChatTitle\<close>. The first regular expression,
  \<^verbatim>\<open>/^(titulo|title):?\s*/i\<close> with an acute accent on the first i of the first word,
  removes at the start the Portuguese or the English word for title, a colon if one
  follows, and the white space after it. Under the flag
  \<^verbatim>\<open>i\<close> a letter of the pattern matches itself and its capital, and no other character;
  the two words are listed letter by letter, each with its capital.
\<close>

definition titulo :: "(string \<times> string) list" where
  "titulo = [(''t'', ''T''), (i_acute, I_acute), (''t'', ''T''), (''u'', ''U''), (''l'', ''L''),
             (''o'', ''O'')]"

definition title_en :: "(string \<times> string) list" where
  "title_en = [(''t'', ''T''), (''i'', ''I''), (''t'', ''T''), (''l'', ''L''), (''e'', ''E'')]"

definition matches_word :: "(string \<times> string) list \<Rightarrow> string list \<Rightarrow> bool" where
  "matches_word word cs \<longleftrightarrow> list_all2 (\<lambda>ch (l, u). ch = l \<or> ch = u) cs word"

definition strip_title_prefix :: "string \<Rightarrow> string" where
  "strip_title_prefix t =
     (let cs = characters t;
          matched =
            (if matches_word titulo (take 6 cs) then Some (6 :: nat)
             else if matches_word title_en (take 5 cs) then Some 5
             else None)
      in case matched of
           None \<Rightarrow> t
         | Some n \<Rightarrow>
             (let r = drop n cs;
                  r = (case r of [] \<Rightarrow> r | c # cs' \<Rightarrow> if c = '':'' then cs' else r)
              in concat (dropWhile is_space r)))"

text \<open>
  The second, \<^verbatim>\<open>/^["'*#\s]+|["'*#\s]+$/g\<close>, removes the quotes, asterisks, hashes and
  white space at both ends.
\<close>

definition is_decoration :: "string \<Rightarrow> bool" where
  "is_decoration ch \<longleftrightarrow>
     ch = [dquote] \<or> ch = [CHR 0x27] \<or> ch = ''*'' \<or> ch = ''#'' \<or> is_space ch"

definition strip_decoration :: "string \<Rightarrow> string" where
  "strip_decoration t =
     concat (rev (dropWhile is_decoration (rev (dropWhile is_decoration (characters t)))))"

definition fallbackTitle :: "string \<Rightarrow> string" where
  "fallbackTitle lang = (if lang = ''pt-BR'' then ''Novo Chat'' else ''New Chat'')"

definition title_systemInstruction :: "string \<Rightarrow> string" where
  "title_systemInstruction lang =
     (if lang = ''pt-BR'' then
        ''Voc'' @ e_circumflex @ '' '' @ e_acute @ '' um gerador de t'' @ i_acute
          @ ''tulos para chats. Sua tarefa '' @ e_acute @ '' criar um t'' @ i_acute
          @ ''tulo curto e conciso (m'' @ a_acute
          @ ''ximo 4 palavras) para a conversa, baseado na primeira mensagem do usu'' @ a_acute
          @ ''rio. Responda *apenas* com o t'' @ i_acute @ ''tulo, sem formata'' @ c_cedilla
          @ a_tilde @ ''o extra, aspas, ou palavras como '' @ [dquote] @ ''T'' @ i_acute
          @ ''tulo:'' @ [dquote] @ ''.''
      else
        ''You are a chat title generator. Your task is to create a short and concise title (maximum 4 words) for the conversation, based on the user''
          @ [CHR 0x27]
          @ ''s first message. Respond with *only* the title, without extra formatting, quotes, or words like ''
          @ [dquote] @ ''Title:'' @ [dquote] @ ''.'')"

text \<open>
  The reply is what \<^verbatim>\<open>generateContent\<close> raises, or \<^verbatim>\<open>response.text\<close> (which may be
  undefined: then \<^verbatim>\<open>response.text.trim()\<close> raises a TypeError inside the \<^verbatim>\<open>try\<close>).
\<close>

definition generateChatTitle ::
  "thrown + string option \<Rightarrow> string \<Rightarrow> string \<Rightarrow> event list \<times> (thrown + string)" where
  "generateChatTitle reply firstMessage lang =
     (let systemInstruction = title_systemInstruction lang;
          userPrompt = ''Generate a title for a chat starting with: '' @ [dquote] @ firstMessage
            @ [dquote]
      in ([Requested (GenerateContent userPrompt systemInstruction), Settled],
          try_catch
            (case reply of
               Inl error \<Rightarrow> Inl error
             | Inr None \<Rightarrow>
                 Inl (ErrorObject None
                        (Some (''Cannot read properties of undefined (reading '' @ [CHR 0x27]
                          @ ''trim'' @ [CHR 0x27] @ '')'')))
             | Inr (Some response_text) \<Rightarrow>
                 (let t = trim response_text;
                      t = strip_title_prefix t;
                      t = strip_decoration t
                  in Inr (if t = [] then fallbackTitle lang else t)))
            (\<lambda>error. Inr (fallbackTitle lang))))"

section \<open>App\<close>

text \<open>
  A file the user attached, with what is read from it: the two fields
  \<^verbatim>\<open>fileToBase64(imageFile)\<close> resolves to (the helper is imported from \<^verbatim>\<open>utils/fileUtils\<close>,
  which is not among the sources; its result is taken as given) and
  \<^verbatim>\<open>URL.createObjectURL(imageFile)\<close>.
\<close>

record image_file =
  base64 :: string
  mimeType :: string
  objectURL :: string

text \<open>
  The state of the component (its \<^verbatim>\<open>useState\<close> cells), the browser's store, and the log
  of the exchange with the provider, oldest first.
\<close>

record app_state =
  sessions :: "chat_session list"
  activeSessionId :: "string option"
  isLoading :: bool
  streamingMessage :: "message option"
  isSidebarOpen :: bool
  isCreateImageModalOpen :: bool
  isCreateVideoModalOpen :: bool
  isStudyModalOpen :: bool
  isLearnModalOpen :: bool
  selectedImage :: "image_file option"
  isSettingsModalOpen :: bool
  isConfirmClearModalOpen :: bool
  isImageGenAvailable :: bool
  isVideoGenAvailable :: bool
  language :: string
  localStorage :: local_storage
  exchange :: "event list"

text \<open>The cells as \<^verbatim>\<open>useState\<close> initialises them, over a given store.\<close>

definition initial_state :: "local_storage \<Rightarrow> app_state" where
  "initial_state ls =
     \<lparr>sessions = [], activeSessionId = None, isLoading = False, streamingMessage = None,
      isSidebarOpen = False, isCreateImageModalOpen = False, isCreateVideoModalOpen = False,
      isStudyModalOpen = False, isLearnModalOpen = False, selectedImage = None,
      isSettingsModalOpen = False, isConfirmClearModalOpen = False,
      isImageGenAvailable = True, isVideoGenAvailable = True, language = ''pt-BR'',
      localStorage = ls, exchange = []\<rparr>"

text \<open>
  A handler reads the cells of the render it was created in and writes the live cells.
  In the definitions below \<open>cl\<close> is the state the handler closed over (the state at the
  call) and \<open>st\<close> the live state.

  \<^verbatim>\<open>updateMessages\<close> maps over the \<open>sessions\<close> it closed over.
\<close>

definition updateMessages :: "app_state \<Rightarrow> string \<Rightarrow> message list \<Rightarrow> app_state \<Rightarrow> app_state" where
  "updateMessages cl sessionId newMessages st =
     (let updatedSessions =
            map (\<lambda>session. if session_id session = sessionId
                             then session\<lparr>messages := newMessages\<rparr> else session)
              (sessions cl)
      in st\<lparr>sessions := updatedSessions,
            localStorage := saveChatHistory updatedSessions (localStorage st)\<rparr>)"

text \<open>The locals of a turn.\<close>

record turn =
  turn_sessionId :: string
  turn_text :: string
  turn_imagePart :: "part option"
  turn_messages :: "message list"

text \<open>The message a failed turn appends: the warning sign, the label, the error's message.\<close>

definition errorMessage :: "js_error \<Rightarrow> message" where
  "errorMessage error =
     \<lparr>sender = Model, msg_text = warning_sign @ '' **Erro:** '' @ error_message error,
      imageUrl = None, videoUrl = None\<rparr>"

text \<open>
  \<^verbatim>\<open>handleSendMessage\<close>, up to the first request: the guards, the user's message, the
  search history, the transcript, the loading state. \<open>None\<close> is the early return.
\<close>

definition handleSendMessage_sending ::
  "string \<Rightarrow> image_file option \<Rightarrow> app_state \<Rightarrow> (turn \<times> app_state) option" where
  "handleSendMessage_sending messageText imageFile st =
     (case activeSessionId st of
        None \<Rightarrow> None
      | Some sessionId \<Rightarrow>
          if isLoading st \<or> sessionId = [] then None
          else
            (let cl = st;
                 part = map_option (\<lambda>f. InlineData (base64 f) (mimeType f)) imageFile;
                 userText =
                   (case imageFile of
                      None \<Rightarrow> messageText
                    | Some f \<Rightarrow> if messageText = [] then ''Descreva esta imagem.'' else messageText)
             in if userText = [] then None
                else
                  (let st = st\<lparr>localStorage := addSearchHistoryEntry userText (localStorage st)\<rparr>;
                       userMessage =
                         \<lparr>sender = User, msg_text = userText,
                          imageUrl = map_option objectURL imageFile, videoUrl = None\<rparr>;
                       currentMessages =
                         (case find (\<lambda>s. Some (session_id s) = activeSessionId cl) (sessions cl) of
                            None \<Rightarrow> [userMessage]
                          | Some activeSession \<Rightarrow> messages activeSession
                            @ [userMessage]);
                       st = updateMessages cl sessionId currentMessages st;
                       st = st\<lparr>selectedImage := None, isLoading := True,
                               streamingMessage :=
                                 Some \<lparr>sender = Model, msg_text = [], imageUrl = None, videoUrl = None\<rparr>\<rparr>
                   in Some (\<lparr>turn_sessionId = sessionId, turn_text = userText,
                              turn_imagePart = part, turn_messages = currentMessages\<rparr>, st))))"

text \<open>
  The title of a new chat: the request is awaited, then the title is written to the
  store and the collection read back becomes the state. \<open>Inl\<close> is the state the handler
  would be left in if \<^verbatim>\<open>generateChatTitle\<close> raised (the call is outside the \<^verbatim>\<open>try\<close>).
\<close>

definition handleSendMessage_title ::
  "thrown + string option \<Rightarrow> app_state \<Rightarrow> turn \<Rightarrow> app_state \<Rightarrow> app_state + app_state" where
  "handleSendMessage_title title_reply cl t st =
     (if length (turn_messages t) = 1 then
        (case generateChatTitle title_reply (turn_text t) (language cl) of
           (events, result) \<Rightarrow>
             (let st = st\<lparr>exchange := exchange st @ events\<rparr> in
              case result of
                Inl error \<Rightarrow> Inl st
              | Inr new_title \<Rightarrow>
                  (case updateSessionTitle (turn_sessionId t) new_title (localStorage st) of
                     (updatedSessions, ls) \<Rightarrow>
                       Inr (st\<lparr>localStorage := ls, sessions := updatedSessions\<rparr>))))
      else Inr st)"

text \<open>
  The loop \<^verbatim>\<open>for await (const chunk of stream) fullResponse += chunk\<close>. The in-flight
  message the loop shows on every pass is cleared by \<^verbatim>\<open>finally\<close>, and is not kept here.
\<close>

fun accumulate :: "string \<Rightarrow> string list \<Rightarrow> string" where
  "accumulate fullResponse [] = fullResponse"
| "accumulate fullResponse (chunk # rest) = accumulate (fullResponse @ chunk) rest"

text \<open>The stream, its commit or its error message, and the clean-up of \<^verbatim>\<open>finally\<close>.\<close>

definition handleSendMessage_streaming ::
  "chat_reply \<Rightarrow> app_state \<Rightarrow> turn \<Rightarrow> app_state \<Rightarrow> app_state" where
  "handleSendMessage_streaming reply cl t st =
     (case generateContentStream reply (turn_text t) (turn_messages t) (turn_imagePart t)
             (language cl) of
        (events, fragments, raised) \<Rightarrow>
          (let st = st\<lparr>exchange := exchange st @ events\<rparr>;
               fullResponse = accumulate [] fragments;
               st =
                 (case raised of
                    None \<Rightarrow>
                      if fullResponse \<noteq> [] then
                        updateMessages cl (turn_sessionId t)
                          (turn_messages t
                             @ [\<lparr>sender = Model, msg_text = fullResponse, imageUrl = None,
                                 videoUrl = None\<rparr>]) st
                      else st
                  | Some error \<Rightarrow>
                      updateMessages cl (turn_sessionId t)
                        (turn_messages t
                           @ [errorMessage error]) st)
           in st\<lparr>isLoading := False, streamingMessage := None\<rparr>))"

definition handleSendMessage ::
  "thrown + string option \<Rightarrow> chat_reply \<Rightarrow> string \<Rightarrow> image_file option \<Rightarrow> app_state \<Rightarrow> app_state" where
  "handleSendMessage title_reply reply messageText imageFile st =
     (case handleSendMessage_sending messageText imageFile st of
        None \<Rightarrow> st
      | Some (t, st1) \<Rightarrow>
          (case handleSendMessage_title title_reply st t st1 of
             Inl aborted \<Rightarrow> aborted
           | Inr st2 \<Rightarrow> handleSendMessage_streaming reply st t st2))"

text \<open>\<^verbatim>\<open>handleGenerateImage\<close>.\<close>

definition handleGenerateImage :: "thrown + string option \<Rightarrow> string \<Rightarrow> app_state \<Rightarrow> app_state" where
  "handleGenerateImage reply prompt st =
     (case activeSessionId st of
        None \<Rightarrow> st
      | Some sessionId \<Rightarrow>
          if isLoading st \<or> sessionId = [] \<or> \<not> isImageGenAvailable st then st
          else
            (let cl = st;
                 st = st\<lparr>isCreateImageModalOpen := False\<rparr>;
                 userMessage =
                   \<lparr>sender = User, msg_text = ''Gerar imagem: '' @ [dquote] @ prompt
                     @ [dquote],
                    imageUrl = None, videoUrl = None\<rparr>;
                 st = st\<lparr>localStorage := addSearchHistoryEntry (msg_text userMessage) (localStorage st)\<rparr>;
                 currentMessages =
                   (case find (\<lambda>s. Some (session_id s) = activeSessionId cl) (sessions cl) of
                      None \<Rightarrow> [userMessage]
                    | Some activeSession \<Rightarrow> messages activeSession @ [userMessage]);
                 st = updateMessages cl sessionId currentMessages st;
                 st = st\<lparr>isLoading := True\<rparr>
             in case generateImage reply prompt of
                  (events, result) \<Rightarrow>
                    (let st = st\<lparr>exchange := exchange st @ events\<rparr>;
                         st =
                           (case result of
                              Inr base64Image \<Rightarrow>
                                updateMessages cl sessionId
                                  (currentMessages
                                     @ [\<lparr>sender = Model,
                                         msg_text = ''Imagem gerada para: '' @ [dquote] @ prompt
                                           @ [dquote],
                                         imageUrl = Some (''data:image/png;base64,'' @ base64Image),
                                         videoUrl = None\<rparr>]) st
                            | Inl error \<Rightarrow>
                                (let st = (if instanceof_BillingError error
                                           then st\<lparr>isImageGenAvailable := False\<rparr> else st)
                                 in updateMessages cl sessionId
                                      (currentMessages
                                         @ [errorMessage error]) st))
                     in st\<lparr>isLoading := False\<rparr>)))"

text \<open>
  \<^verbatim>\<open>handleGenerateVideo\<close>, up to the request: the guards, the user's message, the
  placeholder, the loading state.
\<close>

definition waitingMessage :: message where
  "waitingMessage =
     \<lparr>sender = Model,
      msg_text = ''Criando seu v'' @ i_acute @ ''deo... '' @ clapper_board
        @ '' Isso pode levar alguns minutos. Vou te avisar assim que estiver pronto!'',
      imageUrl = None, videoUrl = None\<rparr>"

definition handleGenerateVideo_waiting :: "string \<Rightarrow> app_state \<Rightarrow> (turn \<times> app_state) option" where
  "handleGenerateVideo_waiting prompt st =
     (case activeSessionId st of
        None \<Rightarrow> None
      | Some sessionId \<Rightarrow>
          if isLoading st \<or> sessionId = [] \<or> \<not> isVideoGenAvailable st then None
          else
            (let cl = st;
                 st = st\<lparr>isCreateVideoModalOpen := False\<rparr>;
                 userMessage =
                   \<lparr>sender = User, msg_text = ''Gerar v'' @ i_acute @ ''deo: '' @ [dquote]
                     @ prompt @ [dquote],
                    imageUrl = None, videoUrl = None\<rparr>;
                 st = st\<lparr>localStorage := addSearchHistoryEntry (msg_text userMessage) (localStorage st)\<rparr>;
                 currentMessages =
                   (case find (\<lambda>s. Some (session_id s) = activeSessionId cl) (sessions cl) of
                      None \<Rightarrow> [userMessage]
                    | Some activeSession \<Rightarrow> messages activeSession @ [userMessage]);
                 st = updateMessages cl sessionId currentMessages st;
                 st = updateMessages cl sessionId (currentMessages @ [waitingMessage]) st;
                 st = st\<lparr>isLoading := True\<rparr>
             in Some (\<lparr>turn_sessionId = sessionId, turn_text = msg_text userMessage,
                        turn_imagePart = None, turn_messages = currentMessages\<rparr>, st)))"

text \<open>The outcome of the request, and the clean-up of \<^verbatim>\<open>finally\<close>.\<close>

definition handleGenerateVideo_settled ::
  "event list \<times> (js_error + string) \<Rightarrow> string \<Rightarrow> app_state \<Rightarrow> turn \<Rightarrow> app_state \<Rightarrow> app_state" where
  "handleGenerateVideo_settled outcome prompt cl t st =
     (case outcome of
        (events, result) \<Rightarrow>
          (let st = st\<lparr>exchange := exchange st @ events\<rparr>;
               st =
                 (case result of
                    Inr video \<Rightarrow>
                      updateMessages cl (turn_sessionId t)
                        (turn_messages t
                           @ [\<lparr>sender = Model,
                               msg_text = ''Aqui est'' @ a_acute @ '' o v'' @ i_acute
                                 @ ''deo que voc'' @ e_circumflex @ '' pediu: '' @ [dquote]
                                 @ prompt @ [dquote],
                               imageUrl = None, videoUrl = Some video\<rparr>]) st
                  | Inl error \<Rightarrow>
                      (let st = (if instanceof_BillingError error
                                 then st\<lparr>isVideoGenAvailable := False\<rparr> else st)
                       in updateMessages cl (turn_sessionId t)
                            (turn_messages t
                               @ [errorMessage error]) st))
           in st\<lparr>isLoading := False\<rparr>))"

text \<open>
  \<^verbatim>\<open>handleGenerateVideo\<close>: \<open>None\<close> where the poll loop does not return; the turn then
  stays in the state \<^verbatim>\<open>handleGenerateVideo_waiting\<close> left.
\<close>

definition handleGenerateVideo ::
  "string \<Rightarrow> video_reply \<Rightarrow> string \<Rightarrow> app_state \<Rightarrow> app_state option" where
  "handleGenerateVideo API_KEY reply prompt st =
     (case handleGenerateVideo_waiting prompt st of
        None \<Rightarrow> Some st
      | Some (t, st1) \<Rightarrow>
          (case generateVideo API_KEY reply prompt of
             None \<Rightarrow> None
           | Some outcome \<Rightarrow> Some (handleGenerateVideo_settled outcome prompt st t st1)))"

definition handleStudy ::
  "thrown + string option \<Rightarrow> chat_reply \<Rightarrow> string \<Rightarrow> app_state \<Rightarrow> app_state" where
  "handleStudy title_reply reply content st =
     handleSendMessage title_reply reply
       (''Por favor, estude o seguinte texto e me diga o que voc'' @ e_circumflex
         @ '' aprendeu ou resuma-o:'' @ [CHR 0x0A] @ [CHR 0x0A] @ ''---'' @ [CHR 0x0A] @ content
         @ [CHR 0x0A] @ ''---'')
       None (st\<lparr>isStudyModalOpen := False\<rparr>)"

definition handleLearn ::
  "thrown + string option \<Rightarrow> chat_reply \<Rightarrow> string \<Rightarrow> app_state \<Rightarrow> app_state" where
  "handleLearn title_reply reply content st =
     handleSendMessage title_reply reply
       (''Por favor, aprenda a seguinte informa'' @ c_cedilla @ a_tilde
         @ ''o para usar em nossa conversa:'' @ [CHR 0x0A] @ [CHR 0x0A] @ ''---'' @ [CHR 0x0A]
         @ content @ [CHR 0x0A] @ ''---'')
       None (st\<lparr>isLearnModalOpen := False\<rparr>)"

definition handleNewSession :: "string \<Rightarrow> app_state \<Rightarrow> app_state" where
  "handleNewSession now st =
     (case createNewSession now (localStorage st) of
        (newSession, ls) \<Rightarrow>
          st\<lparr>localStorage := ls, sessions := newSession # sessions st,
             activeSessionId := Some (session_id newSession), isSidebarOpen := False\<rparr>)"

definition handleDeleteSession :: "string \<Rightarrow> string \<Rightarrow> app_state \<Rightarrow> app_state" where
  "handleDeleteSession now sessionId st =
     (case deleteSession sessionId (localStorage st) of
        (updatedSessions, ls) \<Rightarrow>
          (let cl = st;
               st = st\<lparr>localStorage := ls, sessions := updatedSessions\<rparr>
           in if activeSessionId cl = Some sessionId then
                (let st = st\<lparr>activeSessionId :=
                                (case updatedSessions of [] \<Rightarrow> None | s # ss \<Rightarrow> Some (session_id s))\<rparr>
                 in if updatedSessions = [] then handleNewSession now st else st)
              else st))"

definition handleClearAllHistory :: "string \<Rightarrow> app_state \<Rightarrow> app_state" where
  "handleClearAllHistory now st =
     (let st = st\<lparr>sessions := [], localStorage := saveChatHistory [] (localStorage st)\<rparr> in
      case createNewSession now (localStorage st) of
        (newSession, ls) \<Rightarrow>
          st\<lparr>localStorage := ls, sessions := [newSession],
             activeSessionId := Some (session_id newSession),
             isConfirmClearModalOpen := False, isSettingsModalOpen := False\<rparr>)"

definition handleLanguageChange :: "string \<Rightarrow> app_state \<Rightarrow> app_state" where
  "handleLanguageChange lang st =
     (let st = st\<lparr>language := lang\<rparr> in
      case setItem (localStorage st) ''app_language'' lang of
        None \<Rightarrow> st
      | Some ls \<Rightarrow> st\<lparr>localStorage := ls\<rparr>)"

text \<open>The effect that runs when the component mounts.\<close>

definition mount :: "string \<Rightarrow> app_state \<Rightarrow> app_state" where
  "mount now st =
     (let history = getChatHistory (localStorage st);
          st = st\<lparr>sessions := history\<rparr>;
          st = (case history of
                  [] \<Rightarrow> handleNewSession now st
                | s # ss \<Rightarrow> st\<lparr>activeSessionId := Some (session_id s)\<rparr>)
      in if truthy (getItem (localStorage st) ''app_language'')
         then st\<lparr>language := the (getItem (localStorage st) ''app_language'')\<rparr>
         else st)"

text \<open>
  What the user can do, with what the provider and the clock answer while it runs. Each
  action runs to its end before the next one starts. The handlers of signing in and out
  are left out: they write the current user only, which is no part of the state here.
\<close>

datatype action =
    SendMessage "thrown + string option" chat_reply string "image_file option"
  | GenerateImage "thrown + string option" string
  | GenerateVideo string video_reply string
  | Study "thrown + string option" chat_reply string
  | Learn "thrown + string option" chat_reply string
  | NewSession string
  | DeleteSession string string
  | ClearAllHistory string
  | SelectSession string
  | SelectImage "image_file option"
  | ShowCreateImage bool
  | ShowCreateVideo bool
  | ShowStudy bool
  | ShowLearn bool
  | ShowSettings bool
  | ShowConfirmClear bool
  | ToggleSidebar
  | LanguageChange string

fun perform :: "action \<Rightarrow> app_state \<Rightarrow> app_state option" where
  "perform (SendMessage title_reply reply messageText imageFile) st =
     Some (handleSendMessage title_reply reply messageText imageFile st)"
| "perform (GenerateImage reply prompt) st = Some (handleGenerateImage reply prompt st)"
| "perform (GenerateVideo API_KEY reply prompt) st = handleGenerateVideo API_KEY reply prompt st"
| "perform (Study title_reply reply content) st = Some (handleStudy title_reply reply content st)"
| "perform (Learn title_reply reply content) st = Some (handleLearn title_reply reply content st)"
| "perform (NewSession now) st = Some (handleNewSession now st)"
| "perform (DeleteSession now sessionId) st = Some (handleDeleteSession now sessionId st)"
| "perform (ClearAllHistory now) st = Some (handleClearAllHistory now st)"
| "perform (SelectSession sessionId) st =
     Some (st\<lparr>activeSessionId := Some sessionId, isSidebarOpen := False\<rparr>)"
| "perform (SelectImage f) st = Some (st\<lparr>selectedImage := f\<rparr>)"
| "perform (ShowCreateImage b) st = Some (st\<lparr>isCreateImageModalOpen := b\<rparr>)"
| "perform (ShowCreateVideo b) st = Some (st\<lparr>isCreateVideoModalOpen := b\<rparr>)"
| "perform (ShowStudy b) st = Some (st\<lparr>isStudyModalOpen := b\<rparr>)"
| "perform (ShowLearn b) st = Some (st\<lparr>isLearnModalOpen := b\<rparr>)"
| "perform (ShowSettings b) st = Some (st\<lparr>isSettingsModalOpen := b\<rparr>)"
| "perform (ShowConfirmClear b) st = Some (st\<lparr>isConfirmClearModalOpen := b\<rparr>)"
| "perform ToggleSidebar st = Some (st\<lparr>isSidebarOpen := \<not> isSidebarOpen st\<rparr>)"
| "perform (LanguageChange lang) st = Some (handleLanguageChange lang st)"

fun run :: "action list \<Rightarrow> app_state \<Rightarrow> app_state option" where
  "run [] st = Some st"
| "run (a # as) st = (case perform a st of None \<Rightarrow> None | Some st' \<Rightarrow> run as st')"

section \<open>Concrete stores and collections\<close>

text \<open>
  The stores of the examples are empty, and differ in the writes they accept. The texts
  of the examples are ASCII, where \<^verbatim>\<open>toLowerCase\<close> of every host turns the capitals A to Z
  into small letters and keeps the rest.
\<close>

definition lower_ascii :: "char \<Rightarrow> char" where
  "lower_ascii c =
     (let n = (of_char c :: nat) in if 65 \<le> n \<and> n \<le> 90 then char_of (n + 32) else c)"

definition open_store :: local_storage where
  "open_store =
     \<lparr>items = Map.empty, accepts = (\<lambda>held k v. True), toLowerCase = map lower_ascii\<rparr>"

definition small_store :: local_storage where
  "small_store =
     \<lparr>items = Map.empty, accepts = (\<lambda>held k v. length v \<le> 16),
      toLowerCase = map lower_ascii\<rparr>"

definition one_chat :: "chat_session list" where
  "one_chat =
     [\<lparr>session_id = ''2025-01-01T00:00:00.000Z'', title = ''Trip'',
       messages =
         [\<lparr>sender = User, msg_text = ''Hi'', imageUrl = Some ''blob:1'', videoUrl = None\<rparr>,
          \<lparr>sender = Model, msg_text = ''Hello'', imageUrl = None, videoUrl = None\<rparr>]\<rparr>]"

definition midnight :: string where
  "midnight = ''2025-01-01T00:00:00.000Z''"

definition closed_store :: local_storage where
  "closed_store =
     \<lparr>items = Map.empty, accepts = (\<lambda>held k v. False), toLowerCase = map lower_ascii\<rparr>"

text \<open>
  The characters of a text in UTF-8: none is empty, and each is as long as its first byte
  announces.
\<close>

definition utf8 :: "string list \<Rightarrow> bool" where
  "utf8 cs \<longleftrightarrow> list_all (\<lambda>ch. ch \<noteq> [] \<and> length ch = width (hd ch)) cs"

text \<open>The word for title, in Portuguese or in English, whatever the case of its letters.\<close>

definition title_word :: "string list \<Rightarrow> bool" where
  "title_word pre \<longleftrightarrow> matches_word titulo pre \<or> matches_word title_en pre"

definition starts_with_title_word :: "string list \<Rightarrow> bool" where
  "starts_with_title_word t \<longleftrightarrow>
     matches_word titulo (take 6 t) \<or> matches_word title_en (take 5 t)"

text \<open>
  A title that cleaning leaves alone: not empty, with no quote, asterisk, hash or white
  space at either end.
\<close>

definition bare :: "string list \<Rightarrow> bool" where
  "bare t \<longleftrightarrow> t \<noteq> [] \<and> \<not> is_decoration (hd t) \<and> \<not> is_decoration (last t)"

text \<open>
  The state after the component has mounted over the open store: one new chat, active.
\<close>

definition new_chat :: chat_session where
  "new_chat = \<lparr>session_id = midnight, title = ''Novo Chat'', messages = []\<rparr>"

definition one_open_chat :: app_state where
  "one_open_chat = mount midnight (initial_state open_store)"

text \<open>
  The state after the component has mounted over the store that refuses every write: one
  new chat, active, which the store does not hold.
\<close>

definition one_unsaved_chat :: app_state where
  "one_unsaved_chat = mount midnight (initial_state closed_store)"

text \<open>
  The state after the component has mounted over a store that holds one chat, of two
  messages: the chat is loaded, and active.
\<close>

definition one_saved_chat :: app_state where
  "one_saved_chat = mount midnight (initial_state (saveChatHistory one_chat open_store))"

text \<open>A stream of four chunks, two of them without text, that ends without an error.\<close>

definition hi_there :: chat_reply where
  "hi_there = \<lparr>chunks = [Some ''Hi'', None, Some [], Some '' there''], failure = None\<rparr>"

text \<open>
  A video operation that is pending when started and at the first poll, and done at the
  second.
\<close>

definition two_polls :: video_reply where
  "two_polls =
     \<lparr>generateVideos = Inr \<lparr>is_done = False, uri = None\<rparr>,
      getVideosOperation =
        (\<lambda>n. if n = 0 then Inr \<lparr>is_done = False, uri = None\<rparr>
             else Inr \<lparr>is_done = True, uri = Some ''https://video.example/1?alt=media''\<rparr>)\<rparr>"

text \<open>The request that starts the chat stream.\<close>

fun is_stream_request :: "event \<Rightarrow> bool" where
  "is_stream_request (Requested (GenerateContentStream contents systemInstruction)) = True"
| "is_stream_request e = False"

text \<open>What the provider raises when image generation needs a billed account.\<close>

definition billed_users_only :: thrown where
  "billed_users_only =
     ErrorObject (Some ''Imagen API is only accessible to billed users at this time.'') None"

text \<open>A stream whose chunks carry no text, and that ends without an error.\<close>

definition silent :: chat_reply where
  "silent = \<lparr>chunks = [None, Some []], failure = None\<rparr>"

text \<open>A video request the provider rejects at once: the feature needs a billed account.\<close>

definition no_billing_video :: video_reply where
  "no_billing_video =
     \<lparr>generateVideos = Inl billed_users_only,
      getVideosOperation = (\<lambda>n. Inr \<lparr>is_done = False, uri = None\<rparr>)\<rparr>"

section \<open>JSON texts are read back\<close>

lemma hex_value_digit: "k < 16 \<Longrightarrow> hex_value (hex_digit k) = Some k"
  by (auto simp: hex_value_def hex_digit_def Let_def)

lemma hex_value_zero: "hex_value (CHR ''0'') = Some 0"
  by (simp add: hex_value_def)

lemma unquote_quote_char:
  "unquote (quote_char c @ rest) = map_option (\<lambda>(s, r). (c # s, r)) (unquote rest)"
proof -
  have lt: "(of_char c :: nat) < 32 \<Longrightarrow> (of_char c :: nat) div 16 < 16" by simp
  have rec: "(of_char c :: nat) < 32 \<Longrightarrow>
      char_of ((of_char c :: nat) div 16 * 16 + of_char c mod 16) = c"
    by simp
  show ?thesis
    by (auto simp add: quote_char_def hex_value_digit hex_value_zero lt rec)
qed

lemma unquote_quote_body:
  "unquote (concat (map quote_char s) @ dquote # rest) = Some (s, rest)"
  by (induction s) (simp_all add: unquote_quote_char)

lemma unquote_quote_string:
  "unquote (tl (quote_string s) @ rest) = Some (s, rest)"
  by (simp add: quote_string_def unquote_quote_body)

lemma stringify_head:
  "\<exists>c cs. JSON_stringify v = c # cs \<and> \<not> is_ws c \<and> c \<noteq> CHR '']'' \<and> c \<noteq> CHR ''}''"
  by (cases v) (auto simp: quote_string_def is_ws_def)

lemma quote_string_head: "quote_string s = dquote # tl (quote_string s)"
  by (simp add: quote_string_def)

lemma parse_elements_stringify:
  assumes "xs \<noteq> []"
    and "\<And>x n rest. x \<in> set xs \<Longrightarrow> fuel x \<le> n \<Longrightarrow>
           parse_value n (JSON_stringify x @ rest) = Some (x, rest)"
    and "sum_list (map (\<lambda>x. Suc (fuel x)) xs) \<le> n"
  shows "parse_elements n (commas (map JSON_stringify xs) @ CHR '']'' # rest) = Some (xs, rest)"
  using assms
proof (induction xs arbitrary: n rule: list_nonempty_induct)
  case (single x)
  then obtain m where n: "n = Suc m" and m: "fuel x \<le> m"
    by (cases n) auto
  show ?case
    using single(1) [of x m "CHR '']'' # rest"] m
    by (simp add: n is_ws_def)
next
  case (cons x xs)
  then obtain m where n: "n = Suc m" and m: "fuel x \<le> m"
    and ms: "sum_list (map (\<lambda>x. Suc (fuel x)) xs) \<le> m"
    by (cases n) auto
  obtain y ys where xs: "xs = y # ys" using cons(1) by (cases xs) auto
  have tl: "parse_elements m (commas (map JSON_stringify xs) @ CHR '']'' # rest) = Some (xs, rest)"
    using cons(2) [of m] cons(3) ms by simp
  have hd: "parse_value m (JSON_stringify x @ CHR '','' # commas (map JSON_stringify xs)
    @ CHR '']'' # rest)
      = Some (x, CHR '','' # commas (map JSON_stringify xs) @ CHR '']'' # rest)"
    using cons(3) [of x m] m by simp
  show ?case
    using hd tl by (simp add: n xs is_ws_def)
qed

lemma member_text_append:
  "member_text (k, t) @ rest = dquote # (tl (quote_string k) @ CHR '':'' # t @ rest)"
  by (simp add: member_text_def quote_string_def)

lemma parse_members_stringify:
  assumes "kvs \<noteq> []"
    and "\<And>k v n rest. (k, v) \<in> set kvs \<Longrightarrow> fuel v \<le> n \<Longrightarrow>
           parse_value n (JSON_stringify v @ rest) = Some (v, rest)"
    and "sum_list (map (\<lambda>kv. Suc (fuel (snd kv))) kvs) \<le> n"
  shows "parse_members n
           (commas (map member_text (map (map_prod id JSON_stringify) kvs)) @ CHR ''}'' # rest)
         = Some (kvs, rest)"
  using assms
proof (induction kvs arbitrary: n rule: list_nonempty_induct)
  case (single kv)
  obtain k v where kv: "kv = (k, v)" by (cases kv)
  from single obtain m where n: "n = Suc m" and m: "fuel v \<le> m"
    by (cases n) (auto simp: kv)
  have val: "parse_value m (JSON_stringify v @ CHR ''}'' # rest) = Some (v, CHR ''}'' # rest)"
    using single(1) [of k v m] m by (simp add: kv)
  show ?case
    using val
    by (simp add: n kv member_text_append unquote_quote_string is_ws_def)
next
  case (cons kv kvs)
  obtain k v where kv: "kv = (k, v)" by (cases kv)
  from cons obtain m where n: "n = Suc m" and m: "fuel v \<le> m"
    and ms: "sum_list (map (\<lambda>kv. Suc (fuel (snd kv))) kvs) \<le> m"
    by (cases n) (auto simp: kv)
  obtain y ys where kvs: "kvs = y # ys" using cons(1) by (cases kvs) auto
  let ?tail = "commas (map member_text (map (map_prod id JSON_stringify) kvs)) @ CHR ''}'' # rest"
  have tl: "parse_members m ?tail = Some (kvs, rest)"
    by (rule cons(2)) (auto intro: cons(3) simp: ms)
  have val: "parse_value m (JSON_stringify v @ CHR '','' # ?tail) = Some (v, CHR '','' # ?tail)"
    using cons(3) [of k v m] m by (simp add: kv)
  have shape: "commas (map member_text (map (map_prod id JSON_stringify) (kv # kvs)))
    @ CHR ''}'' # rest
      = dquote # (tl (quote_string k) @ CHR '':'' # JSON_stringify v @ CHR '','' # ?tail)"
    using member_text_append [of k "JSON_stringify v" "CHR '','' # ?tail"] by (simp add: kvs kv)
  show ?case
    unfolding shape using val tl
    by (simp add: n kv unquote_quote_string is_ws_def)
qed

lemma parse_value_stringify:
  "fuel v \<le> n \<Longrightarrow> parse_value n (JSON_stringify v @ rest) = Some (v, rest)"
proof (induction v arbitrary: n rest)
  case JNull
  then show ?case by (cases n) (simp_all add: is_ws_def)
next
  case (JBool b)
  then show ?case by (cases n) (simp_all add: is_ws_def)
next
  case (JString s)
  have shape: "JSON_stringify (JString s) @ rest = dquote # (tl (quote_string s) @ rest)"
    by (simp add: quote_string_def)
  from JString show ?case
    unfolding shape by (cases n) (simp_all add: unquote_quote_string is_ws_def)
next
  case (JArray xs)
  then obtain m where n: "n = Suc m" and m: "sum_list (map (\<lambda>x. Suc (fuel x)) xs) \<le> m"
    by (cases n) auto
  show ?case
  proof (cases xs)
    case Nil
    then show ?thesis by (simp add: n is_ws_def)
  next
    case (Cons y ys)
    obtain c cs where hd: "JSON_stringify y = c # cs" "\<not> is_ws c" "c \<noteq> CHR '']''"
      using stringify_head [of y] by blast
    have "parse_elements m (commas (map JSON_stringify xs) @ CHR '']'' # rest) = Some (xs, rest)"
      using JArray.IH m by (intro parse_elements_stringify) (auto simp: Cons)
    moreover have "\<exists>t. commas (map JSON_stringify xs) = c # t"
      using hd(1) by (cases ys) (simp_all add: Cons)
    ultimately show ?thesis
      using hd(2,3) by (auto simp add: n is_ws_def)
  qed
next
  case (JObject kvs)
  then obtain m where n: "n = Suc m"
    and m: "sum_list (map (\<lambda>kv. Suc (fuel (snd kv))) kvs) \<le> m"
    by (cases n) auto
  show ?case
  proof (cases kvs)
    case Nil
    then show ?thesis by (simp add: n is_ws_def)
  next
    case (Cons y ys)
    have "parse_members m
        (commas (map member_text (map (map_prod id JSON_stringify) kvs)) @ CHR ''}'' # rest)
        = Some (kvs, rest)"
      using JObject.IH m by (intro parse_members_stringify) (auto simp: Cons)
    moreover have "\<exists>t. commas (map member_text (map (map_prod id JSON_stringify) kvs)) = dquote # t"
      by (cases ys) (simp_all add: Cons member_text_def quote_string_def)
    ultimately show ?thesis
      by (auto simp add: n is_ws_def)
  qed
qed

lemma length_commas:
  "sum_list (map (\<lambda>s. Suc (length s)) ss) \<le> Suc (length (commas ss))"
  by (induction ss rule: commas.induct) simp_all

lemma fuel_le_length: "fuel v \<le> length (JSON_stringify v)"
proof (induction v)
  case (JArray xs)
  have "sum_list (map (\<lambda>x. Suc (fuel x)) xs)
      \<le> sum_list (map (\<lambda>s. Suc (length s)) (map JSON_stringify xs))"
    unfolding map_map comp_def using JArray.IH by (intro sum_list_mono) simp
  also have "\<dots> \<le> Suc (length (commas (map JSON_stringify xs)))"
    by (rule length_commas)
  finally show ?case by simp
next
  case (JObject kvs)
  have "sum_list (map (\<lambda>kv. Suc (fuel (snd kv))) kvs)
      \<le> sum_list (map (\<lambda>s. Suc (length s))
           (map member_text (map (map_prod id JSON_stringify) kvs)))"
    unfolding map_map comp_def
  proof (intro sum_list_mono)
    fix kv assume kv: "kv \<in> set kvs"
    have "snd kv \<in> Basic_BNFs.snds kv"
      by (cases kv) simp
    with kv have "fuel (snd kv) \<le> length (JSON_stringify (snd kv))"
      by (rule JObject.IH)
    then show "Suc (fuel (snd kv))
        \<le> Suc (length (member_text (map_prod id JSON_stringify kv)))"
      by (cases kv) (simp add: member_text_def)
  qed
  also have "\<dots> \<le> Suc (length (commas (map member_text (map (map_prod id JSON_stringify) kvs))))"
    by (rule length_commas)
  finally show ?case by simp
qed (simp_all add: quote_string_def)

lemma JSON_parse_stringify: "JSON_parse (JSON_stringify v) = Some v"
  using parse_value_stringify [OF fuel_le_length, of v "[]"]
  by (simp add: JSON_parse_def)

lemma those_map_Some: "(\<And>x. x \<in> set xs \<Longrightarrow> f x = Some x) \<Longrightarrow> those (map f xs) = Some xs"
  by (induction xs) simp_all

lemma as_message_json: "as_message (message_json m) = Some m"
  by (cases m; cases "sender m"; cases "imageUrl m"; cases "videoUrl m")
     (simp_all add: message_json_def property_def optional_string_def sender_name_def)

lemma as_session_json: "as_session (session_json s) = Some s"
  by (cases s) (simp add: session_json_def property_def those_map_Some as_message_json)

lemma as_sessions_json: "as_array as_session (sessions_json h) = Some h"
  by (simp add: sessions_json_def those_map_Some as_session_json)

lemma as_strings_json: "as_array as_string (strings_json h) = Some h"
  by (simp add: strings_json_def those_map_Some)

section \<open>The stores\<close>

lemma stringify_sessions_nonempty: "JSON_stringify (sessions_json h) \<noteq> []"
  by (simp add: sessions_json_def)

lemma stringify_strings_nonempty: "JSON_stringify (strings_json h) \<noteq> []"
  by (simp add: strings_json_def)

lemma keys_differ: "CHAT_HISTORY_KEY \<noteq> SEARCH_HISTORY_KEY"
  by (simp add: CHAT_HISTORY_KEY_def SEARCH_HISTORY_KEY_def)

lemma saveChatHistory_accepted:
  "accepts ls (items ls) CHAT_HISTORY_KEY (JSON_stringify (sessions_json h)) \<Longrightarrow>
     saveChatHistory h ls = ls\<lparr>items := (items ls)(CHAT_HISTORY_KEY \<mapsto> JSON_stringify (sessions_json h))\<rparr>"
  by (simp add: saveChatHistory_def setItem_def)

lemma saveChatHistory_refused:
  "\<not> accepts ls (items ls) CHAT_HISTORY_KEY (JSON_stringify (sessions_json h)) \<Longrightarrow>
     saveChatHistory h ls = ls"
  by (simp add: saveChatHistory_def setItem_def)

lemma getChatHistory_saved:
  "accepts ls (items ls) CHAT_HISTORY_KEY (JSON_stringify (sessions_json h)) \<Longrightarrow>
     getChatHistory (saveChatHistory h ls) = h"
  by (simp add: saveChatHistory_accepted getChatHistory_def getItem_def
      stringify_sessions_nonempty JSON_parse_stringify as_sessions_json)

lemma getChatHistory_resaved:
  "getChatHistory (saveChatHistory (getChatHistory ls) ls) = getChatHistory ls"
  by (cases "accepts ls (items ls) CHAT_HISTORY_KEY (JSON_stringify (sessions_json (getChatHistory ls)))")
     (simp_all add: getChatHistory_saved saveChatHistory_refused)

lemma saveSearchHistory_accepted:
  "accepts ls (items ls) SEARCH_HISTORY_KEY (JSON_stringify (strings_json h)) \<Longrightarrow>
     saveSearchHistory h ls = ls\<lparr>items := (items ls)(SEARCH_HISTORY_KEY \<mapsto> JSON_stringify (strings_json h))\<rparr>"
  by (simp add: saveSearchHistory_def setItem_def)

lemma saveSearchHistory_refused:
  "\<not> accepts ls (items ls) SEARCH_HISTORY_KEY (JSON_stringify (strings_json h)) \<Longrightarrow>
     saveSearchHistory h ls = ls"
  by (simp add: saveSearchHistory_def setItem_def)

lemma getSearchHistory_saved:
  "accepts ls (items ls) SEARCH_HISTORY_KEY (JSON_stringify (strings_json h)) \<Longrightarrow>
     getSearchHistory (saveSearchHistory h ls) = h"
  by (simp add: saveSearchHistory_accepted getSearchHistory_def getItem_def
      stringify_strings_nonempty JSON_parse_stringify as_strings_json)

lemma getChatHistory_saveSearchHistory:
  "getChatHistory (saveSearchHistory h ls) = getChatHistory ls"
  by (simp add: saveSearchHistory_def setItem_def getChatHistory_def getItem_def keys_differ)

lemma getSearchHistory_saveChatHistory:
  "getSearchHistory (saveChatHistory h ls) = getSearchHistory ls"
  using keys_differ
  by (auto simp add: saveChatHistory_def setItem_def getSearchHistory_def getItem_def)

text \<open>
  C9 (as amended). Saving a collection and loading it back gives the collection, in order
  and content, whenever the store accepts the write; a write the store refuses is
  swallowed and leaves the store as it was. Saving what was loaded never changes what is
  loaded.
\<close>

theorem chat_history_round_trip:
  "(accepts ls (items ls) CHAT_HISTORY_KEY (JSON_stringify (sessions_json h)) \<longrightarrow>
      getChatHistory (saveChatHistory h ls) = h)
   \<and> (\<not> accepts ls (items ls) CHAT_HISTORY_KEY (JSON_stringify (sessions_json h)) \<longrightarrow>
      saveChatHistory h ls = ls)
   \<and> getChatHistory (saveChatHistory (getChatHistory ls) ls) = getChatHistory ls"
  by (simp add: getChatHistory_saved saveChatHistory_refused getChatHistory_resaved)

lemma one_chat_text_length: "\<not> length (JSON_stringify (sessions_json one_chat)) \<le> 16"
  by (simp add: one_chat_def sessions_json_def session_json_def message_json_def
      sender_name_def quote_string_def quote_char_def member_text_def)

theorem chat_history_round_trip_witness:
  "accepts open_store (items open_store) CHAT_HISTORY_KEY (JSON_stringify (sessions_json one_chat))
   \<and> getChatHistory (saveChatHistory one_chat open_store) = one_chat
   \<and> \<not> accepts small_store (items small_store) CHAT_HISTORY_KEY
           (JSON_stringify (sessions_json one_chat))
   \<and> saveChatHistory one_chat small_store = small_store
   \<and> getChatHistory (saveChatHistory (getChatHistory open_store) open_store)
       = getChatHistory open_store"
proof -
  have small: "\<not> accepts small_store (items small_store) CHAT_HISTORY_KEY
      (JSON_stringify (sessions_json one_chat))"
    using one_chat_text_length by (simp add: small_store_def)
  have wide: "accepts open_store (items open_store) CHAT_HISTORY_KEY
      (JSON_stringify (sessions_json one_chat))"
    by (simp add: open_store_def)
  show ?thesis
    using chat_history_round_trip [of open_store one_chat]
      chat_history_round_trip [of small_store one_chat] small wide
    by blast
qed

text \<open>
  A store that takes texts of at most sixteen characters refuses the collection, and what
  is loaded afterwards is the empty collection.
\<close>

theorem chat_history_round_trip_counterexample:
  "getChatHistory (saveChatHistory one_chat small_store) \<noteq> one_chat"
proof -
  have "saveChatHistory one_chat small_store = small_store"
    by (rule saveChatHistory_refused) (simp add: small_store_def one_chat_text_length)
  moreover have "getChatHistory small_store = []"
    by (simp add: getChatHistory_def getItem_def small_store_def)
  ultimately show ?thesis
    by (simp add: one_chat_def)
qed

section \<open>chatHistoryService and searchHistoryService\<close>

lemma createNewSession_fst:
  "fst (createNewSession now ls) = \<lparr>session_id = now, title = ''Novo Chat'', messages = []\<rparr>"
  by (simp add: createNewSession_def Let_def)

lemma createNewSession_snd:
  "snd (createNewSession now ls) =
     saveChatHistory (\<lparr>session_id = now, title = ''Novo Chat'', messages = []\<rparr> # getChatHistory ls) ls"
  by (simp add: createNewSession_def Let_def)

text \<open>
  The session \<^verbatim>\<open>createNewSession\<close> returns has the reading of the clock as its id, the
  default title and an empty transcript. Where the store accepts the write the collection
  loaded afterwards is the new session followed by the collection loaded before; where it
  refuses, the store is left as it was.
\<close>

lemma createNewSession_result:
  "createNewSession now ls = (s, ls') \<Longrightarrow>
     s = \<lparr>session_id = now, title = ''Novo Chat'', messages = []\<rparr>
     \<and> (accepts ls (items ls) CHAT_HISTORY_KEY
            (JSON_stringify (sessions_json (s # getChatHistory ls))) \<longrightarrow>
          getChatHistory ls' = s # getChatHistory ls)
     \<and> (\<not> accepts ls (items ls) CHAT_HISTORY_KEY
              (JSON_stringify (sessions_json (s # getChatHistory ls))) \<longrightarrow>
          ls' = ls)"
  using createNewSession_fst [of now ls] createNewSession_snd [of now ls]
  by (auto simp add: getChatHistory_saved saveChatHistory_refused)

lemma getChatHistory_open_store: "getChatHistory open_store = []"
  by (simp add: getChatHistory_def getItem_def open_store_def)

lemma closed_store_refuses: "\<not> accepts closed_store held k v"
  by (simp add: closed_store_def)

lemma getChatHistory_closed_store: "getChatHistory closed_store = []"
  by (simp add: getChatHistory_def getItem_def closed_store_def)

lemma accepts_saveChatHistory: "accepts (saveChatHistory h ls) = accepts ls"
  by (simp add: saveChatHistory_def setItem_def)

lemma open_store_accepts: "accepts open_store held k v"
  by (simp add: open_store_def)

text \<open>
  C5. The id of a new session is the reading of the clock and is compared with no id in
  the collection. Two sessions created while the clock shows the same millisecond: the
  second has the id of the first, which the collection then holds twice, and
  \<^verbatim>\<open>deleteSession\<close> of that id removes both chats.
\<close>

theorem createNewSession_same_millisecond:
  "session_id (fst (createNewSession midnight (snd (createNewSession midnight open_store))))
     \<in> session_id ` set (getChatHistory (snd (createNewSession midnight open_store)))
   \<and> getChatHistory (snd (createNewSession midnight (snd (createNewSession midnight open_store))))
       = [new_chat, new_chat]
   \<and> fst (deleteSession midnight
             (snd (createNewSession midnight (snd (createNewSession midnight open_store)))))
       = []"
proof -
  define first where "first = snd (createNewSession midnight open_store)"
  define second where "second = snd (createNewSession midnight first)"
  have one: "getChatHistory first = [new_chat]"
    unfolding first_def createNewSession_snd getChatHistory_open_store
    by (simp add: getChatHistory_saved open_store_accepts new_chat_def)
  have "accepts first = accepts open_store"
    unfolding first_def createNewSession_snd by (rule accepts_saveChatHistory)
  then have "accepts first held k v" for held k v
    by (simp add: open_store_accepts)
  then have two: "getChatHistory second = [new_chat, new_chat]"
    unfolding second_def createNewSession_snd one
    by (simp add: getChatHistory_saved new_chat_def)
  have "session_id (fst (createNewSession midnight first)) \<in> session_id ` set (getChatHistory first)"
    by (simp add: createNewSession_fst one new_chat_def)
  moreover have "fst (deleteSession midnight second) = []"
    by (simp add: deleteSession_def Let_def two new_chat_def)
  ultimately show ?thesis
    using two unfolding second_def first_def by simp
qed

lemma addSearchHistoryEntry_empty: "addSearchHistoryEntry [] ls = ls"
  by (simp add: addSearchHistoryEntry_def)

lemma addSearchHistoryEntry_saves:
  "query \<noteq> [] \<Longrightarrow>
     addSearchHistoryEntry query ls =
       saveSearchHistory
         (take 100 (query # filter (\<lambda>item. toLowerCase ls item \<noteq> toLowerCase ls query)
                             (getSearchHistory ls))) ls"
  by (simp add: addSearchHistoryEntry_def Let_def MAX_HISTORY_SIZE_def)

text \<open>
  C6 (as amended). Adding the empty query leaves the store as it was. Adding a query that
  is not empty computes the query followed by the entries held before without those
  equal to it up to the case of the letters (those that \<^verbatim>\<open>toLowerCase\<close> of the host maps
  to what it maps the query to), cut to the first 100; where the store accepts the write
  this is the history afterwards, and where it refuses, the store is left as it was.
\<close>

theorem addSearchHistoryEntry_moves_to_front:
  "addSearchHistoryEntry [] ls = ls
   \<and> (query \<noteq> [] \<longrightarrow>
        (let history = take 100 (query # filter (\<lambda>item. toLowerCase ls item \<noteq> toLowerCase ls query)
                                            (getSearchHistory ls))
         in length history \<le> 100
            \<and> (accepts ls (items ls) SEARCH_HISTORY_KEY (JSON_stringify (strings_json history))
                   \<longrightarrow> getSearchHistory (addSearchHistoryEntry query ls) = history)
            \<and> (\<not> accepts ls (items ls) SEARCH_HISTORY_KEY (JSON_stringify (strings_json history))
                   \<longrightarrow> addSearchHistoryEntry query ls = ls)))"
  by (simp add: addSearchHistoryEntry_empty addSearchHistoryEntry_saves Let_def
      getSearchHistory_saved saveSearchHistory_refused)

lemma getSearchHistory_open_store: "getSearchHistory open_store = []"
  by (simp add: getSearchHistory_def getItem_def open_store_def)

lemma lower_ascii_Cat: "map lower_ascii ''Cat'' = ''cat''" and lower_ascii_cat: "map lower_ascii ''cat'' = ''cat''"
  by code_simp+

lemma toLowerCase_saveSearchHistory: "toLowerCase (saveSearchHistory h ls) = toLowerCase ls"
  by (simp add: saveSearchHistory_def setItem_def)

theorem addSearchHistoryEntry_moves_to_front_witness:
  "getSearchHistory (addSearchHistoryEntry ''Cat'' open_store) = [''Cat'']
   \<and> getSearchHistory (addSearchHistoryEntry ''cat'' (addSearchHistoryEntry ''Cat'' open_store))
       = [''cat'']
   \<and> addSearchHistoryEntry ''cat'' closed_store = closed_store
   \<and> addSearchHistoryEntry [] open_store = open_store"
proof -
  have first: "getSearchHistory (addSearchHistoryEntry ''Cat'' open_store) = [''Cat'']"
    using addSearchHistoryEntry_moves_to_front [of open_store "''Cat''"]
    by (simp add: getSearchHistory_open_store) (simp add: open_store_def)
  have "accepts (addSearchHistoryEntry ''Cat'' open_store) held k v" for held k v
    by (simp add: addSearchHistoryEntry_saves saveSearchHistory_def setItem_def open_store_def)
  moreover have "toLowerCase (addSearchHistoryEntry ''Cat'' open_store) = map lower_ascii"
    by (simp add: addSearchHistoryEntry_saves toLowerCase_saveSearchHistory) (simp add: open_store_def)
  ultimately have second:
    "getSearchHistory (addSearchHistoryEntry ''cat'' (addSearchHistoryEntry ''Cat'' open_store))
      = [''cat'']"
    using addSearchHistoryEntry_moves_to_front [of "addSearchHistoryEntry ''Cat'' open_store" "''cat''"]
    by (simp add: first lower_ascii_Cat lower_ascii_cat del: list.map)
  have third: "addSearchHistoryEntry ''cat'' closed_store = closed_store"
    using addSearchHistoryEntry_moves_to_front [of closed_store "''cat''"] closed_store_refuses
    by (simp add: Let_def)
  have fourth: "addSearchHistoryEntry [] open_store = open_store"
    using addSearchHistoryEntry_moves_to_front [of open_store "[]"] by simp
  show ?thesis
    using first second third fourth by simp
qed

text \<open>At a store that refuses every write, the history after adding a query is still empty.\<close>

theorem addSearchHistoryEntry_moves_to_front_counterexample:
  "getSearchHistory (addSearchHistoryEntry ''cat'' closed_store)
     \<noteq> take 100 (''cat'' # filter (\<lambda>item. toLowerCase closed_store item
                                            \<noteq> toLowerCase closed_store ''cat'')
                               (getSearchHistory closed_store))"
proof -
  have "addSearchHistoryEntry ''cat'' closed_store = closed_store"
    by (simp add: addSearchHistoryEntry_saves saveSearchHistory_refused closed_store_def)
  moreover have "getSearchHistory closed_store = []"
    by (simp add: getSearchHistory_def getItem_def closed_store_def)
  ultimately show ?thesis by simp
qed

section \<open>geminiService: titles and errors\<close>

lemma generateChatTitle_never_raises:
  "\<exists>t. snd (generateChatTitle reply firstMessage lang) = Inr t"
  by (cases reply; cases "projr reply")
     (auto simp add: generateChatTitle_def try_catch_def Let_def split: sum.splits option.splits)

lemma generateChatTitle_failed:
  "snd (generateChatTitle (Inl error) firstMessage lang) = Inr (fallbackTitle lang)"
  "snd (generateChatTitle (Inr None) firstMessage lang) = Inr (fallbackTitle lang)"
  by (simp_all add: generateChatTitle_def try_catch_def Let_def)

lemma generateChatTitle_cleaned:
  "snd (generateChatTitle (Inr (Some response_text)) firstMessage lang) =
     Inr (if strip_decoration (strip_title_prefix (trim response_text)) = [] then fallbackTitle lang
          else strip_decoration (strip_title_prefix (trim response_text)))"
  by (simp add: generateChatTitle_def try_catch_def Let_def)

lemma utf8_append [simp]: "utf8 (a @ b) \<longleftrightarrow> utf8 a \<and> utf8 b"
  by (simp add: utf8_def)

lemma utf8_rev [simp]: "utf8 (rev a) \<longleftrightarrow> utf8 a"
  by (simp add: utf8_def)

lemma utf8_dropWhile: "utf8 a \<Longrightarrow> utf8 (dropWhile P a)"
  by (induction a) (simp_all add: utf8_def)

lemma utf8_nonempty: "utf8 t \<Longrightarrow> t \<noteq> [] \<Longrightarrow> concat t \<noteq> []"
  by (cases t) (simp_all add: utf8_def)

lemma characters_concat_append: "utf8 cs \<Longrightarrow> characters (concat cs @ r) = cs @ characters r"
proof (induction cs)
  case Nil
  then show ?case by simp
next
  case (Cons ch cs)
  then obtain c rest where ch: "ch = c # rest" and len: "Suc (length rest) = width c"
    by (cases ch) (auto simp add: utf8_def)
  from Cons have "characters (concat cs @ r) = cs @ characters r"
    by (simp add: utf8_def)
  then show ?case
    using len by (simp add: ch)
qed

lemma characters_concat: "utf8 cs \<Longrightarrow> characters (concat cs) = cs"
  using characters_concat_append [of cs "[]"] by simp

lemma dropWhile_stop: "ys \<noteq> [] \<Longrightarrow> \<not> P (hd ys) \<Longrightarrow> dropWhile P (xs @ ys) = dropWhile P xs @ ys"
  by (induction xs) (auto simp add: neq_Nil_conv)

lemma dropWhile_all: "list_all P xs \<Longrightarrow> dropWhile P xs = []"
  by (simp add: list_all_iff)

lemma list_all_dropWhile: "list_all Q xs \<Longrightarrow> list_all Q (dropWhile P xs)"
  by (induction xs) simp_all

lemma strip_ends:
  assumes "m \<noteq> []" "\<not> P (hd m)" "\<not> P (last m)"
  shows "rev (dropWhile P (rev (dropWhile P (a @ m @ b))))
           = dropWhile P a @ m @ rev (dropWhile P (rev b))"
proof -
  have "dropWhile P (a @ m @ b) = dropWhile P a @ m @ b"
    using assms(1,2) by (simp add: dropWhile_stop)
  moreover have "dropWhile P (rev b @ rev m @ rev (dropWhile P a))
      = dropWhile P (rev b) @ rev m @ rev (dropWhile P a)"
    using assms(1,3) by (intro dropWhile_stop) (simp_all add: hd_rev)
  ultimately show ?thesis by simp
qed

lemma is_space_decoration: "is_space c \<Longrightarrow> is_decoration c"
  by (simp add: is_decoration_def)

lemma trim_text:
  assumes "utf8 (a @ m @ b)" "m \<noteq> []" "\<not> is_space (hd m)" "\<not> is_space (last m)"
  shows "trim (concat (a @ m @ b))
           = concat (dropWhile is_space a @ m @ rev (dropWhile is_space (rev b)))"
  unfolding trim_def characters_concat [OF assms(1)] strip_ends [OF assms(2,3,4)] ..

lemma strip_decoration_text:
  assumes "utf8 (a @ m @ b)" "m \<noteq> []" "\<not> is_decoration (hd m)" "\<not> is_decoration (last m)"
  shows "strip_decoration (concat (a @ m @ b))
           = concat (dropWhile is_decoration a @ m @ rev (dropWhile is_decoration (rev b)))"
  unfolding strip_decoration_def characters_concat [OF assms(1)] strip_ends [OF assms(2,3,4)] ..

lemma strip_decoration_bare:
  assumes "utf8 (a @ t @ b)" "bare t" "list_all is_decoration a" "list_all is_decoration b"
  shows "strip_decoration (concat (a @ t @ b)) = concat t"
proof -
  have "strip_decoration (concat (a @ t @ b))
      = concat (dropWhile is_decoration a @ t @ rev (dropWhile is_decoration (rev b)))"
    using assms(1,2) by (intro strip_decoration_text) (simp_all add: bare_def)
  moreover have "dropWhile is_decoration a = []" "dropWhile is_decoration (rev b) = []"
    using assms(3,4) by (simp_all add: dropWhile_all)
  ultimately show ?thesis by simp
qed

lemma strip_decoration_all:
  assumes "utf8 d" "list_all is_decoration d"
  shows "strip_decoration (concat d) = []"
  using assms by (simp add: strip_decoration_def characters_concat dropWhile_all)

lemma titulo_shape:
  assumes "matches_word titulo pre"
  obtains a b c d e f where "pre = [a, b, c, d, e, f]" "a = ''t'' \<or> a = ''T''"
    "b = i_acute \<or> b = I_acute" "f = ''o'' \<or> f = ''O''"
  using assms by (auto simp add: matches_word_def titulo_def list_all2_Cons2)

lemma title_en_shape:
  assumes "matches_word title_en pre"
  obtains a b c d e where "pre = [a, b, c, d, e]" "a = ''t'' \<or> a = ''T''"
    "b = ''i'' \<or> b = ''I''" "e = ''e'' \<or> e = ''E''"
  using assms by (auto simp add: matches_word_def title_en_def list_all2_Cons2)

lemma letters_plain:
  "\<not> is_decoration ''t''" "\<not> is_decoration ''T''" "\<not> is_decoration ''o''" "\<not> is_decoration ''O''"
  "\<not> is_decoration ''e''" "\<not> is_decoration ''E''" "\<not> is_decoration '':''"
  by (simp_all add: is_decoration_def is_space_def)

lemma title_word_ends:
  assumes "title_word pre"
  shows "pre \<noteq> []" "\<not> is_decoration (hd pre)" "\<not> is_decoration (last pre)"
proof -
  have "pre \<noteq> [] \<and> \<not> is_decoration (hd pre) \<and> \<not> is_decoration (last pre)"
  proof (cases "matches_word titulo pre")
    case True
    then show ?thesis
      by (rule titulo_shape) (use letters_plain in auto)
  next
    case False
    then have "matches_word title_en pre"
      using assms by (simp add: title_word_def)
    then show ?thesis
      by (rule title_en_shape) (use letters_plain in auto)
  qed
  then show "pre \<noteq> []" "\<not> is_decoration (hd pre)" "\<not> is_decoration (last pre)"
    by simp_all
qed

lemma title_word_matched:
  assumes "title_word pre"
  shows "(if matches_word titulo (take 6 (pre @ r)) then Some (6 :: nat)
          else if matches_word title_en (take 5 (pre @ r)) then Some 5
          else None) = Some (length pre)"
proof (cases "matches_word titulo pre")
  case True
  then have "length pre = 6"
    by (rule titulo_shape) simp
  then show ?thesis using True by simp
next
  case False
  then have en: "matches_word title_en pre"
    using assms by (simp add: title_word_def)
  then have len: "length pre = 5"
    by (rule title_en_shape) simp
  have "\<not> matches_word titulo (take 6 (pre @ r))"
    using en by (rule title_en_shape) (auto simp add: matches_word_def titulo_def list_all2_Cons2)
  then show ?thesis using en len by simp
qed

lemma strip_title_prefix_word:
  assumes "utf8 (pre @ colon @ r)" "title_word pre" "colon = [] \<or> colon = ['':'']"
    and "colon = [] \<longrightarrow> r = [] \<or> hd r \<noteq> '':''"
  shows "strip_title_prefix (concat (pre @ colon @ r)) = concat (dropWhile is_space r)"
proof -
  have c: "(case colon @ r of [] \<Rightarrow> colon @ r | c # cs' \<Rightarrow> if c = '':'' then cs' else colon @ r) = r"
    using assms(3,4) by (cases r) auto
  have d: "drop (length pre) (pre @ colon @ r) = colon @ r"
    by simp
  show ?thesis
    unfolding strip_title_prefix_def characters_concat [OF assms(1)] Let_def
      title_word_matched [OF assms(2)]
    by (simp only: option.case d c)
qed

lemma no_title_word_decoration:
  assumes "cs = [] \<or> is_decoration (hd cs)"
  shows "\<not> matches_word titulo (take 6 cs)" "\<not> matches_word title_en (take 5 cs)"
  using assms letters_plain
  by (cases cs; auto simp add: matches_word_def titulo_def title_en_def list_all2_Cons2)+

lemma matches_word_take:
  assumes "matches_word w (take (length w) (t @ d))" "list_all is_decoration d"
    and "\<forall>(l, u)\<in>set w. \<not> is_decoration l \<and> \<not> is_decoration u"
  shows "matches_word w (take (length w) t)"
proof (cases "length w \<le> length t")
  case True
  then show ?thesis using assms(1) by simp
next
  case False
  then have i: "length t < length w" by simp
  have all: "list_all2 (\<lambda>ch (l, u). ch = l \<or> ch = u) (take (length w) (t @ d)) w"
    using assms(1) by (simp add: matches_word_def)
  then have len: "length (take (length w) (t @ d)) = length w"
    by (rule list_all2_lengthD)
  then have d: "d \<noteq> []" using i by auto
  obtain l u where lu: "w ! length t = (l, u)"
    by (cases "w ! length t")
  have "d ! 0 = l \<or> d ! 0 = u"
    using list_all2_nthD [OF all, of "length t"] i len lu d by (simp add: nth_append)
  moreover have "is_decoration (d ! 0)"
    using d assms(2) by (cases d) simp_all
  moreover have "(l, u) \<in> set w"
    using i lu nth_mem [of "length t" w] by simp
  ultimately show ?thesis
    using assms(3) by auto
qed

lemma no_title_word_after:
  assumes "\<not> starts_with_title_word t" "list_all is_decoration d"
  shows "\<not> matches_word titulo (take 6 (t @ d))" "\<not> matches_word title_en (take 5 (t @ d))"
proof -
  have plain: "\<forall>(l, u)\<in>set titulo. \<not> is_decoration l \<and> \<not> is_decoration u"
    "\<forall>(l, u)\<in>set title_en. \<not> is_decoration l \<and> \<not> is_decoration u"
    by (simp_all add: titulo_def title_en_def is_decoration_def is_space_def)
  have six: "length titulo = 6" and five: "length title_en = 5"
    by (simp_all add: titulo_def title_en_def)
  show "\<not> matches_word titulo (take 6 (t @ d))"
    using matches_word_take [of titulo t d, OF _ assms(2) plain(1)] assms(1)
    unfolding six by (auto simp add: starts_with_title_word_def)
  show "\<not> matches_word title_en (take 5 (t @ d))"
    using matches_word_take [of title_en t d, OF _ assms(2) plain(2)] assms(1)
    unfolding five by (auto simp add: starts_with_title_word_def)
qed

lemma strip_title_prefix_none:
  assumes "utf8 cs" "\<not> matches_word titulo (take 6 cs)" "\<not> matches_word title_en (take 5 cs)"
  shows "strip_title_prefix (concat cs) = concat cs"
  unfolding strip_title_prefix_def characters_concat [OF assms(1)]
  using assms(2,3) by simp

lemma generateChatTitle_prefixed:
  assumes "utf8 (ws @ pre @ colon @ d1 @ t @ d2)" "list_all is_space ws" "title_word pre"
    and "colon = [] \<or> colon = ['':'']" "list_all is_decoration d1" "list_all is_decoration d2"
    and "bare t" "colon = [] \<longrightarrow> hd (d1 @ t) \<noteq> '':''"
  shows "snd (generateChatTitle (Inr (Some (concat (ws @ pre @ colon @ d1 @ t @ d2))))
            firstMessage lang) = Inr (concat t)"
proof -
  define d2' where "d2' = rev (dropWhile is_space (rev d2))"
  define d1' where "d1' = dropWhile is_space d1"
  have t: "t \<noteq> []" "\<not> is_decoration (hd t)" "\<not> is_decoration (last t)"
    using assms(7) by (simp_all add: bare_def)
  have u: "utf8 ws" "utf8 pre" "utf8 colon" "utf8 d1" "utf8 t" "utf8 d2"
    using assms(1) by simp_all
  have u': "utf8 d1'" "utf8 d2'"
    using u by (simp_all add: d1'_def d2'_def utf8_dropWhile)
  have deco: "list_all is_decoration d1'" "list_all is_decoration d2'"
    using assms(5,6) by (simp_all add: d1'_def d2'_def list_all_dropWhile)
  let ?m = "pre @ colon @ d1 @ t"
  have "trim (concat (ws @ ?m @ d2)) = concat (dropWhile is_space ws @ ?m @ d2')"
    unfolding d2'_def
    using u t title_word_ends [OF assms(3)] is_space_decoration
    by (intro trim_text) auto
  then have one: "trim (concat (ws @ pre @ colon @ d1 @ t @ d2)) = concat (pre @ colon @ d1 @ t @ d2')"
    using assms(2) by (simp add: dropWhile_all)
  have "strip_title_prefix (concat (pre @ colon @ (d1 @ t @ d2')))
      = concat (dropWhile is_space (d1 @ t @ d2'))"
    using u u' assms(3,4,8) t(1) by (intro strip_title_prefix_word) (auto simp add: hd_append)
  moreover have "dropWhile is_space (d1 @ t @ d2') = d1' @ t @ d2'"
    unfolding d1'_def using t is_space_decoration by (intro dropWhile_stop) auto
  ultimately have two: "strip_title_prefix (concat (pre @ colon @ d1 @ t @ d2')) = concat (d1' @ t @ d2')"
    by simp
  have three: "strip_decoration (concat (d1' @ t @ d2')) = concat t"
    using u u' assms(7) deco by (intro strip_decoration_bare) simp_all
  show ?thesis
    unfolding generateChatTitle_cleaned one two three using utf8_nonempty [OF u(5) t(1)]
    by (simp only: if_False)
qed

lemma generateChatTitle_prefix_only:
  assumes "utf8 (ws @ pre @ colon @ d)" "list_all is_space ws" "title_word pre"
    and "colon = [] \<or> colon = ['':'']" "list_all is_decoration d"
  shows "snd (generateChatTitle (Inr (Some (concat (ws @ pre @ colon @ d)))) firstMessage lang)
           = Inr (fallbackTitle lang)"
proof -
  define d' where "d' = rev (dropWhile is_space (rev d))"
  have u: "utf8 ws" "utf8 pre" "utf8 colon" "utf8 d"
    using assms(1) by simp_all
  have u': "utf8 d'"
    using u by (simp add: d'_def utf8_dropWhile)
  have deco: "list_all is_decoration d'"
    using assms(5) by (simp add: d'_def list_all_dropWhile)
  let ?m = "pre @ colon"
  have "trim (concat (ws @ ?m @ d)) = concat (dropWhile is_space ws @ ?m @ d')"
    unfolding d'_def
    using u title_word_ends [OF assms(3)] is_space_decoration assms(4) letters_plain(7)
    by (intro trim_text) auto
  then have one: "trim (concat (ws @ pre @ colon @ d)) = concat (pre @ colon @ d')"
    using assms(2) by (simp add: dropWhile_all)
  have "d' = [] \<or> is_decoration (hd d')"
    using deco by (cases d') simp_all
  then have "d' = [] \<or> hd d' \<noteq> '':''"
    using letters_plain(7) by auto
  then have two: "strip_title_prefix (concat (pre @ colon @ d')) = concat (dropWhile is_space d')"
    using u u' assms(3,4) by (intro strip_title_prefix_word) auto
  have three: "strip_decoration (concat (dropWhile is_space d')) = []"
    using u' deco by (intro strip_decoration_all) (simp_all add: utf8_dropWhile list_all_dropWhile)
  show ?thesis
    unfolding generateChatTitle_cleaned one two three by simp
qed

lemma generateChatTitle_decorated:
  assumes "utf8 (d1 @ t @ d2)" "list_all is_decoration d1" "list_all is_decoration d2" "bare t"
    and "\<not> list_all is_space d1 \<or> \<not> starts_with_title_word t"
  shows "snd (generateChatTitle (Inr (Some (concat (d1 @ t @ d2)))) firstMessage lang)
           = Inr (concat t)"
proof -
  define d2' where "d2' = rev (dropWhile is_space (rev d2))"
  define d1' where "d1' = dropWhile is_space d1"
  have t: "t \<noteq> []" "\<not> is_decoration (hd t)" "\<not> is_decoration (last t)"
    using assms(4) by (simp_all add: bare_def)
  have u: "utf8 d1" "utf8 t" "utf8 d2"
    using assms(1) by simp_all
  have u': "utf8 d1'" "utf8 d2'"
    using u by (simp_all add: d1'_def d2'_def utf8_dropWhile)
  have deco: "list_all is_decoration d1'" "list_all is_decoration d2'"
    using assms(2,3) by (simp_all add: d1'_def d2'_def list_all_dropWhile)
  have one: "trim (concat (d1 @ t @ d2)) = concat (d1' @ t @ d2')"
    unfolding d1'_def d2'_def
    using u t is_space_decoration by (intro trim_text) auto
  have none: "\<not> matches_word titulo (take 6 (d1' @ t @ d2'))
      \<and> \<not> matches_word title_en (take 5 (d1' @ t @ d2'))"
  proof (cases "d1' = []")
    case True
    then have "list_all is_space d1"
      unfolding d1'_def by (simp add: dropWhile_eq_Nil_conv list_all_iff)
    then have "\<not> starts_with_title_word t"
      using assms(5) by simp
    then show ?thesis
      using no_title_word_after [OF _ deco(2)] True by simp
  next
    case False
    then have "is_decoration (hd (d1' @ t @ d2'))"
      using deco(1) by (cases d1') simp_all
    then show ?thesis
      using no_title_word_decoration [of "d1' @ t @ d2'"] by simp
  qed
  have two: "strip_title_prefix (concat (d1' @ t @ d2')) = concat (d1' @ t @ d2')"
    using u u' none by (intro strip_title_prefix_none) simp_all
  have three: "strip_decoration (concat (d1' @ t @ d2')) = concat t"
    using u u' assms(4) deco by (intro strip_decoration_bare) simp_all
  show ?thesis
    unfolding generateChatTitle_cleaned one two three using utf8_nonempty [OF u(2) t(1)]
    by (simp only: if_False)
qed

lemma generateChatTitle_decoration_only:
  assumes "utf8 d" "list_all is_decoration d"
  shows "snd (generateChatTitle (Inr (Some (concat d))) firstMessage lang)
           = Inr (fallbackTitle lang)"
proof -
  define d' where "d' = rev (dropWhile is_space (rev (dropWhile is_space d)))"
  have u': "utf8 d'"
    using assms(1) by (simp add: d'_def utf8_dropWhile)
  have deco: "list_all is_decoration d'"
    using assms(2) by (simp add: d'_def list_all_dropWhile)
  have one: "trim (concat d) = concat d'"
    by (simp add: trim_def characters_concat [OF assms(1)] d'_def)
  have "d' = [] \<or> is_decoration (hd d')"
    using deco by (cases d') simp_all
  then have two: "strip_title_prefix (concat d') = concat d'"
    using u' no_title_word_decoration [of d'] by (intro strip_title_prefix_none) simp_all
  have three: "strip_decoration (concat d') = []"
    using u' deco by (rule strip_decoration_all)
  show ?thesis
    unfolding generateChatTitle_cleaned one two three by simp
qed

lemma ends_split:
  "list_all P xs \<or>
   (\<exists>a m b. xs = a @ m @ b \<and> list_all P a \<and> list_all P b \<and> m \<noteq> [] \<and> \<not> P (hd m)
              \<and> \<not> P (last m))"
proof (cases "dropWhile P xs = []")
  case True
  then show ?thesis
    by (simp add: dropWhile_eq_Nil_conv list_all_iff)
next
  case False
  define r where "r = dropWhile P xs"
  define m where "m = rev (dropWhile P (rev r))"
  define b where "b = rev (takeWhile P (rev r))"
  have r: "r \<noteq> []" "\<not> P (hd r)"
    using False hd_dropWhile [of P xs] by (simp_all add: r_def)
  have xs: "xs = takeWhile P xs @ r"
    by (simp add: r_def)
  have "rev r = takeWhile P (rev r) @ dropWhile P (rev r)"
    by simp
  then have "rev (rev r) = rev (dropWhile P (rev r)) @ rev (takeWhile P (rev r))"
    by (metis rev_append)
  then have split: "r = m @ b"
    by (simp add: m_def b_def)
  have "hd r \<in> set (rev r)"
    using r(1) by simp
  then have "\<not> (\<forall>x\<in>set (rev r). P x)"
    using r(2) by blast
  then have ne: "dropWhile P (rev r) \<noteq> []"
    by (simp add: dropWhile_eq_Nil_conv)
  then have m: "m \<noteq> []"
    by (simp add: m_def)
  have "\<not> P (hd (dropWhile P (rev r)))"
    using ne by (rule hd_dropWhile)
  then have last: "\<not> P (last m)"
    using ne by (simp add: m_def last_rev)
  have first: "\<not> P (hd m)"
    using r(2) m split by (cases m) simp_all
  have "list_all P (takeWhile P xs)" "list_all P b"
    by (auto simp add: list_all_iff b_def dest: set_takeWhileD)
  then show ?thesis
    using xs split m first last by blast
qed

lemma starts_with_title_word_append:
  "starts_with_title_word t \<Longrightarrow> starts_with_title_word (t @ d)"
proof -
  assume "starts_with_title_word t"
  then consider "matches_word titulo (take 6 t)" | "matches_word title_en (take 5 t)"
    by (auto simp add: starts_with_title_word_def)
  then show ?thesis
  proof cases
    case 1
    then have "length (take 6 t) = 6"
      by (auto simp add: matches_word_def titulo_def dest: list_all2_lengthD)
    then have "take 6 (t @ d) = take 6 t"
      by simp
    then show ?thesis using 1 by (simp add: starts_with_title_word_def del: take_append)
  next
    case 2
    then have "length (take 5 t) = 5"
      by (auto simp add: matches_word_def title_en_def dest: list_all2_lengthD)
    then have "take 5 (t @ d) = take 5 t"
      by simp
    then show ?thesis using 2 by (simp add: starts_with_title_word_def del: take_append)
  qed
qed

lemma title_shapes:
  "(\<exists>ws pre colon d1 t d2.
       cs = ws @ pre @ colon @ d1 @ t @ d2 \<and> list_all is_space ws \<and> title_word pre
       \<and> (colon = [] \<or> colon = ['':'']) \<and> list_all is_decoration d1
       \<and> list_all is_decoration d2 \<and> bare t \<and> (colon = [] \<longrightarrow> hd (d1 @ t) \<noteq> '':''))
   \<or> (\<exists>ws pre colon d.
       cs = ws @ pre @ colon @ d \<and> list_all is_space ws \<and> title_word pre
       \<and> (colon = [] \<or> colon = ['':'']) \<and> list_all is_decoration d)
   \<or> (\<exists>d1 t d2.
       cs = d1 @ t @ d2 \<and> list_all is_decoration d1 \<and> list_all is_decoration d2 \<and> bare t
       \<and> (\<not> list_all is_space d1 \<or> \<not> starts_with_title_word t))
   \<or> list_all is_decoration cs"
proof (cases "starts_with_title_word (dropWhile is_space cs)")
  case True
  define ws where "ws = takeWhile is_space cs"
  define r where "r = dropWhile is_space cs"
  have cs: "cs = ws @ r" and ws: "list_all is_space ws"
    by (auto simp add: ws_def r_def list_all_iff dest: set_takeWhileD)
  obtain pre r2 where pre: "r = pre @ r2" "title_word pre"
  proof (cases "matches_word titulo (take 6 r)")
    case True
    then show ?thesis
      using that [of "take 6 r" "drop 6 r"] by (simp add: title_word_def)
  next
    case False
    then have "matches_word title_en (take 5 r)"
      using True by (simp add: r_def starts_with_title_word_def)
    then show ?thesis
      using that [of "take 5 r" "drop 5 r"] by (simp add: title_word_def)
  qed
  obtain colon r3 where colon: "r2 = colon @ r3" "colon = [] \<or> colon = ['':'']"
    "colon = [] \<longrightarrow> r3 = [] \<or> hd r3 \<noteq> '':''"
  proof (cases "r2 \<noteq> [] \<and> hd r2 = '':''")
    case True
    then show ?thesis
      using that [of "['':'']" "tl r2"] by (cases r2) simp_all
  next
    case False
    then show ?thesis
      using that [of "[]" r2] by auto
  qed
  show ?thesis
    using ends_split [of is_decoration r3]
  proof
    assume "list_all is_decoration r3"
    then have "cs = ws @ pre @ colon @ r3 \<and> list_all is_space ws \<and> title_word pre
        \<and> (colon = [] \<or> colon = ['':'']) \<and> list_all is_decoration r3"
      using cs ws pre colon by simp
    then have "\<exists>ws pre colon d.
        cs = ws @ pre @ colon @ d \<and> list_all is_space ws \<and> title_word pre
        \<and> (colon = [] \<or> colon = ['':'']) \<and> list_all is_decoration d"
      by (intro exI, assumption)
    then show ?thesis by - (rule disjI2, rule disjI1)
  next
    assume "\<exists>a m b. r3 = a @ m @ b \<and> list_all is_decoration a \<and> list_all is_decoration b
        \<and> m \<noteq> [] \<and> \<not> is_decoration (hd m) \<and> \<not> is_decoration (last m)"
    then obtain a m b where split: "r3 = a @ m @ b" "list_all is_decoration a"
      "list_all is_decoration b" "m \<noteq> []" "\<not> is_decoration (hd m)" "\<not> is_decoration (last m)"
      by blast
    have "hd r3 = hd (a @ m)"
      using split(1,4) by (simp add: hd_append)
    then have "colon = [] \<longrightarrow> hd (a @ m) \<noteq> '':''"
      using colon(3) split(1,4) by auto
    then have "cs = ws @ pre @ colon @ a @ m @ b \<and> list_all is_space ws \<and> title_word pre
        \<and> (colon = [] \<or> colon = ['':'']) \<and> list_all is_decoration a
        \<and> list_all is_decoration b \<and> bare m \<and> (colon = [] \<longrightarrow> hd (a @ m) \<noteq> '':'')"
      using cs ws pre colon(1,2) split by (simp add: bare_def)
    then have "\<exists>ws pre colon d1 t d2.
        cs = ws @ pre @ colon @ d1 @ t @ d2 \<and> list_all is_space ws \<and> title_word pre
        \<and> (colon = [] \<or> colon = ['':'']) \<and> list_all is_decoration d1
        \<and> list_all is_decoration d2 \<and> bare t \<and> (colon = [] \<longrightarrow> hd (d1 @ t) \<noteq> '':'')"
      by (intro exI, assumption)
    then show ?thesis by (rule disjI1)
  qed
next
  case False
  show ?thesis
    using ends_split [of is_decoration cs]
  proof
    assume "list_all is_decoration cs"
    then show ?thesis by (intro disjI2)
  next
    assume "\<exists>a m b. cs = a @ m @ b \<and> list_all is_decoration a \<and> list_all is_decoration b
        \<and> m \<noteq> [] \<and> \<not> is_decoration (hd m) \<and> \<not> is_decoration (last m)"
    then obtain a m b where split: "cs = a @ m @ b" "list_all is_decoration a"
      "list_all is_decoration b" "m \<noteq> []" "\<not> is_decoration (hd m)" "\<not> is_decoration (last m)"
      by blast
    have "\<not> list_all is_space a \<or> \<not> starts_with_title_word m"
    proof (cases "list_all is_space a")
      case True
      have "\<not> is_space (hd m)"
        using split(5) is_space_decoration by blast
      then have "dropWhile is_space (a @ m @ b) = m @ b"
        using True split(4) by (simp add: dropWhile_stop dropWhile_all)
      then have "\<not> starts_with_title_word (m @ b)"
        using False split(1) by simp
      then show ?thesis
        using starts_with_title_word_append by blast
    next
      case False
      then show ?thesis by simp
    qed
    then have "cs = a @ m @ b \<and> list_all is_decoration a \<and> list_all is_decoration b \<and> bare m
        \<and> (\<not> list_all is_space a \<or> \<not> starts_with_title_word m)"
      using split by (simp add: bare_def)
    then have "\<exists>d1 t d2.
        cs = d1 @ t @ d2 \<and> list_all is_decoration d1 \<and> list_all is_decoration d2 \<and> bare t
        \<and> (\<not> list_all is_space d1 \<or> \<not> starts_with_title_word t)"
      by (intro exI, assumption)
    then show ?thesis by - (rule disjI2, rule disjI2, rule disjI1)
  qed
qed

text \<open>
  C7. \<^verbatim>\<open>generateChatTitle\<close> never raises: whatever the provider answers, it returns a
  title, which is not empty. A request that fails, or a response without text, gives the
  fallback title of the language. A response with text is cleaned. Its characters are of
  one of four shapes, and the shape decides the title:

  \<^item> white space, the word for title (in Portuguese or in English, whatever the case of
    its letters), a colon or none, then quotes, asterisks, hashes and white space around
    a bare title: the title is the bare title, without the white space in front, the
    word, the colon and the marks around it;
  \<^item> the same without a bare title: the fallback title;
  \<^item> quotes, asterisks, hashes and white space around a bare title that does not start
    with the word for title, or that has a mark other than white space in front of it:
    the title is the bare title (a word for title behind a mark is kept);
  \<^item> quotes, asterisks, hashes and white space only: the fallback title.

  A bare title is not empty and has no quote, asterisk, hash or white space at either
  end. White space is that of \<^verbatim>\<open>trim\<close> and \<^verbatim>\<open>\s\<close>, the no-break space and the ideographic
  space included.
\<close>

theorem generateChatTitle_never_fails:
  "(\<exists>title. snd (generateChatTitle reply firstMessage lang) = Inr title \<and> title \<noteq> [])
   \<and> snd (generateChatTitle (Inl error) firstMessage lang) = Inr (fallbackTitle lang)
   \<and> snd (generateChatTitle (Inr None) firstMessage lang) = Inr (fallbackTitle lang)
   \<and> fallbackTitle lang = (if lang = ''pt-BR'' then ''Novo Chat'' else ''New Chat'')
   \<and> (utf8 (ws @ pre @ colon @ lead @ t @ trail) \<and> list_all is_space ws \<and> title_word pre
        \<and> (colon = [] \<or> colon = ['':'']) \<and> list_all is_decoration lead
        \<and> list_all is_decoration trail \<and> bare t \<and> (colon = [] \<longrightarrow> hd (lead @ t) \<noteq> '':'') \<longrightarrow>
      snd (generateChatTitle (Inr (Some (concat (ws @ pre @ colon @ lead @ t @ trail))))
             firstMessage lang) = Inr (concat t))
   \<and> (utf8 (ws @ pre @ colon @ lead) \<and> list_all is_space ws \<and> title_word pre
        \<and> (colon = [] \<or> colon = ['':'']) \<and> list_all is_decoration lead \<longrightarrow>
      snd (generateChatTitle (Inr (Some (concat (ws @ pre @ colon @ lead)))) firstMessage lang)
        = Inr (fallbackTitle lang))
   \<and> (utf8 (lead @ t @ trail) \<and> list_all is_decoration lead \<and> list_all is_decoration trail \<and> bare t
        \<and> (\<not> list_all is_space lead \<or> \<not> starts_with_title_word t) \<longrightarrow>
      snd (generateChatTitle (Inr (Some (concat (lead @ t @ trail)))) firstMessage lang)
        = Inr (concat t))
   \<and> (utf8 lead \<and> list_all is_decoration lead \<longrightarrow>
      snd (generateChatTitle (Inr (Some (concat lead))) firstMessage lang)
        = Inr (fallbackTitle lang))
   \<and> ((\<exists>ws pre colon d1 t d2.
          cs = ws @ pre @ colon @ d1 @ t @ d2 \<and> list_all is_space ws \<and> title_word pre
          \<and> (colon = [] \<or> colon = ['':'']) \<and> list_all is_decoration d1
          \<and> list_all is_decoration d2 \<and> bare t \<and> (colon = [] \<longrightarrow> hd (d1 @ t) \<noteq> '':''))
        \<or> (\<exists>ws pre colon d.
          cs = ws @ pre @ colon @ d \<and> list_all is_space ws \<and> title_word pre
          \<and> (colon = [] \<or> colon = ['':'']) \<and> list_all is_decoration d)
        \<or> (\<exists>d1 t d2.
          cs = d1 @ t @ d2 \<and> list_all is_decoration d1 \<and> list_all is_decoration d2
          \<and> bare t \<and> (\<not> list_all is_space d1 \<or> \<not> starts_with_title_word t))
        \<or> list_all is_decoration cs)"
proof -
  have "\<exists>title. snd (generateChatTitle reply firstMessage lang) = Inr title \<and> title \<noteq> []"
  proof (cases reply)
    case (Inl e)
    then show ?thesis by (simp add: generateChatTitle_failed fallbackTitle_def)
  next
    case (Inr r)
    then show ?thesis
      by (cases r) (simp_all add: generateChatTitle_failed generateChatTitle_cleaned fallbackTitle_def)
  qed
  moreover have "fallbackTitle lang = (if lang = ''pt-BR'' then ''Novo Chat'' else ''New Chat'')"
    by (simp add: fallbackTitle_def)
  moreover have "utf8 (ws @ pre @ colon @ lead @ t @ trail) \<and> list_all is_space ws \<and> title_word pre
        \<and> (colon = [] \<or> colon = ['':'']) \<and> list_all is_decoration lead
        \<and> list_all is_decoration trail \<and> bare t \<and> (colon = [] \<longrightarrow> hd (lead @ t) \<noteq> '':'') \<longrightarrow>
      snd (generateChatTitle (Inr (Some (concat (ws @ pre @ colon @ lead @ t @ trail))))
             firstMessage lang) = Inr (concat t)"
    by (intro impI, elim conjE) (rule generateChatTitle_prefixed, assumption+)
  moreover have "utf8 (ws @ pre @ colon @ lead) \<and> list_all is_space ws \<and> title_word pre
        \<and> (colon = [] \<or> colon = ['':'']) \<and> list_all is_decoration lead \<longrightarrow>
      snd (generateChatTitle (Inr (Some (concat (ws @ pre @ colon @ lead)))) firstMessage lang)
        = Inr (fallbackTitle lang)"
    by (intro impI, elim conjE) (rule generateChatTitle_prefix_only, assumption+)
  moreover have "utf8 (lead @ t @ trail) \<and> list_all is_decoration lead \<and> list_all is_decoration trail \<and> bare t
        \<and> (\<not> list_all is_space lead \<or> \<not> starts_with_title_word t) \<longrightarrow>
      snd (generateChatTitle (Inr (Some (concat (lead @ t @ trail)))) firstMessage lang)
        = Inr (concat t)"
    by (intro impI, elim conjE) (rule generateChatTitle_decorated, assumption+)
  moreover have "utf8 lead \<and> list_all is_decoration lead \<longrightarrow>
      snd (generateChatTitle (Inr (Some (concat lead))) firstMessage lang)
        = Inr (fallbackTitle lang)"
    by (intro impI, elim conjE) (rule generateChatTitle_decoration_only, assumption+)
  ultimately show ?thesis
    using generateChatTitle_failed(1) [of error firstMessage lang]
      generateChatTitle_failed(2) [of firstMessage lang] title_shapes [of cs]
    by (intro conjI) assumption+
qed

theorem generateChatTitle_never_fails_witness:
  "snd (generateChatTitle (Inr (Some ''Title: Trip to Japan'')) ''Plan a trip to Japan'' ''en-US'')
     = Inr ''Trip to Japan''
   \<and> snd (generateChatTitle (Inr (Some ''Title: '')) ''Plan a trip to Japan'' ''en-US'')
     = Inr ''New Chat''
   \<and> snd (generateChatTitle (Inr (Some '' Trip to Japan'')) ''Plan a trip to Japan'' ''en-US'')
     = Inr ''Trip to Japan''
   \<and> snd (generateChatTitle (Inl (ErrorString ''503'')) ''Plan a trip to Japan'' ''en-US'')
     = Inr ''New Chat''
   \<and> snd (generateChatTitle
            (Inr (Some (nbsp @ ''T'' @ I_acute @ ''TULO'' @ nbsp @ [dquote] @ ''Viagem'' @ [dquote]
                          @ ideographic_space)))
            ''Planejar uma viagem'' ''pt-BR'')
     = Inr ''Viagem''
   \<and> snd (generateChatTitle
            (Inr (Some (nbsp @ [dquote] @ ''Viagem'' @ [dquote] @ ideographic_space)))
            ''Planejar uma viagem'' ''pt-BR'')
     = Inr ''Viagem''
   \<and> snd (generateChatTitle (Inr (Some (nbsp @ [dquote]))) ''Planejar uma viagem'' ''pt-BR'')
     = Inr ''Novo Chat''
   \<and> snd (generateChatTitle (Inr None) ''Planejar uma viagem'' ''pt-BR'') = Inr ''Novo Chat''"
proof -
  note en = generateChatTitle_never_fails
      [where reply = "Inl (ErrorString ''503'')"
        and firstMessage = "''Plan a trip to Japan''" and lang = "''en-US''"
        and error = "ErrorString ''503''" and ws = "[]"
        and pre = "[''T'', ''i'', ''t'', ''l'', ''e'']" and colon = "['':'']" and cs = "[]"
        and lead = "['' '']" and t = "map (\<lambda>c. [c]) ''Trip to Japan''"
        and trail = "[]"]
  note pt = generateChatTitle_never_fails
      [where reply = "Inr None" and firstMessage = "''Planejar uma viagem''"
        and lang = "''pt-BR''" and error = "ErrorOther" and ws = "[nbsp]"
        and pre = "[''T'', I_acute, ''T'', ''U'', ''L'', ''O'']" and colon = "[]"
        and cs = "[]" and lead = "[nbsp, [dquote]]"
        and t = "map (\<lambda>c. [c]) ''Viagem''"
        and trail = "[[dquote], ideographic_space]"]
  have en1: "utf8 ([] @ [''T'', ''i'', ''t'', ''l'', ''e''] @ ['':''] @ ['' '']
          @ map (\<lambda>c. [c]) ''Trip to Japan'' @ [])
      \<and> list_all is_space [] \<and> title_word [''T'', ''i'', ''t'', ''l'', ''e'']
      \<and> (['':''] = [] \<or> ['':''] = ['':'']) \<and> list_all is_decoration ['' '']
      \<and> list_all is_decoration [] \<and> bare (map (\<lambda>c. [c]) ''Trip to Japan'')
      \<and> (['':''] = [] \<longrightarrow> hd (['' '']
          @ map (\<lambda>c. [c]) ''Trip to Japan'') \<noteq> '':'')"
    by code_simp
  have en2: "utf8 ([] @ [''T'', ''i'', ''t'', ''l'', ''e''] @ ['':''] @ ['' ''])
      \<and> list_all is_space [] \<and> title_word [''T'', ''i'', ''t'', ''l'', ''e'']
      \<and> (['':''] = [] \<or> ['':''] = ['':'']) \<and> list_all is_decoration ['' '']"
    by code_simp
  have en3: "utf8 (['' ''] @ map (\<lambda>c. [c]) ''Trip to Japan'' @ [])
      \<and> list_all is_decoration ['' ''] \<and> list_all is_decoration []
      \<and> bare (map (\<lambda>c. [c]) ''Trip to Japan'')
      \<and> (\<not> list_all is_space ['' ''] \<or> \<not> starts_with_title_word (map (\<lambda>c. [c]) ''Trip to Japan''))"
    by code_simp
  have en4: "utf8 ['' ''] \<and> list_all is_decoration ['' '']"
    by code_simp
  have pt1: "utf8 ([nbsp] @ [''T'', I_acute, ''T'', ''U'', ''L'', ''O''] @ []
          @ [nbsp, [dquote]] @ map (\<lambda>c. [c]) ''Viagem'' @ [[dquote], ideographic_space])
      \<and> list_all is_space [nbsp]
      \<and> title_word [''T'', I_acute, ''T'', ''U'', ''L'', ''O'']
      \<and> ([] = [] \<or> [] = ['':'']) \<and> list_all is_decoration [nbsp, [dquote]]
      \<and> list_all is_decoration [[dquote], ideographic_space]
      \<and> bare (map (\<lambda>c. [c]) ''Viagem'')
      \<and> ([] = [] \<longrightarrow> hd ([nbsp, [dquote]]
          @ map (\<lambda>c. [c]) ''Viagem'') \<noteq> '':'')"
    by code_simp
  have pt2: "utf8 ([nbsp] @ [''T'', I_acute, ''T'', ''U'', ''L'', ''O''] @ [] @ [nbsp, [dquote]])
      \<and> list_all is_space [nbsp]
      \<and> title_word [''T'', I_acute, ''T'', ''U'', ''L'', ''O'']
      \<and> ([] = [] \<or> [] = ['':'']) \<and> list_all is_decoration [nbsp, [dquote]]"
    by code_simp
  have pt3: "utf8 ([nbsp, [dquote]] @ map (\<lambda>c. [c]) ''Viagem''
          @ [[dquote], ideographic_space])
      \<and> list_all is_decoration [nbsp, [dquote]]
      \<and> list_all is_decoration [[dquote], ideographic_space]
      \<and> bare (map (\<lambda>c. [c]) ''Viagem'')
      \<and> (\<not> list_all is_space [nbsp, [dquote]] \<or> \<not> starts_with_title_word (map (\<lambda>c. [c]) ''Viagem''))"
    by code_simp
  have pt4: "utf8 [nbsp, [dquote]] \<and> list_all is_decoration [nbsp, [dquote]]"
    by code_simp
  note en_failed = en [THEN conjunct2, THEN conjunct1]
  note en_fallback = en [THEN conjunct2, THEN conjunct2, THEN conjunct2, THEN conjunct1]
  note en_prefixed = en [THEN conjunct2, THEN conjunct2, THEN conjunct2, THEN conjunct2,
      THEN conjunct1, THEN mp, OF en1]
  note en_prefix_only = en [THEN conjunct2, THEN conjunct2, THEN conjunct2, THEN conjunct2,
      THEN conjunct2, THEN conjunct1, THEN mp, OF en2]
  note en_decorated = en [THEN conjunct2, THEN conjunct2, THEN conjunct2, THEN conjunct2,
      THEN conjunct2, THEN conjunct2, THEN conjunct1, THEN mp, OF en3]
  note en_decoration_only = en [THEN conjunct2, THEN conjunct2, THEN conjunct2, THEN conjunct2,
      THEN conjunct2, THEN conjunct2, THEN conjunct2, THEN conjunct1, THEN mp, OF en4]
  note pt_none = pt [THEN conjunct2, THEN conjunct2, THEN conjunct1]
  note pt_fallback = pt [THEN conjunct2, THEN conjunct2, THEN conjunct2, THEN conjunct1]
  note pt_prefixed = pt [THEN conjunct2, THEN conjunct2, THEN conjunct2, THEN conjunct2,
      THEN conjunct1, THEN mp, OF pt1]
  note pt_prefix_only = pt [THEN conjunct2, THEN conjunct2, THEN conjunct2, THEN conjunct2,
      THEN conjunct2, THEN conjunct1, THEN mp, OF pt2]
  note pt_decorated = pt [THEN conjunct2, THEN conjunct2, THEN conjunct2, THEN conjunct2,
      THEN conjunct2, THEN conjunct2, THEN conjunct1, THEN mp, OF pt3]
  note pt_decoration_only = pt [THEN conjunct2, THEN conjunct2, THEN conjunct2, THEN conjunct2,
      THEN conjunct2, THEN conjunct2, THEN conjunct2, THEN conjunct1, THEN mp, OF pt4]
  show ?thesis
    using en_failed en_fallback en_prefixed en_prefix_only en_decorated en_decoration_only
      pt_none pt_fallback pt_prefixed pt_prefix_only pt_decorated pt_decoration_only
    by simp
qed

lemma extract_message_cases:
  "extract_message (ErrorObject (Some (a # as)) msg) = a # as"
  "extract_message (ErrorObject None (Some (a # as))) = a # as"
  "extract_message (ErrorObject (Some []) (Some (a # as))) = a # as"
  "extract_message (ErrorString s) = s"
  "extract_message ErrorOther = ''An unknown error occurred.''"
  by (simp_all add: extract_message_def truthy_def)

text \<open>
  C8 (as amended). The classifier returns one error for every value raised, and which one
  depends on the extracted message alone (its wording also on the context): the billing
  error when the message contains the billing pattern; otherwise the invalid-key error when
  it contains the key pattern; otherwise the quota error when it contains the quota
  pattern; otherwise the generic error, which names the context. The patterns are tried
  in this order, and an earlier one wins.
\<close>

theorem handleApiError_classifies:
  "(extract_message error = extract_message error' \<longrightarrow>
      handleApiError error ctx = handleApiError error' ctx)
   \<and> (str_includes (extract_message error) ''billed users'' \<longrightarrow>
      handleApiError error ctx =
        BillingError (''A ''
          @ (if str_includes ctx ''imagem'' then ''gera'' @ c_cedilla @ a_tilde @ ''o de imagens''
             else if str_includes ctx (''v'' @ i_acute @ ''deo'') then ''gera'' @ c_cedilla
               @ a_tilde @ ''o de v'' @ i_acute @ ''deo''
             else ''esta funcionalidade'')
          @ '' est'' @ a_acute @ '' indispon'' @ i_acute
            @ ''vel. A API do Google requer que o faturamento esteja ativado para este recurso.''))
   \<and> (\<not> str_includes (extract_message error) ''billed users''
        \<and> str_includes (extract_message error) ''API key not valid'' \<longrightarrow>
      handleApiError error ctx =
        Error (''Sua chave de API '' @ e_acute @ '' inv'' @ a_acute
          @ ''lida. Por favor, verifique-a nas configura'' @ c_cedilla @ o_tilde
          @ ''es e tente novamente.''))
   \<and> (\<not> str_includes (extract_message error) ''billed users''
        \<and> \<not> str_includes (extract_message error) ''API key not valid''
        \<and> str_includes (extract_message error) ''quota'' \<longrightarrow>
      handleApiError error ctx =
        Error (''Voc'' @ e_circumflex
          @ '' atingiu sua cota de uso da API. Por favor, verifique seu plano ou tente novamente mais tarde.''))
   \<and> (\<not> str_includes (extract_message error) ''billed users''
        \<and> \<not> str_includes (extract_message error) ''API key not valid''
        \<and> \<not> str_includes (extract_message error) ''quota'' \<longrightarrow>
      handleApiError error ctx =
        Error (''Desculpe, ocorreu um erro inesperado durante a '' @ ctx
                 @ ''. Por favor, tente novamente.''))"
  by (simp add: handleApiError_def Let_def)

lemma includes_examples:
  "str_includes ''You exceeded your current quota'' ''quota''"
  "\<not> str_includes ''You exceeded your current quota'' ''billed users''"
  "\<not> str_includes ''You exceeded your current quota'' ''API key not valid''"
  "str_includes ''quota is for billed users'' ''quota''"
  "str_includes ''quota is for billed users'' ''billed users''"
  by (simp_all add: startsWith_def)

lemma includes_more:
  "str_includes ''Imagen API is only accessible to billed users at this time.'' ''billed users''"
  "\<not> str_includes ''API key not valid. Please pass a valid API key.'' ''billed users''"
  "str_includes ''API key not valid. Please pass a valid API key.'' ''API key not valid''"
  "\<not> str_includes ''An unknown error occurred.'' ''billed users''"
  "\<not> str_includes ''An unknown error occurred.'' ''API key not valid''"
  "\<not> str_includes ''An unknown error occurred.'' ''quota''"
  "str_includes (''gera'' @ c_cedilla @ a_tilde @ ''o de imagem'') ''imagem''"
  by (simp_all add: startsWith_def)

theorem handleApiError_classifies_witness:
  "handleApiError (ErrorObject None (Some ''You exceeded your current quota'')) ''resposta do chat''
     = Error (''Voc'' @ e_circumflex
       @ '' atingiu sua cota de uso da API. Por favor, verifique seu plano ou tente novamente mais tarde.'')
   \<and> handleApiError (ErrorString ''You exceeded your current quota'') ''resposta do chat''
     = handleApiError (ErrorObject None (Some ''You exceeded your current quota'')) ''resposta do chat''
   \<and> handleApiError billed_users_only (''gera'' @ c_cedilla @ a_tilde @ ''o de imagem'')
     = BillingError (''A gera'' @ c_cedilla @ a_tilde @ ''o de imagens est'' @ a_acute
       @ '' indispon'' @ i_acute
       @ ''vel. A API do Google requer que o faturamento esteja ativado para este recurso.'')
   \<and> handleApiError (ErrorObject (Some ''API key not valid. Please pass a valid API key.'') None)
        ''resposta do chat''
     = Error (''Sua chave de API '' @ e_acute @ '' inv'' @ a_acute
       @ ''lida. Por favor, verifique-a nas configura'' @ c_cedilla @ o_tilde
       @ ''es e tente novamente.'')
   \<and> handleApiError ErrorOther ''resposta do chat''
     = Error ''Desculpe, ocorreu um erro inesperado durante a resposta do chat. Por favor, tente novamente.''"
proof -
  note quota = handleApiError_classifies [of "ErrorObject None (Some ''You exceeded your current quota'')"
      "ErrorString ''You exceeded your current quota''" "''resposta do chat''"]
  have same: "extract_message (ErrorObject None (Some ''You exceeded your current quota''))
      = extract_message (ErrorString ''You exceeded your current quota'')"
    by (simp add: extract_message_cases)
  have msg: "extract_message (ErrorObject None (Some ''You exceeded your current quota''))
      = ''You exceeded your current quota''"
    by (simp add: extract_message_cases)
  from quota same have one: "handleApiError (ErrorObject None (Some ''You exceeded your current quota''))
      ''resposta do chat''
      = handleApiError (ErrorString ''You exceeded your current quota'') ''resposta do chat''"
    by blast
  from quota includes_examples(1,2,3)
  have two: "handleApiError (ErrorObject None (Some ''You exceeded your current quota''))
      ''resposta do chat'' = Error (''Voc'' @ e_circumflex
        @ '' atingiu sua cota de uso da API. Por favor, verifique seu plano ou tente novamente mais tarde.'')"
    unfolding msg by blast
  have billed: "extract_message billed_users_only
      = ''Imagen API is only accessible to billed users at this time.''"
    by (simp add: billed_users_only_def extract_message_cases)
  from handleApiError_classifies [of billed_users_only billed_users_only "''gera'' @ c_cedilla
    @ a_tilde @ ''o de imagem''"] includes_more(1,7)
  have three: "handleApiError billed_users_only (''gera'' @ c_cedilla @ a_tilde
    @ ''o de imagem'') = BillingError (''A gera'' @ c_cedilla @ a_tilde @ ''o de imagens est''
    @ a_acute @ '' indispon'' @ i_acute
    @ ''vel. A API do Google requer que o faturamento esteja ativado para este recurso.'')"
    unfolding billed by (simp del: str_includes.simps)
  have key: "extract_message (ErrorObject (Some ''API key not valid. Please pass a valid API key.'') None)
      = ''API key not valid. Please pass a valid API key.''"
    by (simp add: extract_message_cases)
  from handleApiError_classifies [of "ErrorObject (Some ''API key not valid. Please pass a valid API key.'') None"
      "ErrorObject (Some ''API key not valid. Please pass a valid API key.'') None" "''resposta do chat''"]
    includes_more(2,3)
  have four: "handleApiError (ErrorObject (Some ''API key not valid. Please pass a valid API key.'') None)
        ''resposta do chat'' = Error (''Sua chave de API '' @ e_acute @ '' inv'' @ a_acute
          @ ''lida. Por favor, verifique-a nas configura'' @ c_cedilla @ o_tilde
          @ ''es e tente novamente.'')"
    unfolding key by blast
  from handleApiError_classifies [of ErrorOther ErrorOther "''resposta do chat''"] includes_more(4,5,6)
  have five: "handleApiError ErrorOther ''resposta do chat''
     = Error ''Desculpe, ocorreu um erro inesperado durante a resposta do chat. Por favor, tente novamente.''"
    by (simp add: extract_message_cases del: str_includes.simps)
  show ?thesis
    using one two three four five by simp
qed

text \<open>A message with the quota pattern and the billing pattern is classified as billing.\<close>

theorem handleApiError_quota_counterexample:
  "str_includes (extract_message (ErrorString ''quota is for billed users'')) ''quota''
   \<and> handleApiError (ErrorString ''quota is for billed users'') ''resposta do chat''
       \<noteq> Error (''Voc'' @ e_circumflex
         @ '' atingiu sua cota de uso da API. Por favor, verifique seu plano ou tente novamente mais tarde.'')"
  using includes_examples
  by (simp add: handleApiError_def extract_message_cases Let_def del: str_includes.simps)

section \<open>App: one chat turn\<close>

lemma open_store_saved:
  "saveChatHistory h (open_store\<lparr>items := held\<rparr>)
     = open_store\<lparr>items := held(CHAT_HISTORY_KEY \<mapsto> JSON_stringify (sessions_json h))\<rparr>"
  "saveSearchHistory q (open_store\<lparr>items := held\<rparr>)
     = open_store\<lparr>items := held(SEARCH_HISTORY_KEY \<mapsto> JSON_stringify (strings_json q))\<rparr>"
  by (simp_all add: saveChatHistory_def saveSearchHistory_def setItem_def open_store_def)

lemma open_store_items: "open_store\<lparr>items := Map.empty\<rparr> = open_store"
  by (simp add: open_store_def)

lemma open_store_loaded:
  "getChatHistory (open_store\<lparr>items := held(CHAT_HISTORY_KEY \<mapsto> JSON_stringify (sessions_json h))\<rparr>) = h"
  by (simp add: getChatHistory_def getItem_def stringify_sessions_nonempty JSON_parse_stringify
      as_sessions_json)

lemma one_open_chat_state:
  "sessions one_open_chat = [new_chat]"
  "activeSessionId one_open_chat = Some midnight"
  "\<not> isLoading one_open_chat"
  "isImageGenAvailable one_open_chat" "isVideoGenAvailable one_open_chat"
  "language one_open_chat = ''pt-BR''"
  "exchange one_open_chat = []"
  "localStorage one_open_chat
     = open_store\<lparr>items := [CHAT_HISTORY_KEY \<mapsto> JSON_stringify (sessions_json [new_chat])]\<rparr>"
proof -
  have loaded: "getChatHistory open_store = []"
    by (rule getChatHistory_open_store)
  have saved: "saveChatHistory [new_chat] open_store
      = open_store\<lparr>items := [CHAT_HISTORY_KEY \<mapsto> JSON_stringify (sessions_json [new_chat])]\<rparr>"
    using open_store_saved(1) [of "[new_chat]" Map.empty] by (simp add: open_store_items)
  have lang: "getItem (saveChatHistory [new_chat] open_store) ''app_language'' = None"
    unfolding saved by (simp add: getItem_def open_store_def CHAT_HISTORY_KEY_def)
  have m: "one_open_chat =
      (initial_state open_store)\<lparr>sessions := [new_chat], activeSessionId := Some midnight,
         localStorage := saveChatHistory [new_chat] open_store\<rparr>"
    using lang
    by (simp add: one_open_chat_def mount_def handleNewSession_def createNewSession_def loaded
        initial_state_def Let_def new_chat_def truthy_def)
  show "sessions one_open_chat = [new_chat]" "activeSessionId one_open_chat = Some midnight"
    "\<not> isLoading one_open_chat"
    "isImageGenAvailable one_open_chat" "isVideoGenAvailable one_open_chat"
    "language one_open_chat = ''pt-BR''" "exchange one_open_chat = []"
    "localStorage one_open_chat
     = open_store\<lparr>items := [CHAT_HISTORY_KEY \<mapsto> JSON_stringify (sessions_json [new_chat])]\<rparr>"
    unfolding m by (simp_all add: initial_state_def saved)
qed

lemma updateMessages_sessions:
  "sessions (updateMessages cl sessionId newMessages st) =
     map (\<lambda>session. if session_id session = sessionId
                      then session\<lparr>messages := newMessages\<rparr> else session) (sessions cl)"
  by (simp add: updateMessages_def Let_def)

lemma updateMessages_localStorage:
  "localStorage (updateMessages cl sessionId newMessages st) =
     saveChatHistory (sessions (updateMessages cl sessionId newMessages st)) (localStorage st)"
  by (simp add: updateMessages_def Let_def)

lemma updateMessages_others:
  "activeSessionId (updateMessages cl sessionId newMessages st) = activeSessionId st"
  "isLoading (updateMessages cl sessionId newMessages st) = isLoading st"
  "streamingMessage (updateMessages cl sessionId newMessages st) = streamingMessage st"
  "isImageGenAvailable (updateMessages cl sessionId newMessages st) = isImageGenAvailable st"
  "isVideoGenAvailable (updateMessages cl sessionId newMessages st) = isVideoGenAvailable st"
  "language (updateMessages cl sessionId newMessages st) = language st"
  "exchange (updateMessages cl sessionId newMessages st) = exchange st"
  by (simp_all add: updateMessages_def Let_def)

lemma accumulate_concat: "accumulate fullResponse fragments = fullResponse @ concat fragments"
  by (induction fragments arbitrary: fullResponse) simp_all

text \<open>
  C10. Sending an empty text with no image returns at once: the state, the stores and
  the log of the exchange with the provider are what they were.
\<close>

theorem handleSendMessage_empty_is_noop:
  "handleSendMessage title_reply reply [] None st = st"
  by (simp add: handleSendMessage_def handleSendMessage_sending_def split: option.splits)

theorem handleSendMessage_empty_is_noop_witness:
  "handleSendMessage (Inr (Some ''Title: Greeting'')) hi_there [] None one_open_chat = one_open_chat"
  by (rule handleSendMessage_empty_is_noop)

lemma sending_guard:
  assumes "handleSendMessage_sending messageText imageFile st = Some (t, st1)"
  shows "activeSessionId st = Some (turn_sessionId t)" "turn_sessionId t \<noteq> []"
    "\<not> isLoading st" "turn_text t \<noteq> []"
  using assms
  by (auto simp add: handleSendMessage_sending_def Let_def split: option.splits if_splits)

lemma sending_turn:
  assumes "handleSendMessage_sending messageText imageFile st = Some (t, st1)"
  shows "turn_text t =
           (case imageFile of
              None \<Rightarrow> messageText
            | Some f \<Rightarrow> if messageText = [] then ''Descreva esta imagem.'' else messageText)"
    and "turn_messages t =
           (case find (\<lambda>s. Some (session_id s) = activeSessionId st) (sessions st) of
              None \<Rightarrow> []
            | Some activeSession \<Rightarrow> messages activeSession)
           @ [\<lparr>sender = User, msg_text = turn_text t,
                imageUrl = map_option objectURL imageFile, videoUrl = None\<rparr>]"
  using assms
  by (auto simp add: handleSendMessage_sending_def Let_def split: option.splits if_splits)

lemma sending_state:
  assumes "handleSendMessage_sending messageText imageFile st = Some (t, st1)"
  shows "sessions st1 =
           map (\<lambda>session. if session_id session = turn_sessionId t
                            then session\<lparr>messages := turn_messages t\<rparr> else session) (sessions st)"
    and "exchange st1 = exchange st" and "isLoading st1"
    and "isImageGenAvailable st1 = isImageGenAvailable st"
    and "isVideoGenAvailable st1 = isVideoGenAvailable st"
  using assms
  by (auto simp add: handleSendMessage_sending_def Let_def updateMessages_def
      split: option.splits if_splits)

lemma title_never_aborts:
  "\<exists>st2. handleSendMessage_title title_reply cl t st = Inr st2"
proof -
  obtain events new_title where
    "generateChatTitle title_reply (turn_text t) (language cl) = (events, Inr new_title)"
    using generateChatTitle_never_raises [of title_reply "turn_text t" "language cl"]
    by (cases "generateChatTitle title_reply (turn_text t) (language cl)") auto
  then show ?thesis
    by (simp add: handleSendMessage_title_def Let_def split: prod.splits)
qed

lemma title_state:
  assumes "handleSendMessage_title title_reply cl t st = Inr st2"
  shows "isImageGenAvailable st2 = isImageGenAvailable st"
    and "isVideoGenAvailable st2 = isVideoGenAvailable st"
  using assms
  by (auto simp add: handleSendMessage_title_def Let_def split: prod.splits sum.splits if_splits)

lemma streaming_completed:
  assumes "generateContentStream reply (turn_text t) (turn_messages t) (turn_imagePart t) (language cl)
             = (events, fragments, None)"
  shows "handleSendMessage_streaming reply cl t st =
           (if concat fragments \<noteq> [] then
              updateMessages cl (turn_sessionId t)
                (turn_messages t
                   @ [\<lparr>sender = Model, msg_text = concat fragments, imageUrl = None, videoUrl = None\<rparr>])
                (st\<lparr>exchange := exchange st @ events\<rparr>)
            else st\<lparr>exchange := exchange st @ events\<rparr>)
           \<lparr>isLoading := False, streamingMessage := None\<rparr>"
  using assms
  by (simp add: handleSendMessage_streaming_def Let_def accumulate_concat)

lemma title_exchange:
  assumes "length (turn_messages t) = 1"
    and "snd (generateChatTitle title_reply (turn_text t) (language cl)) = Inr new_title"
  shows "handleSendMessage_title title_reply cl t st =
           Inr (st\<lparr>exchange := exchange st
                         @ [Requested (GenerateContent
                              (''Generate a title for a chat starting with: '' @ [dquote]
                                 @ turn_text t @ [dquote])
                              (title_systemInstruction (language cl))), Settled],
                     localStorage := snd (updateSessionTitle (turn_sessionId t) new_title (localStorage st)),
                     sessions := fst (updateSessionTitle (turn_sessionId t) new_title (localStorage st))\<rparr>)"
proof -
  have "generateChatTitle title_reply (turn_text t) (language cl) =
      ([Requested (GenerateContent
          (''Generate a title for a chat starting with: '' @ [dquote] @ turn_text t @ [dquote])
          (title_systemInstruction (language cl))), Settled], Inr new_title)"
    using assms(2) by (simp add: generateChatTitle_def Let_def)
  then show ?thesis
    using assms(1) by (simp add: handleSendMessage_title_def Let_def split: prod.splits)
qed

lemma streaming_exchange:
  "exchange (handleSendMessage_streaming reply cl t st) =
     exchange st
       @ Requested (GenerateContentStream
           (map messageToGemini (butlast (turn_messages t))
              @ [Content User ((case turn_imagePart t of None \<Rightarrow> [] | Some p \<Rightarrow> [p])
                               @ [TextPart (turn_text t)])])
           (if language cl = ''pt-BR'' then ''Responda em portugu'' @ e_circumflex
             @ ''s do Brasil.'' else ''Respond in English.''))
       # map Yielded (map the (filter truthy (chunks reply))) @ [Settled]"
  by (simp add: handleSendMessage_streaming_def generateContentStream_def Let_def updateMessages_def
      split: option.splits)

text \<open>
  C2. In a chat turn that is admitted and whose stream yields \<open>fragments\<close> and ends without
  an error, the message committed is the transcript of the turn followed by one model
  message whose text is the fragments joined in the order they were yielded; the same
  collection is handed to the store. If the fragments join to the empty text, nothing is
  committed: the sessions and the store are those of the moment the stream was requested.
\<close>

theorem handleSendMessage_commits_fragments_in_order:
  assumes "handleSendMessage_sending messageText imageFile st = Some (t, st1)"
    and "handleSendMessage_title title_reply st t st1 = Inr st2"
    and "generateContentStream reply (turn_text t) (turn_messages t) (turn_imagePart t) (language st)
           = (events, fragments, None)"
  shows "(concat fragments \<noteq> [] \<longrightarrow>
            sessions (handleSendMessage title_reply reply messageText imageFile st) =
              map (\<lambda>session.
                     if session_id session = turn_sessionId t
                     then session\<lparr>messages :=
                            turn_messages t
                              @ [\<lparr>sender = Model, msg_text = concat fragments,
                                  imageUrl = None, videoUrl = None\<rparr>]\<rparr>
                     else session)
                (sessions st)
            \<and> localStorage (handleSendMessage title_reply reply messageText imageFile st) =
                saveChatHistory (sessions (handleSendMessage title_reply reply messageText imageFile st))
                  (localStorage st2))
         \<and> (concat fragments = [] \<longrightarrow>
            sessions (handleSendMessage title_reply reply messageText imageFile st) = sessions st2
            \<and> localStorage (handleSendMessage title_reply reply messageText imageFile st)
                = localStorage st2)
         \<and> streamingMessage (handleSendMessage title_reply reply messageText imageFile st) = None
         \<and> \<not> isLoading (handleSendMessage title_reply reply messageText imageFile st)
         \<and> fragments = map the (filter truthy (chunks reply))"
  using assms(1,2) streaming_completed [OF assms(3), of st2] assms(3)
  by (auto simp add: handleSendMessage_def updateMessages_def generateContentStream_def Let_def)

lemma midnight_nonempty: "midnight \<noteq> []"
  by (simp add: midnight_def)

lemma accepts_saved:
  "accepts (saveChatHistory h ls) = accepts ls"
  "accepts (saveSearchHistory q ls) = accepts ls"
  "accepts (addSearchHistoryEntry query ls) = accepts ls"
  by (simp_all add: saveChatHistory_def saveSearchHistory_def addSearchHistoryEntry_def setItem_def
      Let_def)

lemma one_open_chat_accepts: "accepts (localStorage one_open_chat) held k v"
  by (simp add: one_open_chat_state open_store_def)

theorem handleSendMessage_commits_fragments_in_order_witness:
  "map messages
     (sessions (handleSendMessage (Inr (Some ''Title: Greeting'')) hi_there ''Hello'' None one_open_chat))
   = [[\<lparr>sender = User, msg_text = ''Hello'', imageUrl = None, videoUrl = None\<rparr>,
       \<lparr>sender = Model, msg_text = ''Hi there'', imageUrl = None, videoUrl = None\<rparr>]]
   \<and> map messages
     (sessions (handleSendMessage (Inr (Some ''Title: Greeting'')) silent ''Hello'' None one_open_chat))
   = [[\<lparr>sender = User, msg_text = ''Hello'', imageUrl = None, videoUrl = None\<rparr>]]"
proof -
  obtain t st1 where sending: "handleSendMessage_sending ''Hello'' None one_open_chat = Some (t, st1)"
    by (simp add: handleSendMessage_sending_def one_open_chat_state midnight_nonempty Let_def)
  obtain st2 where titled: "handleSendMessage_title (Inr (Some ''Title: Greeting'')) one_open_chat t st1
      = Inr st2"
    using title_never_aborts by blast
  have t: "turn_sessionId t = midnight"
    "turn_messages t = [\<lparr>sender = User, msg_text = ''Hello'', imageUrl = None, videoUrl = None\<rparr>]"
    using sending_guard(1) [OF sending] sending_turn [OF sending]
    by (simp_all add: one_open_chat_state new_chat_def)
  have stream: "generateContentStream hi_there (turn_text t) (turn_messages t) (turn_imagePart t)
      (language one_open_chat)
      = (fst (generateContentStream hi_there (turn_text t) (turn_messages t) (turn_imagePart t)
           (language one_open_chat)), [''Hi'', '' there''], None)"
    by (simp add: generateContentStream_def hi_there_def truthy_def Let_def)
  have quiet: "generateContentStream silent (turn_text t) (turn_messages t) (turn_imagePart t)
      (language one_open_chat)
      = (fst (generateContentStream silent (turn_text t) (turn_messages t) (turn_imagePart t)
           (language one_open_chat)), [], None)"
    by (simp add: generateContentStream_def silent_def truthy_def Let_def)
  have st1: "sessions st1 = [new_chat\<lparr>messages := turn_messages t\<rparr>]"
    "localStorage st1 = saveChatHistory (sessions st1)
       (addSearchHistoryEntry ''Hello'' (localStorage one_open_chat))"
    using sending
    by (auto simp add: handleSendMessage_sending_def one_open_chat_state midnight_nonempty Let_def
        updateMessages_def new_chat_def)
  have kept: "getChatHistory (localStorage st1) = sessions st1"
    unfolding st1(2)
    by (rule getChatHistory_saved) (simp add: accepts_saved one_open_chat_accepts)
  obtain new_title where
    new_title: "snd (generateChatTitle (Inr (Some ''Title: Greeting'')) (turn_text t)
        (language one_open_chat)) = Inr new_title"
    using generateChatTitle_never_raises by blast
  have first: "length (turn_messages t) = 1"
    by (simp add: t)
  have st2: "map messages (sessions st2) = [turn_messages t]"
    using titled title_exchange [OF first new_title, of st1]
    by (auto simp add: updateSessionTitle_def kept st1(1) t new_chat_def Let_def)
  show ?thesis
    using handleSendMessage_commits_fragments_in_order [OF sending titled stream]
      handleSendMessage_commits_fragments_in_order [OF sending titled quiet] st2
    by (simp add: t one_open_chat_state new_chat_def)
qed

lemma find_first:
  assumes "\<forall>x\<in>set before. session_id x \<noteq> sessionId" "session_id s = sessionId"
  shows "find (\<lambda>x. session_id x = sessionId) (before @ s # after) = Some s"
    and "retitle sessionId new_title (before @ s # after)
           = before @ s\<lparr>title := new_title\<rparr> # after"
  using assms by (induction before) simp_all

lemma updateSessionTitle_found:
  assumes "getChatHistory ls = before @ s # after"
    and "\<forall>x\<in>set before. session_id x \<noteq> sessionId" "session_id s = sessionId"
  shows "updateSessionTitle sessionId new_title ls =
           (before @ s\<lparr>title := new_title\<rparr> # after,
            saveChatHistory (before @ s\<lparr>title := new_title\<rparr> # after) ls)"
  using find_first [OF assms(2,3)] by (simp add: updateSessionTitle_def assms(1) Let_def)

lemma updateSessionTitle_missing:
  assumes "\<forall>x\<in>set (getChatHistory ls). session_id x \<noteq> sessionId"
  shows "updateSessionTitle sessionId new_title ls = (getChatHistory ls, ls)"
proof -
  have "find (\<lambda>x. session_id x = sessionId) (getChatHistory ls) = None"
    using assms by (simp add: find_None_iff)
  then show ?thesis
    by (simp add: updateSessionTitle_def Let_def)
qed

text \<open>
  C4 (as amended). In a turn that is the first message of its session the title is
  requested first and awaited: the request for the stream is sent after the title request
  has settled, so the stream waits for the title. The exchange of the turn with the
  provider is the title request, its settling, the stream request, the fragments and the
  end of the stream, in this order.

  Between the two requests the title the service returned (the fallback title of the
  language when the request fails or the response has no text) is given to
  \<^verbatim>\<open>updateSessionTitle\<close>, and the collection it returns becomes the sessions of the state:
  the collection read from the store, with the new title on the first session of that
  id, written back to the store; or the collection read from the store as it is, when no
  session there has that id.
\<close>

theorem handleSendMessage_awaits_title:
  assumes "handleSendMessage_sending messageText imageFile st = Some (t, st1)"
    and "length (turn_messages t) = 1"
  shows "\<exists>new_title st2.
           snd (generateChatTitle title_reply (turn_text t) (language st)) = Inr new_title
           \<and> ((\<exists>error. title_reply = Inl error) \<or> title_reply = Inr None \<longrightarrow>
                 new_title = fallbackTitle (language st))
           \<and> handleSendMessage_title title_reply st t st1 = Inr st2
           \<and> exchange st1 = exchange st
           \<and> exchange st2 =
               exchange st
                 @ [Requested (GenerateContent
                      (''Generate a title for a chat starting with: '' @ [dquote]
                         @ turn_text t @ [dquote])
                      (title_systemInstruction (language st))),
                    Settled]
           \<and> (\<forall>before s after.
                 getChatHistory (localStorage st1) = before @ s # after
                   \<and> (\<forall>x\<in>set before. session_id x \<noteq> turn_sessionId t)
                   \<and> session_id s = turn_sessionId t \<longrightarrow>
                 sessions st2 = before @ s\<lparr>title := new_title\<rparr> # after
                   \<and> localStorage st2 = saveChatHistory (sessions st2) (localStorage st1))
           \<and> ((\<forall>x\<in>set (getChatHistory (localStorage st1)). session_id x \<noteq> turn_sessionId t) \<longrightarrow>
                 sessions st2 = getChatHistory (localStorage st1)
                   \<and> localStorage st2 = localStorage st1)
           \<and> handleSendMessage title_reply reply messageText imageFile st
               = handleSendMessage_streaming reply st t st2
           \<and> exchange (handleSendMessage title_reply reply messageText imageFile st) =
               exchange st2
                 @ [Requested (GenerateContentStream
                      [Content User ((case turn_imagePart t of None \<Rightarrow> [] | Some p \<Rightarrow> [p])
                                       @ [TextPart (turn_text t)])]
                      (if language st = ''pt-BR'' then ''Responda em portugu'' @ e_circumflex
                        @ ''s do Brasil.'' else ''Respond in English.''))]
                 @ map Yielded (map the (filter truthy (chunks reply))) @ [Settled]"
proof -
  obtain new_title where
    new_title: "snd (generateChatTitle title_reply (turn_text t) (language st)) = Inr new_title"
    using generateChatTitle_never_raises by blast
  define st2 where
    "st2 = st1\<lparr>exchange := exchange st1
                   @ [Requested (GenerateContent
                        (''Generate a title for a chat starting with: '' @ [dquote]
                           @ turn_text t @ [dquote])
                        (title_systemInstruction (language st))), Settled],
               localStorage := snd (updateSessionTitle (turn_sessionId t) new_title (localStorage st1)),
               sessions := fst (updateSessionTitle (turn_sessionId t) new_title (localStorage st1))\<rparr>"
  have titled: "handleSendMessage_title title_reply st t st1 = Inr st2"
    unfolding st2_def by (rule title_exchange [OF assms(2) new_title])
  have quiet: "exchange st1 = exchange st"
    by (rule sending_state(2) [OF assms(1)])
  have fallback: "(\<exists>error. title_reply = Inl error) \<or> title_reply = Inr None \<longrightarrow>
      new_title = fallbackTitle (language st)"
    using new_title generateChatTitle_failed by auto
  have asked: "exchange st2 =
      exchange st
        @ [Requested (GenerateContent
             (''Generate a title for a chat starting with: '' @ [dquote] @ turn_text t @ [dquote])
             (title_systemInstruction (language st))), Settled]"
    by (simp add: st2_def quiet)
  have found: "\<forall>before s after.
      getChatHistory (localStorage st1) = before @ s # after
        \<and> (\<forall>x\<in>set before. session_id x \<noteq> turn_sessionId t)
        \<and> session_id s = turn_sessionId t \<longrightarrow>
      sessions st2 = before @ s\<lparr>title := new_title\<rparr> # after
        \<and> localStorage st2 = saveChatHistory (sessions st2) (localStorage st1)"
    by (auto simp add: st2_def updateSessionTitle_found)
  have missing: "(\<forall>x\<in>set (getChatHistory (localStorage st1)). session_id x \<noteq> turn_sessionId t) \<longrightarrow>
      sessions st2 = getChatHistory (localStorage st1) \<and> localStorage st2 = localStorage st1"
    by (simp add: st2_def updateSessionTitle_missing)
  have short: "butlast (turn_messages t) = []"
    using assms(2) by (cases "turn_messages t") simp_all
  have whole: "handleSendMessage title_reply reply messageText imageFile st
      = handleSendMessage_streaming reply st t st2"
    using assms(1) titled by (simp add: handleSendMessage_def)
  have streamed: "exchange (handleSendMessage title_reply reply messageText imageFile st) =
      exchange st2
        @ [Requested (GenerateContentStream
             [Content User ((case turn_imagePart t of None \<Rightarrow> [] | Some p \<Rightarrow> [p])
                              @ [TextPart (turn_text t)])]
             (if language st = ''pt-BR'' then ''Responda em portugu'' @ e_circumflex
               @ ''s do Brasil.'' else ''Respond in English.''))]
        @ map Yielded (map the (filter truthy (chunks reply))) @ [Settled]"
    unfolding whole by (simp add: streaming_exchange short)
  show ?thesis
    using new_title fallback titled quiet asked found missing whole streamed by blast
qed

lemma hi_there_fragments: "map the (filter truthy (chunks hi_there)) = [''Hi'', '' there'']"
  by (simp add: hi_there_def truthy_def)

lemma title_Greeting:
  "snd (generateChatTitle (Inr (Some ''Title: Greeting'')) firstMessage lang) = Inr ''Greeting''"
proof -
  have "utf8 ([] @ [''T'', ''i'', ''t'', ''l'', ''e''] @ ['':''] @ ['' ''] @ map (\<lambda>c. [c]) ''Greeting'' @ [])"
    "title_word [''T'', ''i'', ''t'', ''l'', ''e'']" "list_all is_decoration ['' '']"
    "bare (map (\<lambda>c. [c]) ''Greeting'')"
    by code_simp+
  then have "snd (generateChatTitle
      (Inr (Some (concat ([] @ [''T'', ''i'', ''t'', ''l'', ''e''] @ ['':''] @ ['' '']
         @ map (\<lambda>c. [c]) ''Greeting'' @ [])))) firstMessage lang)
      = Inr (concat (map (\<lambda>c. [c]) ''Greeting''))"
    by (intro generateChatTitle_prefixed) simp_all
  then show ?thesis by simp
qed

lemma closed_store_saved:
  "saveChatHistory h closed_store = closed_store"
  "addSearchHistoryEntry q closed_store = closed_store"
  by (simp_all add: saveChatHistory_def addSearchHistoryEntry_def saveSearchHistory_def
      setItem_def closed_store_def Let_def)

lemma one_unsaved_chat_state:
  "sessions one_unsaved_chat = [new_chat]"
  "activeSessionId one_unsaved_chat = Some midnight"
  "\<not> isLoading one_unsaved_chat"
  "language one_unsaved_chat = ''pt-BR''"
  "exchange one_unsaved_chat = []"
  "localStorage one_unsaved_chat = closed_store"
proof -
  have lang: "getItem closed_store ''app_language'' = None"
    by (simp add: getItem_def closed_store_def)
  have m: "one_unsaved_chat =
      (initial_state closed_store)\<lparr>sessions := [new_chat], activeSessionId := Some midnight\<rparr>"
    using lang
    by (simp add: one_unsaved_chat_def mount_def handleNewSession_def createNewSession_def
        getChatHistory_closed_store closed_store_saved initial_state_def Let_def new_chat_def
        truthy_def)
  show "sessions one_unsaved_chat = [new_chat]" "activeSessionId one_unsaved_chat = Some midnight"
    "\<not> isLoading one_unsaved_chat" "language one_unsaved_chat = ''pt-BR''"
    "exchange one_unsaved_chat = []" "localStorage one_unsaved_chat = closed_store"
    unfolding m by (simp_all add: initial_state_def)
qed

theorem handleSendMessage_awaits_title_witness:
  "exchange (handleSendMessage (Inr (Some ''Title: Greeting'')) hi_there ''Hello'' None one_open_chat)
     = [Requested (GenerateContent
          (''Generate a title for a chat starting with: '' @ [dquote] @ ''Hello'' @ [dquote])
          (title_systemInstruction ''pt-BR'')),
        Settled,
        Requested (GenerateContentStream [Content User [TextPart ''Hello'']] (''Responda em portugu''
          @ e_circumflex @ ''s do Brasil.'')),
        Yielded ''Hi'', Yielded '' there'', Settled]
   \<and> (case handleSendMessage_sending ''Hello'' None one_open_chat of
         None \<Rightarrow> False
       | Some (t, st1) \<Rightarrow>
           (case handleSendMessage_title (Inr (Some ''Title: Greeting'')) one_open_chat t st1 of
              Inl st2 \<Rightarrow> False
            | Inr st2 \<Rightarrow>
                map title (sessions st2) = [''Greeting'']
                \<and> map title (getChatHistory (localStorage st2)) = [''Greeting'']
                \<and> exchange st2
                    = [Requested (GenerateContent
                         (''Generate a title for a chat starting with: '' @ [dquote] @ ''Hello''
                            @ [dquote])
                         (title_systemInstruction ''pt-BR'')),
                       Settled]))
   \<and> (case handleSendMessage_sending ''Hello'' None one_open_chat of
         None \<Rightarrow> False
       | Some (t, st1) \<Rightarrow>
           (case handleSendMessage_title (Inl (ErrorString ''503'')) one_open_chat t st1 of
              Inl st2 \<Rightarrow> False
            | Inr st2 \<Rightarrow> map title (sessions st2) = [''Novo Chat'']))
   \<and> (case handleSendMessage_sending ''Hello'' None one_unsaved_chat of
         None \<Rightarrow> False
       | Some (t, st1) \<Rightarrow>
           map title (sessions st1) = [''Novo Chat'']
           \<and> (case handleSendMessage_title (Inr (Some ''Title: Greeting'')) one_unsaved_chat t st1 of
                Inl st2 \<Rightarrow> False
              | Inr st2 \<Rightarrow> sessions st2 = [] \<and> localStorage st2 = closed_store))"
proof -
  obtain t st1 where sending: "handleSendMessage_sending ''Hello'' None one_open_chat = Some (t, st1)"
    by (simp add: handleSendMessage_sending_def one_open_chat_state midnight_nonempty Let_def)
  have t: "turn_text t = ''Hello''" "turn_imagePart t = None"
    "turn_messages t = [\<lparr>sender = User, msg_text = ''Hello'', imageUrl = None, videoUrl = None\<rparr>]"
    "turn_sessionId t = midnight"
    using sending sending_turn [OF sending]
    by (auto simp add: one_open_chat_state new_chat_def handleSendMessage_sending_def Let_def
        midnight_nonempty)
  have first: "length (turn_messages t) = 1"
    by (simp add: t)
  have st1: "sessions st1 = [new_chat\<lparr>messages := turn_messages t\<rparr>]"
    "localStorage st1 = saveChatHistory (sessions st1)
       (addSearchHistoryEntry ''Hello'' (localStorage one_open_chat))"
    using sending
    by (auto simp add: handleSendMessage_sending_def one_open_chat_state midnight_nonempty Let_def
        updateMessages_def new_chat_def)
  have open1: "accepts (localStorage st1) held k v" for held k v
    unfolding st1(2) by (simp add: accepts_saved one_open_chat_accepts)
  have kept: "getChatHistory (localStorage st1) = [] @ new_chat\<lparr>messages := turn_messages t\<rparr> # []"
    unfolding st1(2) st1(1)
    by (simp add: getChatHistory_saved accepts_saved one_open_chat_accepts)
  obtain new_title st2 where
    new_title: "snd (generateChatTitle (Inr (Some ''Title: Greeting'')) (turn_text t)
        (language one_open_chat)) = Inr new_title"
    and titled: "handleSendMessage_title (Inr (Some ''Title: Greeting'')) one_open_chat t st1 = Inr st2"
    and asked: "exchange st2 =
       exchange one_open_chat
         @ [Requested (GenerateContent
              (''Generate a title for a chat starting with: '' @ [dquote] @ turn_text t @ [dquote])
              (title_systemInstruction (language one_open_chat))),
            Settled]"
    and found: "\<forall>before s after.
       getChatHistory (localStorage st1) = before @ s # after
         \<and> (\<forall>x\<in>set before. session_id x \<noteq> turn_sessionId t)
         \<and> session_id s = turn_sessionId t \<longrightarrow>
       sessions st2 = before @ s\<lparr>title := new_title\<rparr> # after
         \<and> localStorage st2 = saveChatHistory (sessions st2) (localStorage st1)"
    and streamed: "exchange (handleSendMessage (Inr (Some ''Title: Greeting'')) hi_there ''Hello'' None
          one_open_chat) =
       exchange st2
         @ [Requested (GenerateContentStream
              [Content User ((case turn_imagePart t of None \<Rightarrow> [] | Some p \<Rightarrow> [p])
                               @ [TextPart (turn_text t)])]
              (if language one_open_chat = ''pt-BR'' then ''Responda em portugu'' @ e_circumflex
                @ ''s do Brasil.'' else ''Respond in English.''))]
         @ map Yielded (map the (filter truthy (chunks hi_there))) @ [Settled]"
    using handleSendMessage_awaits_title [OF sending first, of "Inr (Some ''Title: Greeting'')" hi_there]
    by blast
  have greeting: "new_title = ''Greeting''"
    using new_title by (simp add: title_Greeting)
  have "session_id (new_chat\<lparr>messages := turn_messages t\<rparr>) = turn_sessionId t"
    by (simp add: new_chat_def t)
  then have st2: "sessions st2 = [new_chat\<lparr>messages := turn_messages t, title := new_title\<rparr>]"
    "localStorage st2 = saveChatHistory (sessions st2) (localStorage st1)"
    using found kept by (metis append_Nil empty_iff list.set(1))+
  have mine: "session_id (new_chat\<lparr>messages := turn_messages t\<rparr>) = turn_sessionId t"
    by (simp add: new_chat_def t)
  obtain failed st3 where
    failed: "Inl (ErrorString ''503'') = Inl (ErrorString ''503'')
        \<longrightarrow> failed = fallbackTitle (language one_open_chat)"
    and untitled: "handleSendMessage_title (Inl (ErrorString ''503'')) one_open_chat t st1 = Inr st3"
    and found3: "\<forall>before s after.
       getChatHistory (localStorage st1) = before @ s # after
         \<and> (\<forall>x\<in>set before. session_id x \<noteq> turn_sessionId t)
         \<and> session_id s = turn_sessionId t \<longrightarrow>
       sessions st3 = before @ s\<lparr>title := failed\<rparr> # after
         \<and> localStorage st3 = saveChatHistory (sessions st3) (localStorage st1)"
    using handleSendMessage_awaits_title [OF sending first, of "Inl (ErrorString ''503'')" hi_there]
    by blast
  have st3: "sessions st3 = [new_chat\<lparr>messages := turn_messages t, title := failed\<rparr>]"
    using found3 kept mine by (metis append_Nil empty_iff list.set(1))
  have one: "map title (sessions st3) = [''Novo Chat'']"
    using failed by (simp add: st3 fallbackTitle_def one_open_chat_state)
  obtain u su1 where unsaved: "handleSendMessage_sending ''Hello'' None one_unsaved_chat = Some (u, su1)"
    by (simp add: handleSendMessage_sending_def one_unsaved_chat_state midnight_nonempty Let_def)
  have u: "turn_messages u = [\<lparr>sender = User, msg_text = ''Hello'', imageUrl = None, videoUrl = None\<rparr>]"
    using unsaved sending_turn [OF unsaved]
    by (auto simp add: one_unsaved_chat_state new_chat_def handleSendMessage_sending_def Let_def
        midnight_nonempty)
  have firstu: "length (turn_messages u) = 1"
    by (simp add: u)
  have su1: "sessions su1 = [new_chat\<lparr>messages := turn_messages u\<rparr>]"
    "localStorage su1 = closed_store"
    using unsaved
    by (auto simp add: handleSendMessage_sending_def one_unsaved_chat_state midnight_nonempty Let_def
        updateMessages_def new_chat_def closed_store_saved)
  obtain su2 where
    titledu: "handleSendMessage_title (Inr (Some ''Title: Greeting'')) one_unsaved_chat u su1 = Inr su2"
    and missing: "(\<forall>x\<in>set (getChatHistory (localStorage su1)). session_id x \<noteq> turn_sessionId u) \<longrightarrow>
       sessions su2 = getChatHistory (localStorage su1) \<and> localStorage su2 = localStorage su1"
    using handleSendMessage_awaits_title [OF unsaved firstu, of "Inr (Some ''Title: Greeting'')" hi_there]
    by blast
  have two: "sessions su2 = [] \<and> localStorage su2 = closed_store"
    using missing by (simp add: su1(2) getChatHistory_closed_store)
  have "getChatHistory (localStorage st2) = sessions st2"
    unfolding st2(2) by (rule getChatHistory_saved) (rule open1)
  then show ?thesis
    using sending titled asked streamed untitled one unsaved titledu two
    by (simp add: st2(1) greeting t one_open_chat_state hi_there_fragments su1(1) new_chat_def)
qed

text \<open>
  In the first turn of a new chat, what is exchanged with the provider before the stream is
  requested is the title request and its settling: the stream has waited for the title.
\<close>

theorem handleSendMessage_title_first_counterexample:
  "takeWhile (\<lambda>e. \<not> is_stream_request e)
     (exchange (handleSendMessage (Inr (Some ''Title: Greeting'')) hi_there ''Hello'' None one_open_chat))
     = [Requested (GenerateContent
          (''Generate a title for a chat starting with: '' @ [dquote] @ ''Hello'' @ [dquote])
          (title_systemInstruction ''pt-BR'')),
        Settled]"
proof -
  obtain t st1 where sending: "handleSendMessage_sending ''Hello'' None one_open_chat = Some (t, st1)"
    by (simp add: handleSendMessage_sending_def one_open_chat_state midnight_nonempty Let_def)
  have t: "turn_text t = ''Hello''" "turn_imagePart t = None"
    "turn_messages t = [\<lparr>sender = User, msg_text = ''Hello'', imageUrl = None, videoUrl = None\<rparr>]"
    using sending sending_turn [OF sending]
    by (auto simp add: one_open_chat_state new_chat_def handleSendMessage_sending_def Let_def
        midnight_nonempty)
  obtain new_title where
    new_title: "snd (generateChatTitle (Inr (Some ''Title: Greeting'')) (turn_text t)
        (language one_open_chat)) = Inr new_title"
    using generateChatTitle_never_raises by blast
  have "exchange (handleSendMessage (Inr (Some ''Title: Greeting'')) hi_there ''Hello'' None one_open_chat)
     = [Requested (GenerateContent
          (''Generate a title for a chat starting with: '' @ [dquote] @ ''Hello'' @ [dquote])
          (title_systemInstruction ''pt-BR'')),
        Settled,
        Requested (GenerateContentStream [Content User [TextPart ''Hello'']] (''Responda em portugu''
          @ e_circumflex @ ''s do Brasil.'')),
        Yielded ''Hi'', Yielded '' there'', Settled]"
    using sending sending_state(2) [OF sending] title_exchange [of t _ one_open_chat new_title st1, OF _ new_title]
    by (simp add: handleSendMessage_def streaming_exchange t one_open_chat_state hi_there_fragments)
  then show ?thesis by simp
qed

section \<open>App: one video turn\<close>

lemma waiting_guard:
  assumes "handleGenerateVideo_waiting prompt st = Some (t, st1)"
  shows "activeSessionId st = Some (turn_sessionId t)" "turn_sessionId t \<noteq> []"
    "\<not> isLoading st" "isVideoGenAvailable st"
  using assms
  by (auto simp add: handleGenerateVideo_waiting_def Let_def split: option.splits if_splits)

lemma waiting_turn:
  assumes "handleGenerateVideo_waiting prompt st = Some (t, st1)"
  shows "turn_messages t =
           (case find (\<lambda>s. Some (session_id s) = activeSessionId st) (sessions st) of
              None \<Rightarrow> []
            | Some activeSession \<Rightarrow> messages activeSession)
           @ [\<lparr>sender = User, msg_text = (''Gerar v'' @ i_acute @ ''deo: '' @ [dquote])
             @ prompt @ [dquote],
                imageUrl = None, videoUrl = None\<rparr>]"
  using assms
  by (auto simp add: handleGenerateVideo_waiting_def Let_def split: option.splits if_splits)

lemma waiting_state:
  assumes "handleGenerateVideo_waiting prompt st = Some (t, st1)"
  shows "sessions st1 =
           map (\<lambda>session. if session_id session = turn_sessionId t
                            then session\<lparr>messages := turn_messages t
                              @ [waitingMessage]\<rparr>
                            else session) (sessions st)"
    and "\<exists>ls. localStorage st1 = saveChatHistory (sessions st1) ls"
    and "exchange st1 = exchange st" and "isLoading st1"
    and "isImageGenAvailable st1 = isImageGenAvailable st"
    and "isVideoGenAvailable st1 = isVideoGenAvailable st"
  using assms
  by (auto simp add: handleGenerateVideo_waiting_def Let_def updateMessages_def
      split: option.splits if_splits)

lemma settled_with_video:
  "handleGenerateVideo_settled (events, Inr video) prompt cl t st =
     (updateMessages cl (turn_sessionId t)
        (turn_messages t
           @ [\<lparr>sender = Model, msg_text = (''Aqui est'' @ a_acute @ '' o v'' @ i_acute
             @ ''deo que voc'' @ e_circumflex @ '' pediu: '' @ [dquote]) @ prompt @ [dquote],
               imageUrl = None, videoUrl = Some video\<rparr>])
        (st\<lparr>exchange := exchange st @ events\<rparr>))\<lparr>isLoading := False\<rparr>"
  by (simp add: handleGenerateVideo_settled_def Let_def)

lemma waiting_store:
  assumes "handleGenerateVideo_waiting prompt st = Some (t, st1)"
  shows "localStorage st1 =
           saveChatHistory (sessions st1)
             (saveChatHistory
                (map (\<lambda>session. if session_id session = turn_sessionId t
                                 then session\<lparr>messages := turn_messages t\<rparr> else session)
                   (sessions st))
                (addSearchHistoryEntry
                   (''Gerar v'' @ i_acute @ ''deo: '' @ [dquote] @ prompt @ [dquote])
                   (localStorage st)))"
  using assms
  by (auto simp add: handleGenerateVideo_waiting_def Let_def updateMessages_def
      split: option.splits if_splits cong: if_cong)

lemma generateVideo_events:
  assumes "generateVideo API_KEY reply prompt = Some (events, result)"
  shows "\<exists>polls. events = Requested (GenerateVideos prompt) # Settled # polls"
  using assms by (auto simp add: generateVideo_def split: option.splits sum.splits)

text \<open>
  C1 (as amended). In a video turn that is admitted and whose generation succeeds, the
  transcript of the turn is the messages the active session held followed by the user's
  message. The placeholder is appended after it, and the collection is given to the
  store, before anything is asked of the provider: the log of the exchange is still what
  it was. Then the request is sent. When the video is there the transcript is written
  again as the transcript of the turn followed by the message with the video: the final
  message takes the place of the placeholder, and is not appended after it.
\<close>

theorem handleGenerateVideo_replaces_placeholder:
  assumes "handleGenerateVideo_waiting prompt st = Some (t, st1)"
    and "generateVideo API_KEY reply prompt = Some (events, Inr video)"
  shows "activeSessionId st = Some (turn_sessionId t)
         \<and> turn_messages t =
             (case find (\<lambda>s. Some (session_id s) = activeSessionId st) (sessions st) of
                None \<Rightarrow> []
              | Some activeSession \<Rightarrow> messages activeSession)
             @ [\<lparr>sender = User,
                 msg_text = ''Gerar v'' @ i_acute @ ''deo: '' @ [dquote] @ prompt @ [dquote],
                 imageUrl = None, videoUrl = None\<rparr>]
         \<and> sessions st1 =
             map (\<lambda>session. if session_id session = turn_sessionId t
                              then session\<lparr>messages := turn_messages t @ [waitingMessage]\<rparr>
                              else session) (sessions st)
         \<and> localStorage st1 =
             saveChatHistory (sessions st1)
               (saveChatHistory
                  (map (\<lambda>session. if session_id session = turn_sessionId t
                                   then session\<lparr>messages := turn_messages t\<rparr> else session)
                     (sessions st))
                  (addSearchHistoryEntry
                     (''Gerar v'' @ i_acute @ ''deo: '' @ [dquote] @ prompt @ [dquote])
                     (localStorage st)))
         \<and> exchange st1 = exchange st
         \<and> (\<exists>polls. events = Requested (GenerateVideos prompt) # Settled # polls)
         \<and> (\<exists>st'. handleGenerateVideo API_KEY reply prompt st = Some st'
               \<and> sessions st' =
                   map (\<lambda>session.
                          if session_id session = turn_sessionId t
                          then session\<lparr>messages :=
                                 turn_messages t
                                   @ [\<lparr>sender = Model,
                                       msg_text = (''Aqui est'' @ a_acute @ '' o v'' @ i_acute
                                         @ ''deo que voc'' @ e_circumflex @ '' pediu: ''
                                         @ [dquote]) @ prompt @ [dquote],
                                       imageUrl = None, videoUrl = Some video\<rparr>]\<rparr>
                          else session)
                     (sessions st)
               \<and> localStorage st' = saveChatHistory (sessions st') (localStorage st1)
               \<and> exchange st' = exchange st @ events
               \<and> \<not> isLoading st')"
proof -
  have "\<exists>st'. handleGenerateVideo API_KEY reply prompt st = Some st'
      \<and> sessions st' =
          map (\<lambda>session.
                 if session_id session = turn_sessionId t
                 then session\<lparr>messages :=
                        turn_messages t
                          @ [\<lparr>sender = Model,
                              msg_text = (''Aqui est'' @ a_acute @ '' o v'' @ i_acute
                                @ ''deo que voc'' @ e_circumflex @ '' pediu: ''
                                @ [dquote]) @ prompt @ [dquote],
                              imageUrl = None, videoUrl = Some video\<rparr>]\<rparr>
                 else session)
            (sessions st)
      \<and> localStorage st' = saveChatHistory (sessions st') (localStorage st1)
      \<and> exchange st' = exchange st @ events
      \<and> \<not> isLoading st'"
    using assms waiting_state(3) [OF assms(1)]
    by (simp add: handleGenerateVideo_def settled_with_video updateMessages_def Let_def)
  then show ?thesis
    using waiting_guard(1) [OF assms(1)] waiting_turn [OF assms(1)] waiting_state(1,3) [OF assms(1)]
      waiting_store [OF assms(1)] generateVideo_events [OF assms(2)]
    by (intro conjI) simp_all
qed

lemma two_polls_video:
  "generateVideo ''KEY'' two_polls prompt =
     Some ([Requested (GenerateVideos prompt), Settled, Requested GetVideosOperation, Settled,
            Requested GetVideosOperation, Settled],
           Inr ''https://video.example/1?alt=media&key=KEY'')"
proof -
  have "poll (getVideosOperation two_polls) 0 \<lparr>is_done = False, uri = None\<rparr>
      = Some (2, Inr \<lparr>is_done = True, uri = Some ''https://video.example/1?alt=media''\<rparr>)"
    by (simp add: poll.simps two_polls_def numeral_2_eq_2)
  moreover have "generateVideos two_polls = Inr \<lparr>is_done = False, uri = None\<rparr>"
    by (simp add: two_polls_def)
  ultimately show ?thesis
    by (simp add: generateVideo_def try_catch_def truthy_def Let_def numeral_2_eq_2)
qed

lemma one_open_chat_waiting:
  "\<exists>t st1. handleGenerateVideo_waiting prompt one_open_chat = Some (t, st1)
     \<and> turn_sessionId t = midnight
     \<and> turn_messages t = [\<lparr>sender = User, msg_text = (''Gerar v'' @ i_acute
       @ ''deo: '' @ [dquote]) @ prompt @ [dquote],
                               imageUrl = None, videoUrl = None\<rparr>]"
  by (simp add: handleGenerateVideo_waiting_def one_open_chat_state midnight_nonempty Let_def new_chat_def)

lemma one_saved_chat_state:
  "sessions one_saved_chat = one_chat"
  "activeSessionId one_saved_chat = Some midnight"
  "\<not> isLoading one_saved_chat" "isVideoGenAvailable one_saved_chat"
  "exchange one_saved_chat = []"
proof -
  have saved: "saveChatHistory one_chat open_store
      = open_store\<lparr>items := [CHAT_HISTORY_KEY \<mapsto> JSON_stringify (sessions_json one_chat)]\<rparr>"
    using open_store_saved(1) [of one_chat Map.empty] by (simp add: open_store_items)
  have loaded: "getChatHistory (saveChatHistory one_chat open_store) = one_chat"
    by (simp add: getChatHistory_saved open_store_accepts)
  have lang: "getItem (saveChatHistory one_chat open_store) ''app_language'' = None"
    unfolding saved by (simp add: getItem_def open_store_def CHAT_HISTORY_KEY_def)
  have m: "one_saved_chat =
      (initial_state (saveChatHistory one_chat open_store))\<lparr>sessions := one_chat,
         activeSessionId := Some midnight\<rparr>"
    using lang
    by (simp add: one_saved_chat_def mount_def loaded initial_state_def Let_def truthy_def)
       (simp add: one_chat_def midnight_def)
  show "sessions one_saved_chat = one_chat" "activeSessionId one_saved_chat = Some midnight"
    "\<not> isLoading one_saved_chat" "isVideoGenAvailable one_saved_chat"
    "exchange one_saved_chat = []"
    unfolding m by (simp_all add: initial_state_def)
qed

theorem handleGenerateVideo_replaces_placeholder_witness:
  "map_option (map messages \<circ> sessions \<circ> snd) (handleGenerateVideo_waiting ''a cat'' one_saved_chat)
   = Some [[\<lparr>sender = User, msg_text = ''Hi'', imageUrl = Some ''blob:1'', videoUrl = None\<rparr>,
            \<lparr>sender = Model, msg_text = ''Hello'', imageUrl = None, videoUrl = None\<rparr>,
            \<lparr>sender = User, msg_text = (''Gerar v'' @ i_acute @ ''deo: '' @ [dquote])
              @ ''a cat'' @ [dquote],
              imageUrl = None, videoUrl = None\<rparr>,
            waitingMessage]]
   \<and> map_option (exchange \<circ> snd) (handleGenerateVideo_waiting ''a cat'' one_saved_chat) = Some []
   \<and> map_option (map messages \<circ> sessions) (handleGenerateVideo ''KEY'' two_polls ''a cat'' one_saved_chat)
   = Some [[\<lparr>sender = User, msg_text = ''Hi'', imageUrl = Some ''blob:1'', videoUrl = None\<rparr>,
            \<lparr>sender = Model, msg_text = ''Hello'', imageUrl = None, videoUrl = None\<rparr>,
            \<lparr>sender = User, msg_text = (''Gerar v'' @ i_acute @ ''deo: '' @ [dquote])
              @ ''a cat'' @ [dquote],
              imageUrl = None, videoUrl = None\<rparr>,
            \<lparr>sender = Model, msg_text = (''Aqui est'' @ a_acute @ '' o v'' @ i_acute
              @ ''deo que voc'' @ e_circumflex @ '' pediu: '' @ [dquote]) @ ''a cat'' @ [dquote],
              imageUrl = None, videoUrl = Some ''https://video.example/1?alt=media&key=KEY''\<rparr>]]
   \<and> map_option exchange (handleGenerateVideo ''KEY'' two_polls ''a cat'' one_saved_chat)
   = Some [Requested (GenerateVideos ''a cat''), Settled, Requested GetVideosOperation, Settled,
           Requested GetVideosOperation, Settled]"
proof -
  obtain t st1 where waiting: "handleGenerateVideo_waiting ''a cat'' one_saved_chat = Some (t, st1)"
    by (simp add: handleGenerateVideo_waiting_def one_saved_chat_state midnight_nonempty Let_def)
  have active: "find (\<lambda>s. Some (session_id s) = Some midnight) one_chat = Some (hd one_chat)"
    by (simp add: one_chat_def midnight_def)
  show ?thesis
    using handleGenerateVideo_replaces_placeholder [OF waiting two_polls_video]
    by (auto simp add: waiting one_saved_chat_state active) (simp_all add: one_chat_def midnight_def)
qed

text \<open>
  The operation is pending when started and at the first poll, and done at the second,
  with a link. The transcript afterwards is the user's message and the message with the
  video: the placeholder is not in it.
\<close>

theorem handleGenerateVideo_placeholder_counterexample:
  "map_option (\<lambda>st'. waitingMessage \<in> set (concat (map messages (sessions st'))))
     (handleGenerateVideo ''KEY'' two_polls ''a cat'' one_open_chat) = Some False"
proof -
  obtain t st1 where waiting: "handleGenerateVideo_waiting ''a cat'' one_open_chat = Some (t, st1)"
    and t: "turn_sessionId t = midnight"
      "turn_messages t = [\<lparr>sender = User, msg_text = (''Gerar v'' @ i_acute @ ''deo: ''
        @ [dquote]) @ ''a cat'' @ [dquote],
                               imageUrl = None, videoUrl = None\<rparr>]"
    using one_open_chat_waiting by blast
  show ?thesis
    using waiting
    by (simp add: handleGenerateVideo_def two_polls_video settled_with_video updateMessages_def
        Let_def t one_open_chat_state new_chat_def waitingMessage_def)
qed

section \<open>App: the availability of image and video generation\<close>

lemma streaming_flags:
  "isImageGenAvailable (handleSendMessage_streaming reply cl t st) = isImageGenAvailable st"
  "isVideoGenAvailable (handleSendMessage_streaming reply cl t st) = isVideoGenAvailable st"
  by (simp_all add: handleSendMessage_streaming_def Let_def updateMessages_def
      split: prod.splits option.splits)

lemma handleSendMessage_flags:
  "isImageGenAvailable (handleSendMessage title_reply reply messageText imageFile st)
     = isImageGenAvailable st"
  "isVideoGenAvailable (handleSendMessage title_reply reply messageText imageFile st)
     = isVideoGenAvailable st"
proof -
  show "isImageGenAvailable (handleSendMessage title_reply reply messageText imageFile st)
     = isImageGenAvailable st"
  proof (cases "handleSendMessage_sending messageText imageFile st")
    case None
    then show ?thesis by (simp add: handleSendMessage_def)
  next
    case (Some a)
    then obtain t st1 where sending: "handleSendMessage_sending messageText imageFile st = Some (t, st1)"
      by (cases a) simp
    obtain st2 where titled: "handleSendMessage_title title_reply st t st1 = Inr st2"
      using title_never_aborts by blast
    show ?thesis
      using sending titled sending_state(4) [OF sending] title_state(1) [OF titled]
      by (simp add: handleSendMessage_def streaming_flags)
  qed
  show "isVideoGenAvailable (handleSendMessage title_reply reply messageText imageFile st)
     = isVideoGenAvailable st"
  proof (cases "handleSendMessage_sending messageText imageFile st")
    case None
    then show ?thesis by (simp add: handleSendMessage_def)
  next
    case (Some a)
    then obtain t st1 where sending: "handleSendMessage_sending messageText imageFile st = Some (t, st1)"
      by (cases a) simp
    obtain st2 where titled: "handleSendMessage_title title_reply st t st1 = Inr st2"
      using title_never_aborts by blast
    show ?thesis
      using sending titled sending_state(5) [OF sending] title_state(2) [OF titled]
      by (simp add: handleSendMessage_def streaming_flags)
  qed
qed

lemma handleGenerateImage_refused:
  "\<not> isImageGenAvailable st \<Longrightarrow> handleGenerateImage reply prompt st = st"
  by (simp add: handleGenerateImage_def split: option.splits)

lemma handleGenerateImage_flags:
  "isImageGenAvailable (handleGenerateImage reply prompt st) \<Longrightarrow> isImageGenAvailable st"
  "isVideoGenAvailable (handleGenerateImage reply prompt st) = isVideoGenAvailable st"
  by (auto simp add: handleGenerateImage_def Let_def updateMessages_def
      split: option.splits prod.splits sum.splits if_splits)

lemma handleGenerateImage_billing:
  assumes "activeSessionId st = Some sessionId" "sessionId \<noteq> []" "\<not> isLoading st"
    and "snd (generateImage reply prompt) = Inl error" "instanceof_BillingError error"
  shows "\<not> isImageGenAvailable (handleGenerateImage reply prompt st)"
  using assms
  by (auto simp add: handleGenerateImage_def Let_def updateMessages_def
      split: option.splits prod.splits sum.splits if_splits)

lemma handleGenerateVideo_refused:
  "\<not> isVideoGenAvailable st \<Longrightarrow> handleGenerateVideo API_KEY reply prompt st = Some st"
  by (simp add: handleGenerateVideo_def handleGenerateVideo_waiting_def split: option.splits)

lemma settled_flags:
  "isVideoGenAvailable (handleGenerateVideo_settled outcome prompt cl t st) \<Longrightarrow> isVideoGenAvailable st"
  "isImageGenAvailable (handleGenerateVideo_settled outcome prompt cl t st) = isImageGenAvailable st"
  by (auto simp add: handleGenerateVideo_settled_def Let_def updateMessages_def
      split: prod.splits sum.splits if_splits)

lemma handleGenerateVideo_flags:
  assumes "handleGenerateVideo API_KEY reply prompt st = Some st'"
  shows "isVideoGenAvailable st' \<Longrightarrow> isVideoGenAvailable st"
    and "isImageGenAvailable st' = isImageGenAvailable st"
proof -
  show "isVideoGenAvailable st' \<Longrightarrow> isVideoGenAvailable st"
    using assms waiting_state(6) settled_flags(1)
    by (fastforce simp add: handleGenerateVideo_def split: option.splits)
  show "isImageGenAvailable st' = isImageGenAvailable st"
    using assms waiting_state(5) settled_flags(2)
    by (fastforce simp add: handleGenerateVideo_def split: option.splits)
qed

lemma handleGenerateVideo_billing:
  assumes "handleGenerateVideo_waiting prompt st = Some (t, st1)"
    and "generateVideo API_KEY reply prompt = Some (events, Inl error)"
    and "instanceof_BillingError error"
  shows "\<exists>st'. handleGenerateVideo API_KEY reply prompt st = Some st' \<and> \<not> isVideoGenAvailable st'"
  using assms
  by (simp add: handleGenerateVideo_def handleGenerateVideo_settled_def Let_def updateMessages_def)

lemma handleNewSession_flags:
  "isImageGenAvailable (handleNewSession now st) = isImageGenAvailable st"
  "isVideoGenAvailable (handleNewSession now st) = isVideoGenAvailable st"
  by (simp_all add: handleNewSession_def split: prod.splits)

lemma other_handlers_flags:
  "isImageGenAvailable (handleDeleteSession now sessionId st) = isImageGenAvailable st"
  "isVideoGenAvailable (handleDeleteSession now sessionId st) = isVideoGenAvailable st"
  "isImageGenAvailable (handleClearAllHistory now st) = isImageGenAvailable st"
  "isVideoGenAvailable (handleClearAllHistory now st) = isVideoGenAvailable st"
  "isImageGenAvailable (handleLanguageChange lang st) = isImageGenAvailable st"
  "isVideoGenAvailable (handleLanguageChange lang st) = isVideoGenAvailable st"
  by (simp_all add: handleDeleteSession_def handleClearAllHistory_def handleLanguageChange_def
      handleNewSession_flags Let_def split: prod.splits option.splits)

lemma perform_flags:
  assumes "perform a st = Some st'"
  shows "isImageGenAvailable st' \<Longrightarrow> isImageGenAvailable st"
    and "isVideoGenAvailable st' \<Longrightarrow> isVideoGenAvailable st"
proof -
  show "isImageGenAvailable st' \<Longrightarrow> isImageGenAvailable st"
    using assms handleGenerateImage_flags(1) handleGenerateVideo_flags(2)
    by (cases a) (auto simp add: handleSendMessage_flags handleStudy_def handleLearn_def
        handleNewSession_flags other_handlers_flags)
  show "isVideoGenAvailable st' \<Longrightarrow> isVideoGenAvailable st"
    using assms handleGenerateVideo_flags(1)
    by (cases a) (auto simp add: handleSendMessage_flags handleStudy_def handleLearn_def
        handleNewSession_flags other_handlers_flags handleGenerateImage_flags(2))
qed

lemma run_flags:
  assumes "run actions st = Some st'"
  shows "isImageGenAvailable st' \<Longrightarrow> isImageGenAvailable st"
    and "isVideoGenAvailable st' \<Longrightarrow> isVideoGenAvailable st"
  using assms
  by (induction actions arbitrary: st) (auto split: option.splits dest: perform_flags)

text \<open>
  C3. Both flags are true when the component starts. No sequence of actions brings a
  flag that is false back to true. An image turn that is admitted and fails with the
  billing error leaves the image flag false, and a video turn likewise the video flag.
  While a flag is false a request of its kind returns at once: the state, the stores and
  the log of the exchange with the provider are what they were.
\<close>

theorem availability_flags_only_fall:
  "isImageGenAvailable (initial_state ls) \<and> isVideoGenAvailable (initial_state ls)
   \<and> (run actions st = Some st' \<and> \<not> isImageGenAvailable st \<longrightarrow> \<not> isImageGenAvailable st')
   \<and> (run actions st = Some st' \<and> \<not> isVideoGenAvailable st \<longrightarrow> \<not> isVideoGenAvailable st')
   \<and> (activeSessionId st = Some sessionId \<and> sessionId \<noteq> [] \<and> \<not> isLoading st
        \<and> snd (generateImage image_reply prompt) = Inl error \<and> instanceof_BillingError error \<longrightarrow>
        \<not> isImageGenAvailable (handleGenerateImage image_reply prompt st))
   \<and> (handleGenerateVideo_waiting prompt st = Some (t, st1)
        \<and> generateVideo API_KEY reply prompt = Some (events, Inl error)
        \<and> instanceof_BillingError error \<longrightarrow>
        (\<exists>st2. handleGenerateVideo API_KEY reply prompt st = Some st2 \<and> \<not> isVideoGenAvailable st2))
   \<and> (\<not> isImageGenAvailable st \<longrightarrow> handleGenerateImage image_reply prompt st = st)
   \<and> (\<not> isVideoGenAvailable st \<longrightarrow> handleGenerateVideo API_KEY reply prompt st = Some st)"
  using run_flags [of actions st st'] handleGenerateImage_billing [of st sessionId image_reply prompt error]
    handleGenerateVideo_billing [of prompt st t st1 API_KEY reply events error]
    handleGenerateImage_refused [of st image_reply prompt]
    handleGenerateVideo_refused [of st API_KEY reply prompt]
  by (auto simp add: initial_state_def)

lemma billed_users_only_image:
  "snd (generateImage (Inl billed_users_only) prompt) =
     Inl (handleApiError billed_users_only (''gera'' @ c_cedilla @ a_tilde @ ''o de imagem''))"
  "instanceof_BillingError (handleApiError billed_users_only ctx)"
proof -
  show "snd (generateImage (Inl billed_users_only) prompt) =
     Inl (handleApiError billed_users_only (''gera'' @ c_cedilla @ a_tilde @ ''o de imagem''))"
    by (simp add: generateImage_def try_catch_def)
  have "str_includes (extract_message billed_users_only) ''billed users''"
    by (simp add: billed_users_only_def extract_message_cases startsWith_def)
  then show "instanceof_BillingError (handleApiError billed_users_only ctx)"
    by (simp add: handleApiError_def Let_def)
qed

lemma no_billing_video_raises:
  "generateVideo ''KEY'' no_billing_video prompt =
     Some ([Requested (GenerateVideos prompt), Settled],
           Inl (handleApiError billed_users_only (''gera'' @ c_cedilla @ a_tilde @ ''o de v''
             @ i_acute @ ''deo'')))"
  by (simp add: generateVideo_def no_billing_video_def try_catch_def)

theorem availability_flags_only_fall_witness:
  "\<not> isImageGenAvailable (handleGenerateImage (Inl billed_users_only) ''a cat'' one_open_chat)
   \<and> run [GenerateImage (Inl billed_users_only) ''a cat'', GenerateImage (Inr (Some ''iVBORw0KGgo='')) ''a dog'']
         one_open_chat
       = Some (handleGenerateImage (Inl billed_users_only) ''a cat'' one_open_chat)
   \<and> exchange (handleGenerateImage (Inl billed_users_only) ''a cat'' one_open_chat)
       = [Requested (GenerateImages ''a cat''), Settled]
   \<and> map_option isImageGenAvailable
         (run [GenerateImage (Inl billed_users_only) ''a cat'', NewSession ''2025-01-02T00:00:00.000Z'',
               SendMessage (Inr (Some ''Title: Greeting'')) hi_there ''Hello'' None,
               GenerateImage (Inr (Some ''iVBORw0KGgo='')) ''a dog'']
            one_open_chat) = Some False
   \<and> map_option isVideoGenAvailable
         (handleGenerateVideo ''KEY'' no_billing_video ''a cat'' one_open_chat) = Some False
   \<and> map_option isVideoGenAvailable
         (run [GenerateVideo ''KEY'' no_billing_video ''a cat'', GenerateVideo ''KEY'' two_polls ''a cat'']
            one_open_chat) = Some False"
proof -
  let ?st1 = "handleGenerateImage (Inl billed_users_only) ''a cat'' one_open_chat"
  note facts = availability_flags_only_fall [where st = one_open_chat and sessionId = midnight
      and image_reply = "Inl billed_users_only" and prompt = "''a cat''"
      and error = "handleApiError billed_users_only (''gera'' @ c_cedilla @ a_tilde
        @ ''o de imagem'')"]
  have fallen: "\<not> isImageGenAvailable ?st1"
    using facts billed_users_only_image one_open_chat_state(2,3) midnight_nonempty by blast
  note again = availability_flags_only_fall [where st = ?st1
      and image_reply = "Inr (Some ''iVBORw0KGgo='')" and prompt = "''a dog''"]
  have noop: "handleGenerateImage (Inr (Some ''iVBORw0KGgo='')) ''a dog'' ?st1 = ?st1"
    using again fallen by blast
  have log: "exchange ?st1 = [Requested (GenerateImages ''a cat''), Settled]"
    by (simp add: handleGenerateImage_def one_open_chat_state midnight_nonempty generateImage_def
        updateMessages_def Let_def split: sum.splits)
  obtain st3 where later:
    "run [NewSession ''2025-01-02T00:00:00.000Z'',
          SendMessage (Inr (Some ''Title: Greeting'')) hi_there ''Hello'' None,
          GenerateImage (Inr (Some ''iVBORw0KGgo='')) ''a dog''] ?st1 = Some st3"
    by simp
  have "\<not> isImageGenAvailable st3"
    using availability_flags_only_fall [where st = ?st1 and st' = st3
        and actions = "[NewSession ''2025-01-02T00:00:00.000Z'',
          SendMessage (Inr (Some ''Title: Greeting'')) hi_there ''Hello'' None,
          GenerateImage (Inr (Some ''iVBORw0KGgo='')) ''a dog'']"] later fallen
    by blast
  then have still: "map_option isImageGenAvailable
         (run [GenerateImage (Inl billed_users_only) ''a cat'', NewSession ''2025-01-02T00:00:00.000Z'',
               SendMessage (Inr (Some ''Title: Greeting'')) hi_there ''Hello'' None,
               GenerateImage (Inr (Some ''iVBORw0KGgo='')) ''a dog'']
            one_open_chat) = Some False"
    using later by simp
  obtain t st1 where waiting: "handleGenerateVideo_waiting ''a cat'' one_open_chat = Some (t, st1)"
    using one_open_chat_waiting by blast
  obtain st4 where video: "handleGenerateVideo ''KEY'' no_billing_video ''a cat'' one_open_chat = Some st4"
    and down: "\<not> isVideoGenAvailable st4"
    using availability_flags_only_fall [where st = one_open_chat and prompt = "''a cat''" and t = t
        and ?st1.0 = st1 and API_KEY = "''KEY''" and reply = no_billing_video
        and events = "[Requested (GenerateVideos ''a cat''), Settled]"
        and error = "handleApiError billed_users_only (''gera'' @ c_cedilla @ a_tilde @ ''o de v''
          @ i_acute @ ''deo'')"]
      waiting no_billing_video_raises billed_users_only_image(2)
    by blast
  have refused: "handleGenerateVideo ''KEY'' two_polls ''a cat'' st4 = Some st4"
    using availability_flags_only_fall [where st = st4 and API_KEY = "''KEY''" and reply = two_polls
        and prompt = "''a cat''"] down
    by blast
  show ?thesis
    using fallen noop log still video down refused by simp
qed

end
